theory Spec2Isabelle
  imports
    Complex_Main
    "HOL-Library.List_Lexorder"
    "HOL-Library.Char_ord"
    "HOL-Library.Product_Lexorder"
begin

section \<open>Python floats\<close>

text \<open>
  A Python \<open>float\<close> is modelled as an exact real extended with the three special values
  of IEEE 754. Arithmetic on finite values is exact: rounding, overflow and the sign of
  zero are not modelled (a zero divisor is taken as \<open>+0.0\<close>). The special values follow
  IEEE 754, which is what numpy and pandas compute elementwise.
\<close>

datatype pyfloat = Fin real | PInf | NInf | NaN

datatype pyerror = ZeroDivisionError string | ValueError string | KeyError string

fun is_finite :: "pyfloat \<Rightarrow> bool" where
  "is_finite (Fin a) = True"
| "is_finite PInf = False"
| "is_finite NInf = False"
| "is_finite NaN = False"

fun fneg :: "pyfloat \<Rightarrow> pyfloat" where
  "fneg (Fin a) = Fin (- a)"
| "fneg PInf = NInf"
| "fneg NInf = PInf"
| "fneg NaN = NaN"

fun fadd :: "pyfloat \<Rightarrow> pyfloat \<Rightarrow> pyfloat" where
  "fadd NaN y = NaN"
| "fadd x NaN = NaN"
| "fadd (Fin a) (Fin b) = Fin (a + b)"
| "fadd (Fin a) PInf = PInf"
| "fadd (Fin a) NInf = NInf"
| "fadd PInf (Fin b) = PInf"
| "fadd NInf (Fin b) = NInf"
| "fadd PInf PInf = PInf"
| "fadd NInf NInf = NInf"
| "fadd PInf NInf = NaN"
| "fadd NInf PInf = NaN"

definition fsub :: "pyfloat \<Rightarrow> pyfloat \<Rightarrow> pyfloat" where
  "fsub x y = fadd x (fneg y)"

fun fmul :: "pyfloat \<Rightarrow> pyfloat \<Rightarrow> pyfloat" where
  "fmul NaN y = NaN"
| "fmul x NaN = NaN"
| "fmul (Fin a) (Fin b) = Fin (a * b)"
| "fmul (Fin a) PInf = (if a = 0 then NaN else if 0 < a then PInf else NInf)"
| "fmul (Fin a) NInf = (if a = 0 then NaN else if 0 < a then NInf else PInf)"
| "fmul PInf (Fin b) = (if b = 0 then NaN else if 0 < b then PInf else NInf)"
| "fmul NInf (Fin b) = (if b = 0 then NaN else if 0 < b then NInf else PInf)"
| "fmul PInf PInf = PInf"
| "fmul NInf NInf = PInf"
| "fmul PInf NInf = NInf"
| "fmul NInf PInf = NInf"

text \<open>
  Elementwise division of numpy and pandas: a zero divisor gives an infinity or NaN and
  never raises.
\<close>

fun fdiv :: "pyfloat \<Rightarrow> pyfloat \<Rightarrow> pyfloat" where
  "fdiv NaN y = NaN"
| "fdiv x NaN = NaN"
| "fdiv (Fin a) (Fin b) =
     (if b \<noteq> 0 then Fin (a / b)
      else if a = 0 then NaN else if 0 < a then PInf else NInf)"
| "fdiv (Fin a) PInf = Fin 0"
| "fdiv (Fin a) NInf = Fin 0"
| "fdiv PInf (Fin b) = (if 0 \<le> b then PInf else NInf)"
| "fdiv NInf (Fin b) = (if 0 \<le> b then NInf else PInf)"
| "fdiv PInf PInf = NaN"
| "fdiv PInf NInf = NaN"
| "fdiv NInf PInf = NaN"
| "fdiv NInf NInf = NaN"

text \<open>
  The operator \<open>/\<close> on two Python scalars: a zero divisor raises ZeroDivisionError,
  whatever the dividend is.
\<close>

definition pydiv :: "pyfloat \<Rightarrow> pyfloat \<Rightarrow> pyerror + pyfloat" where
  "pydiv x y =
     (if y = Fin 0 then Inl (ZeroDivisionError ''float division by zero'')
      else Inr (fdiv x y))"

primrec fpow :: "pyfloat \<Rightarrow> nat \<Rightarrow> pyfloat" where
  "fpow x 0 = Fin 1"
| "fpow x (Suc n) = fmul x (fpow x n)"

fun fabs :: "pyfloat \<Rightarrow> pyfloat" where
  "fabs (Fin a) = Fin \<bar>a\<bar>"
| "fabs PInf = PInf"
| "fabs NInf = PInf"
| "fabs NaN = NaN"

text \<open>
  \<open>Series.sum()\<close> of pandas (with its default \<open>skipna=True\<close>) and \<open>numpy.nansum\<close>:
  NaN entries are left out, and the sum of nothing is \<open>0.0\<close>.
\<close>

definition pdsum :: "pyfloat list \<Rightarrow> pyfloat" where
  "pdsum xs = foldl fadd (Fin 0) (filter (\<lambda>x. x \<noteq> NaN) xs)"

text \<open>The plain sum of a column, in which a NaN entry makes the sum NaN.\<close>

definition fsum :: "pyfloat list \<Rightarrow> pyfloat" where
  "fsum xs = foldl fadd (Fin 0) xs"

section \<open>Python strings\<close>

text \<open>
  Wall names are taken to be ASCII strings: \<open>upper\<close> maps the letters a to z and
  \<open>strip\<close> removes the ASCII whitespace characters of \<open>str.isspace\<close>.
\<close>

definition isspace :: "char \<Rightarrow> bool" where
  "isspace c =
     (let n = (of_char c :: nat) in (9 \<le> n \<and> n \<le> 13) \<or> (28 \<le> n \<and> n \<le> 32))"

definition strip :: "string \<Rightarrow> string" where
  "strip s = rev (dropWhile isspace (rev (dropWhile isspace s)))"

definition upper_char :: "char \<Rightarrow> char" where
  "upper_char c =
     (let n = (of_char c :: nat) in if 97 \<le> n \<and> n \<le> 122 then char_of (n - 32) else c)"

definition upper :: "string \<Rightarrow> string" where
  "upper s = map upper_char s"

fun startswith :: "string \<Rightarrow> string \<Rightarrow> bool" where
  "startswith s [] = True"
| "startswith [] (p # ps) = False"
| "startswith (c # cs) (p # ps) = (c = p \<and> startswith cs ps)"

text \<open>\<open>str_in p s\<close> is Python's \<open>p in s\<close> on strings.\<close>

fun str_in :: "string \<Rightarrow> string \<Rightarrow> bool" where
  "str_in p [] = (p = [])"
| "str_in p (c # cs) = (startswith (c # cs) p \<or> str_in p cs)"

section \<open>The console script (rigid\_diaphragm\_analysis\_R1.py)\<close>

record inputs =
  inp_L :: pyfloat
  inp_B :: pyfloat
  inp_Xcm_manual :: pyfloat
  inp_Ycm_manual :: pyfloat
  inp_W :: pyfloat
  inp_X_offset :: pyfloat
  inp_Y_offset :: pyfloat
  inp_Fx :: pyfloat
  inp_Fy :: pyfloat

text \<open>
  A wall dictionary with its required keys; the value of \<open>w_k (kN)\<close> may be Python's
  \<open>None\<close>.
\<close>

record wall =
  Wall_Name :: string
  Length_m :: pyfloat
  Height_m :: pyfloat
  w_k_kN :: "pyfloat option"
  x_coord_m :: pyfloat
  y_coord_m :: pyfloat

text \<open>The columns of the result table, in the order in which the solver adds them.\<close>

record geo_row = wall +
  xk_m :: pyfloat
  yk_m :: pyfloat
  Di :: pyfloat

record rig_row = geo_row +
  Rix :: pyfloat
  Riy :: pyfloat

record base_row = rig_row +
  Riy_xk :: pyfloat
  Rix_yk :: pyfloat

record mid_row = base_row +
  xbar :: pyfloat
  ybar :: pyfloat
  Riy_xbar2 :: pyfloat
  Rix_ybar2 :: pyfloat

record row = mid_row +
  Real_Tor_Ratio_x :: pyfloat
  Real_Tor_Ratio_y :: pyfloat
  Vx_Real_Tor :: pyfloat
  Vy_Real_Tor :: pyfloat
  Direct_Shear_Ratio_x :: pyfloat
  Direct_Shear_Ratio_y :: pyfloat
  Direct_Shear_x :: pyfloat
  Direct_Shear_y :: pyfloat
  AccTorRatio_x :: pyfloat
  AccTorRatio_y :: pyfloat
  Vx_Acc_Tor :: pyfloat
  Vy_Acc_Tor :: pyfloat
  Vx_kN :: pyfloat
  Vy_kN :: pyfloat

record summary =
  sm_L :: pyfloat
  sm_B :: pyfloat
  sm_X_offset :: pyfloat
  sm_Y_offset :: pyfloat
  sm_Xcm :: pyfloat
  sm_Ycm :: pyfloat
  sm_Xcr :: pyfloat
  sm_Ycr :: pyfloat
  sm_ex :: pyfloat
  sm_ey :: pyfloat
  sm_exbar :: pyfloat
  sm_eybar :: pyfloat
  sm_Jp :: pyfloat
  sm_Fx :: pyfloat
  sm_Fy :: pyfloat
  sm_sum_Rix :: pyfloat
  sm_sum_Riy :: pyfloat

definition clean_wall_name :: "string \<Rightarrow> string" where
  "clean_wall_name name = strip name"

definition name_error_R1 :: "string \<Rightarrow> string" where
  "name_error_R1 wall_name =
     ''Wall Name '' @ [CHR 0x27] @ wall_name @ [CHR 0x27] @ '' must contain '' @
     [CHR 0x27] @ ''EW'' @ [CHR 0x27] @ '' or '' @ [CHR 0x27] @ ''NS'' @ [CHR 0x27] @
     '' so the script can assign Rix/Riy.''"

definition wall_orientation_factors_R1 ::
  "string \<Rightarrow> pyfloat \<Rightarrow> pyerror + (pyfloat \<times> pyfloat)" where
  "wall_orientation_factors_R1 wall_name D =
     (let nm = upper wall_name in
      if str_in ''EW'' nm then
        (case pydiv (Fin 1) D of Inl e \<Rightarrow> Inl e | Inr r \<Rightarrow> Inr (r, Fin 0))
      else if str_in ''NS'' nm then
        (case pydiv (Fin 1) D of Inl e \<Rightarrow> Inl e | Inr r \<Rightarrow> Inr (Fin 0, r))
      else Inl (ValueError (name_error_R1 wall_name)))"

text \<open>The body of the loop over the walls, which builds one row dictionary.\<close>

definition wall_row_R1 :: "pyfloat \<Rightarrow> pyfloat \<Rightarrow> wall \<Rightarrow> pyerror + base_row" where
  "wall_row_R1 X_offset Y_offset w =
     (let name = clean_wall_name (Wall_Name w);
          length' = Length_m w;
          height = Height_m w;
          wk = w_k_kN w;
          x_coord = x_coord_m w;
          y_coord = y_coord_m w;
          xk = fsub x_coord X_offset;
          yk = fsub y_coord Y_offset
      in case pydiv height length' of
           Inl e \<Rightarrow> Inl e
         | Inr hl \<Rightarrow>
             (let D = fadd (fmul (Fin 4) (fpow hl 3)) (fmul (Fin 3) hl) in
              case wall_orientation_factors_R1 name D of
                Inl e \<Rightarrow> Inl e
              | Inr (rix, riy) \<Rightarrow>
                  Inr \<lparr>Wall_Name = name, Length_m = length', Height_m = height,
                       w_k_kN = wk, x_coord_m = x_coord, y_coord_m = y_coord,
                       xk_m = xk, yk_m = yk, Di = D, Rix = rix, Riy = riy,
                       Riy_xk = fmul riy xk, Rix_yk = fmul rix yk\<rparr>))"

fun build_rows_R1 :: "pyfloat \<Rightarrow> pyfloat \<Rightarrow> wall list \<Rightarrow> pyerror + base_row list" where
  "build_rows_R1 X_offset Y_offset [] = Inr []"
| "build_rows_R1 X_offset Y_offset (w # ws) =
     (case wall_row_R1 X_offset Y_offset w of
        Inl e \<Rightarrow> Inl e
      | Inr r \<Rightarrow>
          (case build_rows_R1 X_offset Y_offset ws of
             Inl e \<Rightarrow> Inl e
           | Inr rs \<Rightarrow> Inr (r # rs)))"

text \<open>The columns \<open>xbar\<close>, \<open>ybar\<close> and the two terms of Jp.\<close>

definition rel_columns :: "pyfloat \<Rightarrow> pyfloat \<Rightarrow> base_row \<Rightarrow> mid_row" where
  "rel_columns Xcr Ycr b =
     (let xb = fsub (xk_m b) Xcr;
          yb = fsub (yk_m b) Ycr
      in \<lparr>Wall_Name = Wall_Name b, Length_m = Length_m b, Height_m = Height_m b,
          w_k_kN = w_k_kN b, x_coord_m = x_coord_m b, y_coord_m = y_coord_m b,
          xk_m = xk_m b, yk_m = yk_m b, Di = Di b, Rix = Rix b, Riy = Riy b,
          Riy_xk = Riy_xk b, Rix_yk = Rix_yk b,
          xbar = xb, ybar = yb,
          Riy_xbar2 = fmul (Riy b) (fpow xb 2),
          Rix_ybar2 = fmul (Rix b) (fpow yb 2)\<rparr>)"

text \<open>
  The shear columns: real torsion, direct shear, accidental torsion and the totals.
  The division by \<open>Jp\<close> is the elementwise one of pandas.
\<close>

definition shear_columns ::
  "pyfloat \<Rightarrow> pyfloat \<Rightarrow> pyfloat \<Rightarrow> pyfloat \<Rightarrow> pyfloat \<Rightarrow> pyfloat \<Rightarrow>
   pyfloat \<Rightarrow> pyfloat \<Rightarrow> pyfloat \<Rightarrow> mid_row \<Rightarrow> row" where
  "shear_columns Fx Fy exbar eybar ex ey sum_Rix sum_Riy Jp m =
     (let real_tor_ratio_x = fdiv (fmul (fmul (Rix m) (ybar m)) ey) Jp;
          real_tor_ratio_y = fdiv (fmul (fmul (Riy m) (xbar m)) ex) Jp;
          vx_real_tor = fmul Fx real_tor_ratio_x;
          vy_real_tor = fmul Fy real_tor_ratio_y;
          direct_shear_ratio_x = (if sum_Rix \<noteq> Fin 0 then fdiv (Rix m) sum_Rix else Fin 0);
          direct_shear_ratio_y = (if sum_Riy \<noteq> Fin 0 then fdiv (Riy m) sum_Riy else Fin 0);
          direct_shear_x = fmul Fx direct_shear_ratio_x;
          direct_shear_y = fmul Fy direct_shear_ratio_y;
          acc_tor_ratio_x = fdiv (fmul (fmul eybar (Rix m)) (ybar m)) Jp;
          acc_tor_ratio_y = fdiv (fmul (fmul exbar (Riy m)) (xbar m)) Jp;
          vx_acc_tor = fmul Fy acc_tor_ratio_x;
          vy_acc_tor = fmul Fx acc_tor_ratio_y
      in \<lparr>Wall_Name = Wall_Name m, Length_m = Length_m m, Height_m = Height_m m,
          w_k_kN = w_k_kN m, x_coord_m = x_coord_m m, y_coord_m = y_coord_m m,
          xk_m = xk_m m, yk_m = yk_m m, Di = Di m, Rix = Rix m, Riy = Riy m,
          Riy_xk = Riy_xk m, Rix_yk = Rix_yk m,
          xbar = xbar m, ybar = ybar m,
          Riy_xbar2 = Riy_xbar2 m, Rix_ybar2 = Rix_ybar2 m,
          Real_Tor_Ratio_x = real_tor_ratio_x, Real_Tor_Ratio_y = real_tor_ratio_y,
          Vx_Real_Tor = vx_real_tor, Vy_Real_Tor = vy_real_tor,
          Direct_Shear_Ratio_x = direct_shear_ratio_x,
          Direct_Shear_Ratio_y = direct_shear_ratio_y,
          Direct_Shear_x = direct_shear_x, Direct_Shear_y = direct_shear_y,
          AccTorRatio_x = acc_tor_ratio_x, AccTorRatio_y = acc_tor_ratio_y,
          Vx_Acc_Tor = vx_acc_tor, Vy_Acc_Tor = vy_acc_tor,
          Vx_kN = fadd (fadd vx_real_tor direct_shear_x) vx_acc_tor,
          Vy_kN = fadd (fadd vy_real_tor direct_shear_y) (fabs vy_acc_tor)\<rparr>)"

text \<open>
  \<open>compute_rigid_diaphragm\<close> of the console script. An empty wall list gives a data
  frame without columns, and the first column access raises KeyError.
\<close>

definition compute_rigid_diaphragm_R1 ::
  "inputs \<Rightarrow> wall list \<Rightarrow> pyerror + (row list \<times> summary)" where
  "compute_rigid_diaphragm_R1 inp walls =
     (let L = inp_L inp; B = inp_B inp;
          Xcm_manual = inp_Xcm_manual inp; Ycm_manual = inp_Ycm_manual inp;
          X_offset = inp_X_offset inp; Y_offset = inp_Y_offset inp;
          Fx = inp_Fx inp; Fy = inp_Fy inp;
          exbar = fmul (Fin (1 / 10)) L;
          eybar = fmul (Fin (1 / 10)) B;
          Xcm = fsub Xcm_manual X_offset;
          Ycm = fsub Ycm_manual Y_offset
      in case build_rows_R1 X_offset Y_offset walls of
           Inl e \<Rightarrow> Inl e
         | Inr rows \<Rightarrow>
             if rows = [] then Inl (KeyError ''Rix'')
             else
               (let sum_Rix = pdsum (map Rix rows);
                    sum_Riy = pdsum (map Riy rows);
                    Xcr = (if sum_Riy \<noteq> Fin 0
                           then fdiv (pdsum (map Riy_xk rows)) sum_Riy else NaN);
                    Ycr = (if sum_Rix \<noteq> Fin 0
                           then fdiv (pdsum (map Rix_yk rows)) sum_Rix else NaN);
                    ex = fabs (fsub Xcm Xcr);
                    ey = fabs (fsub Ycm Ycr);
                    mids = map (rel_columns Xcr Ycr) rows;
                    Jp = fadd (pdsum (map Riy_xbar2 mids)) (pdsum (map Rix_ybar2 mids));
                    df = map (shear_columns Fx Fy exbar eybar ex ey sum_Rix sum_Riy Jp) mids
                in Inr (df,
                     \<lparr>sm_L = L, sm_B = B, sm_X_offset = X_offset, sm_Y_offset = Y_offset,
                      sm_Xcm = Xcm, sm_Ycm = Ycm, sm_Xcr = Xcr, sm_Ycr = Ycr,
                      sm_ex = ex, sm_ey = ey, sm_exbar = exbar, sm_eybar = eybar,
                      sm_Jp = Jp, sm_Fx = Fx, sm_Fy = Fy,
                      sm_sum_Rix = sum_Rix, sm_sum_Riy = sum_Riy\<rparr>)))"

section \<open>The table application (rigid\_diaphragm\_app\_v2.py)\<close>

record summary_v2 = summary +
  sm_W :: pyfloat

definition name_error_v2 :: "string \<Rightarrow> string" where
  "name_error_v2 wall_name =
     ''Wall Name '' @ [CHR 0x27] @ wall_name @ [CHR 0x27] @ '' must contain '' @
     [CHR 0x27] @ ''EW'' @ [CHR 0x27] @ '' or '' @ [CHR 0x27] @ ''NS'' @ [CHR 0x27] @ ''.''"

definition wall_orientation_factors_v2 ::
  "string \<Rightarrow> pyfloat \<Rightarrow> pyerror + (pyfloat \<times> pyfloat)" where
  "wall_orientation_factors_v2 wall_name D =
     (let nm = upper wall_name in
      if str_in ''EW'' nm then
        (case pydiv (Fin 1) D of Inl e \<Rightarrow> Inl e | Inr r \<Rightarrow> Inr (r, Fin 0))
      else if str_in ''NS'' nm then
        (case pydiv (Fin 1) D of Inl e \<Rightarrow> Inl e | Inr r \<Rightarrow> Inr (Fin 0, r))
      else Inl (ValueError (name_error_v2 wall_name)))"

text \<open>
  The columns computed on the whole data frame before the names are classified: the
  stripped name, the working coordinates and \<open>Di\<close>, with the elementwise division.
\<close>

definition geo_columns_v2 :: "pyfloat \<Rightarrow> pyfloat \<Rightarrow> wall \<Rightarrow> geo_row" where
  "geo_columns_v2 X_offset Y_offset w =
     (let hl = fdiv (Height_m w) (Length_m w) in
      \<lparr>Wall_Name = strip (Wall_Name w), Length_m = Length_m w, Height_m = Height_m w,
       w_k_kN = w_k_kN w, x_coord_m = x_coord_m w, y_coord_m = y_coord_m w,
       xk_m = fsub (x_coord_m w) X_offset, yk_m = fsub (y_coord_m w) Y_offset,
       Di = fadd (fmul (Fin 4) (fpow hl 3)) (fmul (Fin 3) hl)\<rparr>)"

text \<open>The loop that classifies each name; it stops at the first error.\<close>

fun orient_rows_v2 :: "geo_row list \<Rightarrow> pyerror + rig_row list" where
  "orient_rows_v2 [] = Inr []"
| "orient_rows_v2 (g # gs) =
     (case wall_orientation_factors_v2 (Wall_Name g) (Di g) of
        Inl e \<Rightarrow> Inl e
      | Inr (rix, riy) \<Rightarrow>
          (case orient_rows_v2 gs of
             Inl e \<Rightarrow> Inl e
           | Inr rs \<Rightarrow>
               Inr (\<lparr>Wall_Name = Wall_Name g, Length_m = Length_m g, Height_m = Height_m g,
                     w_k_kN = w_k_kN g, x_coord_m = x_coord_m g, y_coord_m = y_coord_m g,
                     xk_m = xk_m g, yk_m = yk_m g, Di = Di g,
                     Rix = rix, Riy = riy\<rparr> # rs)))"

definition dir_order :: "string \<Rightarrow> nat" where
  "dir_order nm =
     (let nm' = upper nm in
      if str_in ''EW'' nm' then 0 else if str_in ''NS'' nm' then 1 else 2)"

text \<open>The stable sort by direction and then by name.\<close>

definition sort_walls :: "('a rig_row_scheme) list \<Rightarrow> ('a rig_row_scheme) list" where
  "sort_walls rows = sort_key (\<lambda>r. (dir_order (Wall_Name r), Wall_Name r)) rows"

definition cor_columns :: "rig_row \<Rightarrow> base_row" where
  "cor_columns r =
     \<lparr>Wall_Name = Wall_Name r, Length_m = Length_m r, Height_m = Height_m r,
      w_k_kN = w_k_kN r, x_coord_m = x_coord_m r, y_coord_m = y_coord_m r,
      xk_m = xk_m r, yk_m = yk_m r, Di = Di r, Rix = Rix r, Riy = Riy r,
      Riy_xk = fmul (Riy r) (xk_m r), Rix_yk = fmul (Rix r) (yk_m r)\<rparr>"

definition compute_rigid_diaphragm_v2 ::
  "inputs \<Rightarrow> wall list \<Rightarrow> pyerror + (row list \<times> summary_v2)" where
  "compute_rigid_diaphragm_v2 inp walls =
     (let L = inp_L inp; B = inp_B inp;
          Xcm_manual = inp_Xcm_manual inp; Ycm_manual = inp_Ycm_manual inp;
          W = inp_W inp;
          X_offset = inp_X_offset inp; Y_offset = inp_Y_offset inp;
          Fx = inp_Fx inp; Fy = inp_Fy inp;
          Xcm = fsub Xcm_manual X_offset;
          Ycm = fsub Ycm_manual Y_offset
      in if walls = [] then Inl (ValueError ''No walls provided.'')
         else
           case orient_rows_v2 (map (geo_columns_v2 X_offset Y_offset) walls) of
             Inl e \<Rightarrow> Inl e
           | Inr rigs \<Rightarrow>
               (let rows = map cor_columns (sort_walls rigs);
                    sum_Rix = pdsum (map Rix rows);
                    sum_Riy = pdsum (map Riy rows);
                    Xcr = (if sum_Riy \<noteq> Fin 0
                           then fdiv (pdsum (map Riy_xk rows)) sum_Riy else Fin 0);
                    Ycr = (if sum_Rix \<noteq> Fin 0
                           then fdiv (pdsum (map Rix_yk rows)) sum_Rix else Fin 0);
                    ex = fabs (fsub Xcm Xcr);
                    ey = fabs (fsub Ycm Ycr);
                    exbar = fmul (Fin (1 / 10)) L;
                    eybar = fmul (Fin (1 / 10)) B;
                    mids = map (rel_columns Xcr Ycr) rows;
                    Jp = fadd (pdsum (map Riy_xbar2 mids)) (pdsum (map Rix_ybar2 mids))
                in if Jp = Fin 0
                   then Inl (ZeroDivisionError ''Jp is zero (division by zero).'')
                   else
                     Inr (map (shear_columns Fx Fy exbar eybar ex ey sum_Rix sum_Riy Jp) mids,
                       \<lparr>sm_L = L, sm_B = B, sm_X_offset = X_offset, sm_Y_offset = Y_offset,
                        sm_Xcm = Xcm, sm_Ycm = Ycm, sm_Xcr = Xcr, sm_Ycr = Ycr,
                        sm_ex = ex, sm_ey = ey, sm_exbar = exbar, sm_eybar = eybar,
                        sm_Jp = Jp, sm_Fx = Fx, sm_Fy = Fy,
                        sm_sum_Rix = sum_Rix, sm_sum_Riy = sum_Riy, sm_W = W\<rparr>)))"

section \<open>The spreadsheet-like application (rigid\_streamlit\_app.py)\<close>

text \<open>
  A cell of the wall table or an entry of the input dictionary is \<open>None\<close> when it is
  missing, blank or not a number, and \<open>_to_float\<close> then gives the default.
\<close>

definition to_float :: "pyfloat option \<Rightarrow> pyfloat \<Rightarrow> pyfloat" where
  "to_float x default' = (case x of None \<Rightarrow> default' | Some v \<Rightarrow> v)"

record st_wall =
  w_marker :: string
  w_L :: "pyfloat option"
  w_H :: "pyfloat option"
  w_w :: "pyfloat option"
  w_x :: "pyfloat option"
  w_y :: "pyfloat option"

record st_inputs =
  in_Vx :: "pyfloat option"
  in_Vy :: "pyfloat option"
  in_origin_x :: "pyfloat option"
  in_origin_y :: "pyfloat option"
  in_plan_dim_x :: "pyfloat option"
  in_plan_dim_y :: "pyfloat option"
  in_diaphragm_w :: "pyfloat option"
  in_diaphragm_x :: "pyfloat option"
  in_diaphragm_y :: "pyfloat option"

record st_frame =
  st_marker :: string
  st_L :: pyfloat
  st_H :: pyfloat
  st_w :: pyfloat
  st_x :: pyfloat
  st_y :: pyfloat

record st_base = st_frame +
  st_xk :: pyfloat
  st_yk :: pyfloat
  st_delta :: pyfloat
  st_Ri_EW :: pyfloat
  st_Ri_NS :: pyfloat

record st_row = st_base +
  st_xbar :: pyfloat
  st_ybar :: pyfloat
  st_DirectRatio_X :: pyfloat
  st_DirectRatio_Y :: pyfloat
  st_DirectShear_X :: pyfloat
  st_DirectShear_Y :: pyfloat
  st_RealTorRatio_X :: pyfloat
  st_RealTorRatio_Y :: pyfloat
  st_AccTorRatio_X :: pyfloat
  st_AccTorRatio_Y :: pyfloat
  st_RealTor_X :: pyfloat
  st_RealTor_Y :: pyfloat
  st_AccTor_X :: pyfloat
  st_AccTor_Y :: pyfloat
  st_V_X :: pyfloat
  st_V_Y :: pyfloat

record st_globals =
  g_sum_Ri_EW :: pyfloat
  g_sum_Ri_NS :: pyfloat
  g_xr_local :: pyfloat
  g_yr_local :: pyfloat
  g_xcg_local :: pyfloat
  g_ycg_local :: pyfloat
  g_ex_real :: pyfloat
  g_ey_real :: pyfloat
  g_ex_acc :: pyfloat
  g_ey_acc :: pyfloat
  g_Jpx :: pyfloat
  g_Jpy :: pyfloat
  g_Jp :: pyfloat
  g_Wtot :: pyfloat

text \<open>The coercion of the numeric columns and the clean-up of the marker.\<close>

definition coerce_wall :: "st_wall \<Rightarrow> st_frame" where
  "coerce_wall w =
     \<lparr>st_marker = strip (if w_marker w = ''nan'' then [] else w_marker w),
      st_L = to_float (w_L w) NaN, st_H = to_float (w_H w) NaN,
      st_w = to_float (w_w w) NaN, st_x = to_float (w_x w) NaN,
      st_y = to_float (w_y w) NaN\<rparr>"

definition empty_row :: "st_frame \<Rightarrow> bool" where
  "empty_row r =
     (st_marker r = [] \<and> st_L r = NaN \<and> st_H r = NaN \<and> st_x r = NaN \<and> st_y r = NaN)"

definition base_columns :: "pyfloat \<Rightarrow> pyfloat \<Rightarrow> st_frame \<Rightarrow> st_base" where
  "base_columns ox oy r =
     (let hl = fdiv (st_H r) (st_L r);
          delta = fadd (fmul (Fin 4) (fpow hl 3)) (fmul (Fin 3) hl);
          is_EW = startswith (upper (st_marker r)) ''EW'';
          is_NS = startswith (upper (st_marker r)) ''NS''
      in \<lparr>st_marker = st_marker r, st_L = st_L r, st_H = st_H r, st_w = st_w r,
          st_x = st_x r, st_y = st_y r,
          st_xk = fsub (st_x r) ox, st_yk = fsub (st_y r) oy,
          st_delta = delta,
          st_Ri_EW = (if is_EW then fdiv (Fin 1) delta else Fin 0),
          st_Ri_NS = (if is_NS then fdiv (Fin 1) delta else Fin 0)\<rparr>)"

definition fillna0 :: "pyfloat \<Rightarrow> pyfloat" where
  "fillna0 x = (if x = NaN then Fin 0 else x)"

definition result_columns ::
  "pyfloat \<Rightarrow> pyfloat \<Rightarrow> pyfloat \<Rightarrow> pyfloat \<Rightarrow> pyfloat \<Rightarrow> pyfloat \<Rightarrow>
   pyfloat \<Rightarrow> pyfloat \<Rightarrow> pyfloat \<Rightarrow> pyfloat \<Rightarrow> pyfloat \<Rightarrow> st_base \<Rightarrow> st_row" where
  "result_columns Vx Vy xr yr sum_Ri_EW sum_Ri_NS Jp ex_real ey_real ex_acc ey_acc b =
     (let xb = fsub (st_xk b) xr;
          yb = fsub (st_yk b) yr;
          direct_ratio_x = (if sum_Ri_EW \<noteq> Fin 0 then fdiv (st_Ri_EW b) sum_Ri_EW else NaN);
          direct_ratio_y = (if sum_Ri_NS \<noteq> Fin 0 then fdiv (st_Ri_NS b) sum_Ri_NS else NaN);
          direct_shear_x = fmul Vx direct_ratio_x;
          direct_shear_y = fmul Vy direct_ratio_y;
          real_tor_ratio_x =
            (if Jp \<noteq> Fin 0 then fdiv (fmul (fmul ey_real (st_Ri_EW b)) yb) Jp else NaN);
          real_tor_ratio_y =
            (if Jp \<noteq> Fin 0 then fdiv (fmul (fmul ex_real (st_Ri_NS b)) xb) Jp else NaN);
          acc_tor_ratio_x =
            (if Jp \<noteq> Fin 0 then fdiv (fmul (fmul ey_acc (st_Ri_EW b)) yb) Jp else NaN);
          acc_tor_ratio_y =
            (if Jp \<noteq> Fin 0 then fdiv (fmul (fmul ex_acc (st_Ri_NS b)) xb) Jp else NaN);
          real_tor_x = fmul Vx real_tor_ratio_x;
          real_tor_y = fmul Vy real_tor_ratio_y;
          acc_tor_x = fmul Vx acc_tor_ratio_x;
          acc_tor_y = fmul Vy acc_tor_ratio_y
      in \<lparr>st_marker = st_marker b, st_L = st_L b, st_H = st_H b, st_w = st_w b,
          st_x = st_x b, st_y = st_y b,
          st_xk = st_xk b, st_yk = st_yk b, st_delta = st_delta b,
          st_Ri_EW = st_Ri_EW b, st_Ri_NS = st_Ri_NS b,
          st_xbar = xb, st_ybar = yb,
          st_DirectRatio_X = direct_ratio_x, st_DirectRatio_Y = direct_ratio_y,
          st_DirectShear_X = direct_shear_x, st_DirectShear_Y = direct_shear_y,
          st_RealTorRatio_X = real_tor_ratio_x, st_RealTorRatio_Y = real_tor_ratio_y,
          st_AccTorRatio_X = acc_tor_ratio_x, st_AccTorRatio_Y = acc_tor_ratio_y,
          st_RealTor_X = real_tor_x, st_RealTor_Y = real_tor_y,
          st_AccTor_X = acc_tor_x, st_AccTor_Y = acc_tor_y,
          st_V_X = fadd (fadd direct_shear_x real_tor_x) (fabs acc_tor_x),
          st_V_Y = fadd (fadd direct_shear_y real_tor_y) (fabs acc_tor_y)\<rparr>)"

definition compute_rigid_diaph :: "st_wall list \<Rightarrow> st_inputs \<Rightarrow> st_row list \<times> st_globals" where
  "compute_rigid_diaph walls inp =
     (let df0 = filter (\<lambda>r. \<not> empty_row r) (map coerce_wall walls);
          ox = to_float (in_origin_x inp) NaN;
          oy = to_float (in_origin_y inp) NaN;
          Vx = to_float (in_Vx inp) (Fin 0);
          Vy = to_float (in_Vy inp) (Fin 0);
          plan_x = to_float (in_plan_dim_x inp) (Fin 0);
          plan_y = to_float (in_plan_dim_y inp) (Fin 0);
          dia_w = to_float (in_diaphragm_w inp) (Fin 0);
          dia_x = to_float (in_diaphragm_x inp) NaN;
          dia_y = to_float (in_diaphragm_y inp) NaN;
          df = map (base_columns ox oy) df0;
          sum_Ri_EW = pdsum (map st_Ri_EW df);
          sum_Ri_NS = pdsum (map st_Ri_NS df);
          xr = (if sum_Ri_NS \<noteq> Fin 0
                then fdiv (pdsum (map (\<lambda>b. fmul (st_Ri_NS b) (st_xk b)) df)) sum_Ri_NS
                else NaN);
          yr = (if sum_Ri_EW \<noteq> Fin 0
                then fdiv (pdsum (map (\<lambda>b. fmul (st_Ri_EW b) (st_yk b)) df)) sum_Ri_EW
                else NaN);
          Jpy = pdsum (map (\<lambda>b. fmul (st_Ri_NS b) (fpow (fsub (st_xk b) xr) 2)) df);
          Jpx = pdsum (map (\<lambda>b. fmul (st_Ri_EW b) (fpow (fsub (st_yk b) yr) 2)) df);
          Jp = fadd Jpx Jpy;
          wall_w = map (\<lambda>b. fillna0 (st_w b)) df;
          dia_xk = fsub dia_x ox;
          dia_yk = fsub dia_y oy;
          Wtot = fadd (pdsum wall_w) (if dia_w = NaN then Fin 0 else dia_w);
          xcg = (if Wtot \<noteq> Fin 0
                 then fdiv (fadd (pdsum (map (\<lambda>b. fmul (fillna0 (st_w b)) (st_xk b)) df))
                                 (fmul dia_w dia_xk)) Wtot
                 else NaN);
          ycg = (if Wtot \<noteq> Fin 0
                 then fdiv (fadd (pdsum (map (\<lambda>b. fmul (fillna0 (st_w b)) (st_yk b)) df))
                                 (fmul dia_w dia_yk)) Wtot
                 else NaN);
          ex_real = (if xcg \<noteq> NaN \<and> xr \<noteq> NaN then fabs (fsub xcg xr) else NaN);
          ey_real = (if ycg \<noteq> NaN \<and> yr \<noteq> NaN then fabs (fsub ycg yr) else NaN);
          ex_acc = fmul (Fin (1 / 10)) plan_x;
          ey_acc = fmul (Fin (1 / 10)) plan_y
      in (map (result_columns Vx Vy xr yr sum_Ri_EW sum_Ri_NS Jp
                 ex_real ey_real ex_acc ey_acc) df,
          \<lparr>g_sum_Ri_EW = sum_Ri_EW, g_sum_Ri_NS = sum_Ri_NS,
           g_xr_local = xr, g_yr_local = yr, g_xcg_local = xcg, g_ycg_local = ycg,
           g_ex_real = ex_real, g_ey_real = ey_real, g_ex_acc = ex_acc, g_ey_acc = ey_acc,
           g_Jpx = Jpx, g_Jpy = Jpy, g_Jp = Jp, g_Wtot = Wtot\<rparr>))"

section \<open>Auxiliary definitions\<close>

text \<open>
  The summary scalars and the shear table as functions of the rows that enter the
  rigidity sums. The two \<open>compute_rigid_diaphragm\<close> functions are shown below to be
  built from them; \<open>undefined_cr\<close> is the value of a centre of rigidity whose
  rigidity sum is zero.
\<close>

definition cor_summary :: "pyfloat \<Rightarrow> inputs \<Rightarrow> base_row list \<Rightarrow> summary" where
  "cor_summary undefined_cr inp rows =
     (let sum_Rix = pdsum (map Rix rows);
          sum_Riy = pdsum (map Riy rows);
          Xcm = fsub (inp_Xcm_manual inp) (inp_X_offset inp);
          Ycm = fsub (inp_Ycm_manual inp) (inp_Y_offset inp);
          Xcr = (if sum_Riy \<noteq> Fin 0
                 then fdiv (pdsum (map Riy_xk rows)) sum_Riy else undefined_cr);
          Ycr = (if sum_Rix \<noteq> Fin 0
                 then fdiv (pdsum (map Rix_yk rows)) sum_Rix else undefined_cr);
          mids = map (rel_columns Xcr Ycr) rows
      in \<lparr>sm_L = inp_L inp, sm_B = inp_B inp,
          sm_X_offset = inp_X_offset inp, sm_Y_offset = inp_Y_offset inp,
          sm_Xcm = Xcm, sm_Ycm = Ycm, sm_Xcr = Xcr, sm_Ycr = Ycr,
          sm_ex = fabs (fsub Xcm Xcr), sm_ey = fabs (fsub Ycm Ycr),
          sm_exbar = fmul (Fin (1 / 10)) (inp_L inp),
          sm_eybar = fmul (Fin (1 / 10)) (inp_B inp),
          sm_Jp = fadd (pdsum (map Riy_xbar2 mids)) (pdsum (map Rix_ybar2 mids)),
          sm_Fx = inp_Fx inp, sm_Fy = inp_Fy inp,
          sm_sum_Rix = sum_Rix, sm_sum_Riy = sum_Riy\<rparr>)"

definition shear_table :: "summary \<Rightarrow> base_row list \<Rightarrow> row list" where
  "shear_table s rows =
     map (shear_columns (sm_Fx s) (sm_Fy s) (sm_exbar s) (sm_eybar s) (sm_ex s) (sm_ey s)
            (sm_sum_Rix s) (sm_sum_Riy s) (sm_Jp s))
       (map (rel_columns (sm_Xcr s) (sm_Ycr s)) rows)"

definition with_W :: "summary \<Rightarrow> pyfloat \<Rightarrow> summary_v2" where
  "with_W s W =
     \<lparr>sm_L = sm_L s, sm_B = sm_B s, sm_X_offset = sm_X_offset s, sm_Y_offset = sm_Y_offset s,
      sm_Xcm = sm_Xcm s, sm_Ycm = sm_Ycm s, sm_Xcr = sm_Xcr s, sm_Ycr = sm_Ycr s,
      sm_ex = sm_ex s, sm_ey = sm_ey s, sm_exbar = sm_exbar s, sm_eybar = sm_eybar s,
      sm_Jp = sm_Jp s, sm_Fx = sm_Fx s, sm_Fy = sm_Fy s,
      sm_sum_Rix = sm_sum_Rix s, sm_sum_Riy = sm_sum_Riy s, sm_W = W\<rparr>"

text \<open>The rows of the spreadsheet-like application before the result columns are added.\<close>

definition st_frame_rows :: "st_wall list \<Rightarrow> st_inputs \<Rightarrow> st_base list" where
  "st_frame_rows walls inp =
     map (base_columns (to_float (in_origin_x inp) NaN) (to_float (in_origin_y inp) NaN))
       (filter (\<lambda>r. \<not> empty_row r) (map coerce_wall walls))"

text \<open>
  A row, an input dictionary and a result with the weights blanked: two runs agree on
  everything but the weights when their results agree after \<open>forget_R1\<close> or
  \<open>forget_v2\<close>.
\<close>

definition forget_wk :: "'a wall_scheme \<Rightarrow> 'a wall_scheme" where
  "forget_wk r = r\<lparr>w_k_kN := None\<rparr>"

definition forget_W :: "inputs \<Rightarrow> inputs" where
  "forget_W inp = inp\<lparr>inp_W := Fin 0\<rparr>"

definition forget_R1 :: "pyerror + (row list \<times> summary) \<Rightarrow> pyerror + (row list \<times> summary)" where
  "forget_R1 res = map_sum id (\<lambda>(rows, s). (map forget_wk rows, s)) res"

definition forget_v2 ::
  "pyerror + (row list \<times> summary_v2) \<Rightarrow> pyerror + (row list \<times> summary_v2)" where
  "forget_v2 res = map_sum id (\<lambda>(rows, s). (map forget_wk rows, s\<lparr>sm_W := Fin 0\<rparr>)) res"

text \<open>
  The translation of the external coordinates by \<open>(a, b)\<close>: of a wall (or of a row,
  which echoes them), and of the origin offset and the mass centre of the inputs.
\<close>

definition shift_wall :: "real \<Rightarrow> real \<Rightarrow> 'a wall_scheme \<Rightarrow> 'a wall_scheme" where
  "shift_wall a b w =
     w\<lparr>x_coord_m := fadd (x_coord_m w) (Fin a), y_coord_m := fadd (y_coord_m w) (Fin b)\<rparr>"

definition shift_inputs :: "real \<Rightarrow> real \<Rightarrow> inputs \<Rightarrow> inputs" where
  "shift_inputs a b inp =
     inp\<lparr>inp_X_offset := fadd (inp_X_offset inp) (Fin a),
         inp_Y_offset := fadd (inp_Y_offset inp) (Fin b),
         inp_Xcm_manual := fadd (inp_Xcm_manual inp) (Fin a),
         inp_Ycm_manual := fadd (inp_Ycm_manual inp) (Fin b)\<rparr>"

definition finite_plan :: "inputs \<Rightarrow> wall list \<Rightarrow> bool" where
  "finite_plan inp walls =
     (is_finite (inp_X_offset inp) \<and> is_finite (inp_Y_offset inp) \<and>
      is_finite (inp_Xcm_manual inp) \<and> is_finite (inp_Ycm_manual inp) \<and>
      list_all (\<lambda>w. is_finite (x_coord_m w) \<and> is_finite (y_coord_m w)) walls)"

text \<open>
  The real number of a finite float, and the dimensions of a wall that the data model
  allows in any sign: a finite, nonzero length and height.
\<close>

fun fval :: "pyfloat \<Rightarrow> real" where
  "fval (Fin a) = a"
| "fval PInf = 0"
| "fval NInf = 0"
| "fval NaN = 0"

definition proper_dims :: "pyfloat \<Rightarrow> pyfloat \<Rightarrow> bool" where
  "proper_dims l h = (is_finite l \<and> is_finite h \<and> l \<noteq> Fin 0 \<and> h \<noteq> Fin 0)"

text \<open>A name without a direction marker, as the classifier tests it.\<close>

definition unmarked :: "string \<Rightarrow> bool" where
  "unmarked nm = (\<not> str_in ''EW'' (upper nm) \<and> \<not> str_in ''NS'' (upper nm))"

section \<open>Sample inputs\<close>

definition demo_inputs :: inputs where
  "demo_inputs =
     \<lparr>inp_L = Fin 10, inp_B = Fin 20, inp_Xcm_manual = Fin 4, inp_Ycm_manual = Fin 5,
      inp_W = Fin 0, inp_X_offset = Fin 1, inp_Y_offset = Fin 2,
      inp_Fx = Fin 7, inp_Fy = Fin 5\<rparr>"

definition mk_wall :: "string \<Rightarrow> real \<Rightarrow> real \<Rightarrow> real \<Rightarrow> real \<Rightarrow> wall" where
  "mk_wall nm l h x y =
     \<lparr>Wall_Name = nm, Length_m = Fin l, Height_m = Fin h, w_k_kN = Some (Fin 0),
      x_coord_m = Fin x, y_coord_m = Fin y\<rparr>"

definition demo_walls :: "wall list" where
  "demo_walls =
     [mk_wall ''EW1'' 1 1 1 2, mk_wall ''EW2'' 2 1 1 11,
      mk_wall ''NS1'' 1 1 1 2, mk_wall ''NS2'' 2 1 10 2]"

definition demo_st_inputs :: st_inputs where
  "demo_st_inputs =
     \<lparr>in_Vx = Some (Fin 7), in_Vy = Some (Fin 5),
      in_origin_x = Some (Fin 1), in_origin_y = Some (Fin 2),
      in_plan_dim_x = Some (Fin 10), in_plan_dim_y = Some (Fin 20),
      in_diaphragm_w = Some (Fin 100),
      in_diaphragm_x = Some (Fin 4), in_diaphragm_y = Some (Fin 5)\<rparr>"

definition mk_st_wall :: "string \<Rightarrow> real \<Rightarrow> real \<Rightarrow> real \<Rightarrow> real \<Rightarrow> st_wall" where
  "mk_st_wall nm l h x y =
     \<lparr>w_marker = nm, w_L = Some (Fin l), w_H = Some (Fin h), w_w = Some (Fin 0),
      w_x = Some (Fin x), w_y = Some (Fin y)\<rparr>"

definition demo_st_walls :: "st_wall list" where
  "demo_st_walls =
     [mk_st_wall ''EW1'' 1 1 1 2, mk_st_wall ''EW2'' 2 1 1 11,
      mk_st_wall ''NS1'' 1 1 1 2, mk_st_wall ''NS2'' 2 1 10 2]"

definition demo_st_rows :: "st_row list" where
  "demo_st_rows = fst (compute_rigid_diaph demo_st_walls demo_st_inputs)"

text \<open>Two walls that both lie on the centre of rigidity, so that Jp is zero.\<close>

definition flat_walls :: "wall list" where
  "flat_walls = [mk_wall ''EW1'' 1 1 1 2, mk_wall ''NS1'' 1 1 1 2]"

definition flat_st_walls :: "st_wall list" where
  "flat_st_walls = [mk_st_wall ''EW1'' 1 1 1 2, mk_st_wall ''NS1'' 1 1 1 2]"

definition flat_st_rows :: "st_row list" where
  "flat_st_rows = fst (compute_rigid_diaph flat_st_walls demo_st_inputs)"

text \<open>Two east-west walls and no north-south wall.\<close>

definition ew_walls :: "wall list" where
  "ew_walls = [mk_wall ''EW1'' 1 1 1 2, mk_wall ''EW2'' 2 1 1 11]"

definition ew_st_walls :: "st_wall list" where
  "ew_st_walls = [mk_st_wall ''EW1'' 1 1 1 2, mk_st_wall ''EW2'' 2 1 1 11]"

text \<open>The sample walls with a negative length, and with a zero length, for the first wall.\<close>

definition neg_walls :: "wall list" where
  "neg_walls =
     [mk_wall ''EW1'' (- 1) 1 1 2, mk_wall ''EW2'' 2 1 1 11,
      mk_wall ''NS1'' 1 1 1 2, mk_wall ''NS2'' 2 1 10 2]"

definition zero_walls :: "wall list" where
  "zero_walls =
     [mk_wall ''EW1'' 0 1 1 2, mk_wall ''EW2'' 2 1 1 11,
      mk_wall ''NS1'' 1 1 1 2, mk_wall ''NS2'' 2 1 10 2]"

definition zero_st_walls :: "st_wall list" where
  "zero_st_walls =
     [mk_st_wall ''EW1'' 0 1 1 2, mk_st_wall ''EW2'' 2 1 1 11,
      mk_st_wall ''NS1'' 1 1 1 2, mk_st_wall ''NS2'' 2 1 10 2]"

text \<open>The sample run with other weights: a diaphragm weight and a weight for each wall.\<close>

definition heavy_inputs :: inputs where
  "heavy_inputs = demo_inputs\<lparr>inp_W := Fin 2456\<rparr>"

definition heavy_walls :: "wall list" where
  "heavy_walls =
     map2 (\<lambda>w k. w\<lparr>w_k_kN := k\<rparr>) demo_walls
       [Some (Fin 12), None, Some (Fin 30), Some (Fin (- 4))]"

text \<open>The sample walls followed by a wall whose name has no direction marker.\<close>

definition w1_walls :: "wall list" where
  "w1_walls = demo_walls @ [mk_wall ''W1'' 1 1 5 5]"

definition w1_st_walls :: "st_wall list" where
  "w1_st_walls = demo_st_walls @ [mk_st_wall ''W1'' 1 1 5 5]"

definition w1_st_rows :: "st_row list" where
  "w1_st_rows = fst (compute_rigid_diaph w1_st_walls demo_st_inputs)"

section \<open>Evaluation\<close>

lemma fpow_3: "fpow x 3 = fmul x (fmul x (fmul x (Fin 1)))"
  by (simp add: numeral_3_eq_3)

lemma fpow_2: "fpow x 2 = fmul x (fmul x (Fin 1))"
  by (simp add: numeral_2_eq_2)

lemma demo_names:
  "strip ''EW1'' = ''EW1''" "strip ''EW2'' = ''EW2''"
  "strip ''NS1'' = ''NS1''" "strip ''NS2'' = ''NS2''"
  "upper ''EW1'' = ''EW1''" "upper ''EW2'' = ''EW2''"
  "upper ''NS1'' = ''NS1''" "upper ''NS2'' = ''NS2''"
  by code_simp+

lemmas float_eval = fpow_3 fpow_2 pdsum_def fsub_def pydiv_def Let_def

lemmas R1_eval =
  compute_rigid_diaphragm_R1_def wall_row_R1_def clean_wall_name_def
  wall_orientation_factors_R1_def rel_columns_def shear_columns_def mk_wall_def float_eval

lemmas v2_eval =
  compute_rigid_diaphragm_v2_def geo_columns_v2_def wall_orientation_factors_v2_def
  sort_walls_def dir_order_def cor_columns_def rel_columns_def shear_columns_def
  mk_wall_def float_eval

lemmas st_eval =
  compute_rigid_diaph_def coerce_wall_def to_float_def empty_row_def base_columns_def
  fillna0_def result_columns_def mk_st_wall_def float_eval

lemma demo_st_rows_value:
  "demo_st_rows =
   [\<lparr>st_marker = ''EW1'', st_L = Fin 1, st_H = Fin 1, st_w = Fin 0,
      st_x = Fin 1, st_y = Fin 2, st_xk = Fin 0, st_yk = Fin 0,
      st_delta = Fin 7, st_Ri_EW = Fin (1 / 7), st_Ri_NS = Fin 0,
      st_xbar = Fin (- 7), st_ybar = Fin (- 7),
      st_DirectRatio_X = Fin (2 / 9), st_DirectRatio_Y = Fin 0,
      st_DirectShear_X = Fin (14 / 9), st_DirectShear_Y = Fin 0,
      st_RealTorRatio_X = Fin (- (2 / 9)), st_RealTorRatio_Y = Fin 0,
      st_AccTorRatio_X = Fin (- (1 / 9)), st_AccTorRatio_Y = Fin 0,
      st_RealTor_X = Fin (- (14 / 9)), st_RealTor_Y = Fin 0,
      st_AccTor_X = Fin (- (7 / 9)), st_AccTor_Y = Fin 0,
      st_V_X = Fin (7 / 9), st_V_Y = Fin 0\<rparr>,
    \<lparr>st_marker = ''EW2'', st_L = Fin 2, st_H = Fin 1, st_w = Fin 0,
      st_x = Fin 1, st_y = Fin 11, st_xk = Fin 0, st_yk = Fin 9,
      st_delta = Fin 2, st_Ri_EW = Fin (1 / 2), st_Ri_NS = Fin 0,
      st_xbar = Fin (- 7), st_ybar = Fin 2,
      st_DirectRatio_X = Fin (7 / 9), st_DirectRatio_Y = Fin 0,
      st_DirectShear_X = Fin (49 / 9), st_DirectShear_Y = Fin 0,
      st_RealTorRatio_X = Fin (2 / 9), st_RealTorRatio_Y = Fin 0,
      st_AccTorRatio_X = Fin (1 / 9), st_AccTorRatio_Y = Fin 0,
      st_RealTor_X = Fin (14 / 9), st_RealTor_Y = Fin 0,
      st_AccTor_X = Fin (7 / 9), st_AccTor_Y = Fin 0,
      st_V_X = Fin (70 / 9), st_V_Y = Fin 0\<rparr>,
    \<lparr>st_marker = ''NS1'', st_L = Fin 1, st_H = Fin 1, st_w = Fin 0,
      st_x = Fin 1, st_y = Fin 2, st_xk = Fin 0, st_yk = Fin 0,
      st_delta = Fin 7, st_Ri_EW = Fin 0, st_Ri_NS = Fin (1 / 7),
      st_xbar = Fin (- 7), st_ybar = Fin (- 7),
      st_DirectRatio_X = Fin 0, st_DirectRatio_Y = Fin (2 / 9),
      st_DirectShear_X = Fin 0, st_DirectShear_Y = Fin (10 / 9),
      st_RealTorRatio_X = Fin 0, st_RealTorRatio_Y = Fin (- (2 / 9)),
      st_AccTorRatio_X = Fin 0, st_AccTorRatio_Y = Fin (- (1 / 18)),
      st_RealTor_X = Fin 0, st_RealTor_Y = Fin (- (10 / 9)),
      st_AccTor_X = Fin 0, st_AccTor_Y = Fin (- (5 / 18)),
      st_V_X = Fin 0, st_V_Y = Fin (5 / 18)\<rparr>,
    \<lparr>st_marker = ''NS2'', st_L = Fin 2, st_H = Fin 1, st_w = Fin 0,
      st_x = Fin 10, st_y = Fin 2, st_xk = Fin 9, st_yk = Fin 0,
      st_delta = Fin 2, st_Ri_EW = Fin 0, st_Ri_NS = Fin (1 / 2),
      st_xbar = Fin 2, st_ybar = Fin (- 7),
      st_DirectRatio_X = Fin 0, st_DirectRatio_Y = Fin (7 / 9),
      st_DirectShear_X = Fin 0, st_DirectShear_Y = Fin (35 / 9),
      st_RealTorRatio_X = Fin 0, st_RealTorRatio_Y = Fin (2 / 9),
      st_AccTorRatio_X = Fin 0, st_AccTorRatio_Y = Fin (1 / 18),
      st_RealTor_X = Fin 0, st_RealTor_Y = Fin (10 / 9),
      st_AccTor_X = Fin 0, st_AccTor_Y = Fin (5 / 18),
      st_V_X = Fin 0, st_V_Y = Fin (95 / 18)\<rparr>]"
  unfolding demo_st_rows_def
  by (simp add: st_eval demo_st_inputs_def demo_st_walls_def demo_names cong: let_weak_cong)

lemma demo_R1_runs:
  "\<exists>rows s. compute_rigid_diaphragm_R1 demo_inputs demo_walls = Inr (rows, s) \<and> length rows = 4"
  by (simp add: R1_eval demo_inputs_def demo_walls_def demo_names cong: let_weak_cong)

lemma demo_v2_runs:
  "\<exists>rows s. compute_rigid_diaphragm_v2 demo_inputs demo_walls = Inr (rows, s) \<and> length rows = 4"
  by (simp add: v2_eval demo_inputs_def demo_walls_def demo_names cong: let_weak_cong)

section \<open>The functions in terms of the summary and the shear table\<close>

lemma compute_R1_unfold:
  "compute_rigid_diaphragm_R1 inp walls =
     (case build_rows_R1 (inp_X_offset inp) (inp_Y_offset inp) walls of
        Inl e \<Rightarrow> Inl e
      | Inr rows \<Rightarrow>
          if rows = [] then Inl (KeyError ''Rix'')
          else Inr (shear_table (cor_summary NaN inp rows) rows, cor_summary NaN inp rows))"
  unfolding compute_rigid_diaphragm_R1_def cor_summary_def shear_table_def Let_def
  by (simp split: sum.splits)

lemma compute_v2_unfold:
  "compute_rigid_diaphragm_v2 inp walls =
     (if walls = [] then Inl (ValueError ''No walls provided.'')
      else case orient_rows_v2 (map (geo_columns_v2 (inp_X_offset inp) (inp_Y_offset inp)) walls) of
        Inl e \<Rightarrow> Inl e
      | Inr rigs \<Rightarrow>
          if sm_Jp (cor_summary (Fin 0) inp (map cor_columns (sort_walls rigs))) = Fin 0
          then Inl (ZeroDivisionError ''Jp is zero (division by zero).'')
          else Inr (shear_table (cor_summary (Fin 0) inp (map cor_columns (sort_walls rigs)))
                      (map cor_columns (sort_walls rigs)),
                    with_W (cor_summary (Fin 0) inp (map cor_columns (sort_walls rigs))) (inp_W inp)))"
  unfolding compute_rigid_diaphragm_v2_def cor_summary_def shear_table_def with_W_def Let_def
  by (simp split: sum.splits)

lemma compute_R1_Inr:
  assumes "compute_rigid_diaphragm_R1 inp walls = Inr (rows, s)"
  obtains bases where
    "build_rows_R1 (inp_X_offset inp) (inp_Y_offset inp) walls = Inr bases"
    "bases \<noteq> []" "s = cor_summary NaN inp bases" "rows = shear_table s bases"
  using assms unfolding compute_R1_unfold
  by (auto split: sum.splits if_splits)

lemma compute_v2_Inr:
  assumes "compute_rigid_diaphragm_v2 inp walls = Inr (rows, s)"
  obtains rigs c where
    "walls \<noteq> []"
    "orient_rows_v2 (map (geo_columns_v2 (inp_X_offset inp) (inp_Y_offset inp)) walls) = Inr rigs"
    "c = cor_summary (Fin 0) inp (map cor_columns (sort_walls rigs))"
    "sm_Jp c \<noteq> Fin 0" "s = with_W c (inp_W inp)"
    "rows = shear_table c (map cor_columns (sort_walls rigs))"
  using assms unfolding compute_v2_unfold
  by (auto split: sum.splits if_splits)

lemma with_W_sel [simp]:
  "sm_L (with_W s W) = sm_L s" "sm_B (with_W s W) = sm_B s"
  "sm_X_offset (with_W s W) = sm_X_offset s" "sm_Y_offset (with_W s W) = sm_Y_offset s"
  "sm_Xcm (with_W s W) = sm_Xcm s" "sm_Ycm (with_W s W) = sm_Ycm s"
  "sm_Xcr (with_W s W) = sm_Xcr s" "sm_Ycr (with_W s W) = sm_Ycr s"
  "sm_ex (with_W s W) = sm_ex s" "sm_ey (with_W s W) = sm_ey s"
  "sm_exbar (with_W s W) = sm_exbar s" "sm_eybar (with_W s W) = sm_eybar s"
  "sm_Jp (with_W s W) = sm_Jp s" "sm_Fx (with_W s W) = sm_Fx s" "sm_Fy (with_W s W) = sm_Fy s"
  "sm_sum_Rix (with_W s W) = sm_sum_Rix s" "sm_sum_Riy (with_W s W) = sm_sum_Riy s"
  "sm_W (with_W s W) = W"
  by (simp_all add: with_W_def)

lemma cor_summary_sel:
  "sm_L (cor_summary d inp rows) = inp_L inp"
  "sm_B (cor_summary d inp rows) = inp_B inp"
  "sm_X_offset (cor_summary d inp rows) = inp_X_offset inp"
  "sm_Y_offset (cor_summary d inp rows) = inp_Y_offset inp"
  "sm_Fx (cor_summary d inp rows) = inp_Fx inp"
  "sm_Fy (cor_summary d inp rows) = inp_Fy inp"
  "sm_exbar (cor_summary d inp rows) = fmul (Fin (1 / 10)) (inp_L inp)"
  "sm_eybar (cor_summary d inp rows) = fmul (Fin (1 / 10)) (inp_B inp)"
  "sm_Xcm (cor_summary d inp rows) = fsub (inp_Xcm_manual inp) (inp_X_offset inp)"
  "sm_Ycm (cor_summary d inp rows) = fsub (inp_Ycm_manual inp) (inp_Y_offset inp)"
  "sm_sum_Rix (cor_summary d inp rows) = pdsum (map Rix rows)"
  "sm_sum_Riy (cor_summary d inp rows) = pdsum (map Riy rows)"
  "sm_Xcr (cor_summary d inp rows) =
     (if pdsum (map Riy rows) \<noteq> Fin 0
      then fdiv (pdsum (map Riy_xk rows)) (pdsum (map Riy rows)) else d)"
  "sm_Ycr (cor_summary d inp rows) =
     (if pdsum (map Rix rows) \<noteq> Fin 0
      then fdiv (pdsum (map Rix_yk rows)) (pdsum (map Rix rows)) else d)"
  by (simp_all add: cor_summary_def Let_def)

lemma cor_summary_ecc:
  "sm_ex (cor_summary d inp rows) =
     fabs (fsub (sm_Xcm (cor_summary d inp rows)) (sm_Xcr (cor_summary d inp rows)))"
  "sm_ey (cor_summary d inp rows) =
     fabs (fsub (sm_Ycm (cor_summary d inp rows)) (sm_Ycr (cor_summary d inp rows)))"
  by (simp_all add: cor_summary_def Let_def)

lemma cor_summary_Jp:
  "sm_Jp (cor_summary d inp rows) =
     fadd (pdsum (map Riy_xbar2 (map (rel_columns (sm_Xcr (cor_summary d inp rows))
                                         (sm_Ycr (cor_summary d inp rows))) rows)))
          (pdsum (map Rix_ybar2 (map (rel_columns (sm_Xcr (cor_summary d inp rows))
                                         (sm_Ycr (cor_summary d inp rows))) rows)))"
  by (simp add: cor_summary_def Let_def)

lemma rel_columns_sel [simp]:
  "Wall_Name (rel_columns cx cy b) = Wall_Name b"
  "Length_m (rel_columns cx cy b) = Length_m b"
  "Height_m (rel_columns cx cy b) = Height_m b"
  "w_k_kN (rel_columns cx cy b) = w_k_kN b"
  "x_coord_m (rel_columns cx cy b) = x_coord_m b"
  "y_coord_m (rel_columns cx cy b) = y_coord_m b"
  "xk_m (rel_columns cx cy b) = xk_m b" "yk_m (rel_columns cx cy b) = yk_m b"
  "Di (rel_columns cx cy b) = Di b"
  "Rix (rel_columns cx cy b) = Rix b" "Riy (rel_columns cx cy b) = Riy b"
  "Riy_xk (rel_columns cx cy b) = Riy_xk b" "Rix_yk (rel_columns cx cy b) = Rix_yk b"
  "xbar (rel_columns cx cy b) = fsub (xk_m b) cx"
  "ybar (rel_columns cx cy b) = fsub (yk_m b) cy"
  "Riy_xbar2 (rel_columns cx cy b) = fmul (Riy b) (fpow (fsub (xk_m b) cx) 2)"
  "Rix_ybar2 (rel_columns cx cy b) = fmul (Rix b) (fpow (fsub (yk_m b) cy) 2)"
  by (simp_all add: rel_columns_def Let_def)

lemma shear_columns_sel:
  "Wall_Name (shear_columns Fx Fy exb eyb ex ey sx sy J m) = Wall_Name m"
  "Length_m (shear_columns Fx Fy exb eyb ex ey sx sy J m) = Length_m m"
  "Height_m (shear_columns Fx Fy exb eyb ex ey sx sy J m) = Height_m m"
  "w_k_kN (shear_columns Fx Fy exb eyb ex ey sx sy J m) = w_k_kN m"
  "x_coord_m (shear_columns Fx Fy exb eyb ex ey sx sy J m) = x_coord_m m"
  "y_coord_m (shear_columns Fx Fy exb eyb ex ey sx sy J m) = y_coord_m m"
  "xk_m (shear_columns Fx Fy exb eyb ex ey sx sy J m) = xk_m m"
  "yk_m (shear_columns Fx Fy exb eyb ex ey sx sy J m) = yk_m m"
  "Di (shear_columns Fx Fy exb eyb ex ey sx sy J m) = Di m"
  "Rix (shear_columns Fx Fy exb eyb ex ey sx sy J m) = Rix m"
  "Riy (shear_columns Fx Fy exb eyb ex ey sx sy J m) = Riy m"
  "Riy_xk (shear_columns Fx Fy exb eyb ex ey sx sy J m) = Riy_xk m"
  "Rix_yk (shear_columns Fx Fy exb eyb ex ey sx sy J m) = Rix_yk m"
  "xbar (shear_columns Fx Fy exb eyb ex ey sx sy J m) = xbar m"
  "ybar (shear_columns Fx Fy exb eyb ex ey sx sy J m) = ybar m"
  "Riy_xbar2 (shear_columns Fx Fy exb eyb ex ey sx sy J m) = Riy_xbar2 m"
  "Rix_ybar2 (shear_columns Fx Fy exb eyb ex ey sx sy J m) = Rix_ybar2 m"
  "Real_Tor_Ratio_x (shear_columns Fx Fy exb eyb ex ey sx sy J m) =
     fdiv (fmul (fmul (Rix m) (ybar m)) ey) J"
  "Real_Tor_Ratio_y (shear_columns Fx Fy exb eyb ex ey sx sy J m) =
     fdiv (fmul (fmul (Riy m) (xbar m)) ex) J"
  "Vx_Real_Tor (shear_columns Fx Fy exb eyb ex ey sx sy J m) =
     fmul Fx (fdiv (fmul (fmul (Rix m) (ybar m)) ey) J)"
  "Vy_Real_Tor (shear_columns Fx Fy exb eyb ex ey sx sy J m) =
     fmul Fy (fdiv (fmul (fmul (Riy m) (xbar m)) ex) J)"
  "Direct_Shear_Ratio_x (shear_columns Fx Fy exb eyb ex ey sx sy J m) =
     (if sx \<noteq> Fin 0 then fdiv (Rix m) sx else Fin 0)"
  "Direct_Shear_Ratio_y (shear_columns Fx Fy exb eyb ex ey sx sy J m) =
     (if sy \<noteq> Fin 0 then fdiv (Riy m) sy else Fin 0)"
  "Direct_Shear_x (shear_columns Fx Fy exb eyb ex ey sx sy J m) =
     fmul Fx (if sx \<noteq> Fin 0 then fdiv (Rix m) sx else Fin 0)"
  "Direct_Shear_y (shear_columns Fx Fy exb eyb ex ey sx sy J m) =
     fmul Fy (if sy \<noteq> Fin 0 then fdiv (Riy m) sy else Fin 0)"
  "AccTorRatio_x (shear_columns Fx Fy exb eyb ex ey sx sy J m) =
     fdiv (fmul (fmul eyb (Rix m)) (ybar m)) J"
  "AccTorRatio_y (shear_columns Fx Fy exb eyb ex ey sx sy J m) =
     fdiv (fmul (fmul exb (Riy m)) (xbar m)) J"
  "Vx_Acc_Tor (shear_columns Fx Fy exb eyb ex ey sx sy J m) =
     fmul Fy (fdiv (fmul (fmul eyb (Rix m)) (ybar m)) J)"
  "Vy_Acc_Tor (shear_columns Fx Fy exb eyb ex ey sx sy J m) =
     fmul Fx (fdiv (fmul (fmul exb (Riy m)) (xbar m)) J)"
  by (simp_all add: shear_columns_def Let_def)

lemma shear_columns_totals:
  "Vx_kN (shear_columns Fx Fy exb eyb ex ey sx sy J m) =
     fadd (fadd (Vx_Real_Tor (shear_columns Fx Fy exb eyb ex ey sx sy J m))
                (Direct_Shear_x (shear_columns Fx Fy exb eyb ex ey sx sy J m)))
          (Vx_Acc_Tor (shear_columns Fx Fy exb eyb ex ey sx sy J m))"
  "Vy_kN (shear_columns Fx Fy exb eyb ex ey sx sy J m) =
     fadd (fadd (Vy_Real_Tor (shear_columns Fx Fy exb eyb ex ey sx sy J m))
                (Direct_Shear_y (shear_columns Fx Fy exb eyb ex ey sx sy J m)))
          (fabs (Vy_Acc_Tor (shear_columns Fx Fy exb eyb ex ey sx sy J m)))"
  by (simp_all add: shear_columns_def Let_def)

lemma shear_table_row:
  assumes "r \<in> set (shear_table s bases)"
  obtains b where "b \<in> set bases"
    "r = shear_columns (sm_Fx s) (sm_Fy s) (sm_exbar s) (sm_eybar s) (sm_ex s) (sm_ey s)
           (sm_sum_Rix s) (sm_sum_Riy s) (sm_Jp s) (rel_columns (sm_Xcr s) (sm_Ycr s) b)"
  using assms unfolding shear_table_def by auto

section \<open>Rows of the spreadsheet-like application\<close>

lemma compute_rigid_diaph_rows:
  "fst (compute_rigid_diaph walls inp) =
     map (result_columns (to_float (in_Vx inp) (Fin 0)) (to_float (in_Vy inp) (Fin 0))
            (g_xr_local (snd (compute_rigid_diaph walls inp)))
            (g_yr_local (snd (compute_rigid_diaph walls inp)))
            (g_sum_Ri_EW (snd (compute_rigid_diaph walls inp)))
            (g_sum_Ri_NS (snd (compute_rigid_diaph walls inp)))
            (g_Jp (snd (compute_rigid_diaph walls inp)))
            (g_ex_real (snd (compute_rigid_diaph walls inp)))
            (g_ey_real (snd (compute_rigid_diaph walls inp)))
            (g_ex_acc (snd (compute_rigid_diaph walls inp)))
            (g_ey_acc (snd (compute_rigid_diaph walls inp))))
       (st_frame_rows walls inp)"
  unfolding compute_rigid_diaph_def st_frame_rows_def Let_def by simp

lemma result_columns_sel:
  "st_marker (result_columns Vx Vy xr yr sE sN J exr eyr exa eya b) = st_marker b"
  "st_Ri_EW (result_columns Vx Vy xr yr sE sN J exr eyr exa eya b) = st_Ri_EW b"
  "st_Ri_NS (result_columns Vx Vy xr yr sE sN J exr eyr exa eya b) = st_Ri_NS b"
  "st_xbar (result_columns Vx Vy xr yr sE sN J exr eyr exa eya b) = fsub (st_xk b) xr"
  "st_ybar (result_columns Vx Vy xr yr sE sN J exr eyr exa eya b) = fsub (st_yk b) yr"
  "st_DirectRatio_X (result_columns Vx Vy xr yr sE sN J exr eyr exa eya b) =
     (if sE \<noteq> Fin 0 then fdiv (st_Ri_EW b) sE else NaN)"
  "st_DirectRatio_Y (result_columns Vx Vy xr yr sE sN J exr eyr exa eya b) =
     (if sN \<noteq> Fin 0 then fdiv (st_Ri_NS b) sN else NaN)"
  "st_DirectShear_X (result_columns Vx Vy xr yr sE sN J exr eyr exa eya b) =
     fmul Vx (if sE \<noteq> Fin 0 then fdiv (st_Ri_EW b) sE else NaN)"
  "st_DirectShear_Y (result_columns Vx Vy xr yr sE sN J exr eyr exa eya b) =
     fmul Vy (if sN \<noteq> Fin 0 then fdiv (st_Ri_NS b) sN else NaN)"
  "st_RealTorRatio_X (result_columns Vx Vy xr yr sE sN J exr eyr exa eya b) =
     (if J \<noteq> Fin 0 then fdiv (fmul (fmul eyr (st_Ri_EW b)) (fsub (st_yk b) yr)) J else NaN)"
  "st_RealTorRatio_Y (result_columns Vx Vy xr yr sE sN J exr eyr exa eya b) =
     (if J \<noteq> Fin 0 then fdiv (fmul (fmul exr (st_Ri_NS b)) (fsub (st_xk b) xr)) J else NaN)"
  "st_AccTorRatio_X (result_columns Vx Vy xr yr sE sN J exr eyr exa eya b) =
     (if J \<noteq> Fin 0 then fdiv (fmul (fmul eya (st_Ri_EW b)) (fsub (st_yk b) yr)) J else NaN)"
  "st_AccTorRatio_Y (result_columns Vx Vy xr yr sE sN J exr eyr exa eya b) =
     (if J \<noteq> Fin 0 then fdiv (fmul (fmul exa (st_Ri_NS b)) (fsub (st_xk b) xr)) J else NaN)"
  by (simp_all add: result_columns_def Let_def)

lemma result_columns_shears:
  "st_RealTor_X (result_columns Vx Vy xr yr sE sN J exr eyr exa eya b) =
     fmul Vx (st_RealTorRatio_X (result_columns Vx Vy xr yr sE sN J exr eyr exa eya b))"
  "st_RealTor_Y (result_columns Vx Vy xr yr sE sN J exr eyr exa eya b) =
     fmul Vy (st_RealTorRatio_Y (result_columns Vx Vy xr yr sE sN J exr eyr exa eya b))"
  "st_AccTor_X (result_columns Vx Vy xr yr sE sN J exr eyr exa eya b) =
     fmul Vx (st_AccTorRatio_X (result_columns Vx Vy xr yr sE sN J exr eyr exa eya b))"
  "st_AccTor_Y (result_columns Vx Vy xr yr sE sN J exr eyr exa eya b) =
     fmul Vy (st_AccTorRatio_Y (result_columns Vx Vy xr yr sE sN J exr eyr exa eya b))"
  "st_V_X (result_columns Vx Vy xr yr sE sN J exr eyr exa eya b) =
     fadd (fadd (st_DirectShear_X (result_columns Vx Vy xr yr sE sN J exr eyr exa eya b))
                (st_RealTor_X (result_columns Vx Vy xr yr sE sN J exr eyr exa eya b)))
          (fabs (st_AccTor_X (result_columns Vx Vy xr yr sE sN J exr eyr exa eya b)))"
  "st_V_Y (result_columns Vx Vy xr yr sE sN J exr eyr exa eya b) =
     fadd (fadd (st_DirectShear_Y (result_columns Vx Vy xr yr sE sN J exr eyr exa eya b))
                (st_RealTor_Y (result_columns Vx Vy xr yr sE sN J exr eyr exa eya b)))
          (fabs (st_AccTor_Y (result_columns Vx Vy xr yr sE sN J exr eyr exa eya b)))"
  by (simp_all add: result_columns_def Let_def)

lemma compute_rigid_diaph_row:
  assumes "compute_rigid_diaph walls inp = (rows, g)" and "r \<in> set rows"
  obtains b where "b \<in> set (st_frame_rows walls inp)"
    "r = result_columns (to_float (in_Vx inp) (Fin 0)) (to_float (in_Vy inp) (Fin 0))
           (g_xr_local g) (g_yr_local g) (g_sum_Ri_EW g) (g_sum_Ri_NS g) (g_Jp g)
           (g_ex_real g) (g_ey_real g) (g_ex_acc g) (g_ey_acc g) b"
proof -
  have "rows = map (result_columns (to_float (in_Vx inp) (Fin 0)) (to_float (in_Vy inp) (Fin 0))
           (g_xr_local g) (g_yr_local g) (g_sum_Ri_EW g) (g_sum_Ri_NS g) (g_Jp g)
           (g_ex_real g) (g_ey_real g) (g_ex_acc g) (g_ey_acc g)) (st_frame_rows walls inp)"
    using compute_rigid_diaph_rows [of walls inp] assms(1) by simp
  with assms(2) that show thesis by auto
qed

lemma compute_rigid_diaph_acc:
  "g_ex_acc (snd (compute_rigid_diaph walls inp)) =
     fmul (Fin (1 / 10)) (to_float (in_plan_dim_x inp) (Fin 0))"
  "g_ey_acc (snd (compute_rigid_diaph walls inp)) =
     fmul (Fin (1 / 10)) (to_float (in_plan_dim_y inp) (Fin 0))"
  by (simp_all add: compute_rigid_diaph_def Let_def)

section \<open>Accidental torsion\<close>

text \<open>
  C1. The claim says that every solver variant multiplies the X accidental-torsion ratio by
  the Y force and the Y ratio by the X force. The spreadsheet-like application multiplies
  each ratio by the force of its own axis: in the sample run the first wall has the ratio
  \<open>-1/9\<close> and the shear \<open>-7/9\<close>, which is \<open>Vx = 7\<close> times the ratio and not
  \<open>Vy = 5\<close> times it.
\<close>

theorem acc_torsion_claim_fails_in_streamlit:
  "to_float (in_Vx demo_st_inputs) (Fin 0) = Fin 7 \<and>
   to_float (in_Vy demo_st_inputs) (Fin 0) = Fin 5 \<and>
   st_AccTorRatio_X (demo_st_rows ! 0) = Fin (- (1 / 9)) \<and>
   st_AccTor_X (demo_st_rows ! 0) = Fin (- (7 / 9)) \<and>
   st_AccTor_X (demo_st_rows ! 0) \<noteq> fmul (Fin 5) (st_AccTorRatio_X (demo_st_rows ! 0)) \<and>
   st_AccTorRatio_Y (demo_st_rows ! 2) = Fin (- (1 / 18)) \<and>
   st_AccTor_Y (demo_st_rows ! 2) = Fin (- (5 / 18)) \<and>
   st_AccTor_Y (demo_st_rows ! 2) \<noteq> fmul (Fin 7) (st_AccTorRatio_Y (demo_st_rows ! 2))"
  by (simp add: demo_st_rows_value demo_st_inputs_def to_float_def)

text \<open>
  C1, amended. In the console script and in the table application every row has
  \<open>AccTorRatio_x = eybar * Rix * ybar / Jp\<close> with \<open>eybar = 0.1 * B\<close> and
  \<open>Vx_Acc_Tor = Fy * AccTorRatio_x\<close>, and \<open>AccTorRatio_y = exbar * Riy * xbar / Jp\<close>
  with \<open>exbar = 0.1 * L\<close> and \<open>Vy_Acc_Tor = Fx * AccTorRatio_y\<close>. In the spreadsheet-like
  application every row has \<open>AccTor_X = Vx * AccTorRatio_X\<close> and
  \<open>AccTor_Y = Vy * AccTorRatio_Y\<close>, where the ratios are
  \<open>ey_acc * Ri_EW * ybar / Jp\<close> and \<open>ex_acc * Ri_NS * xbar / Jp\<close> (NaN when Jp is zero).
\<close>

theorem acc_torsion_by_variant:
  "(compute_rigid_diaphragm_R1 inp walls = Inr (rows, s) \<longrightarrow>
      sm_exbar s = fmul (Fin (1 / 10)) (inp_L inp) \<and>
      sm_eybar s = fmul (Fin (1 / 10)) (inp_B inp) \<and>
      (\<forall>r \<in> set rows.
         AccTorRatio_x r = fdiv (fmul (fmul (sm_eybar s) (Rix r)) (ybar r)) (sm_Jp s) \<and>
         AccTorRatio_y r = fdiv (fmul (fmul (sm_exbar s) (Riy r)) (xbar r)) (sm_Jp s) \<and>
         Vx_Acc_Tor r = fmul (inp_Fy inp) (AccTorRatio_x r) \<and>
         Vy_Acc_Tor r = fmul (inp_Fx inp) (AccTorRatio_y r))) \<and>
   (compute_rigid_diaphragm_v2 inp walls = Inr (rows2, s2) \<longrightarrow>
      sm_exbar s2 = fmul (Fin (1 / 10)) (inp_L inp) \<and>
      sm_eybar s2 = fmul (Fin (1 / 10)) (inp_B inp) \<and>
      (\<forall>r \<in> set rows2.
         AccTorRatio_x r = fdiv (fmul (fmul (sm_eybar s2) (Rix r)) (ybar r)) (sm_Jp s2) \<and>
         AccTorRatio_y r = fdiv (fmul (fmul (sm_exbar s2) (Riy r)) (xbar r)) (sm_Jp s2) \<and>
         Vx_Acc_Tor r = fmul (inp_Fy inp) (AccTorRatio_x r) \<and>
         Vy_Acc_Tor r = fmul (inp_Fx inp) (AccTorRatio_y r))) \<and>
   (compute_rigid_diaph swalls sinp = (srows, g) \<longrightarrow>
      g_ex_acc g = fmul (Fin (1 / 10)) (to_float (in_plan_dim_x sinp) (Fin 0)) \<and>
      g_ey_acc g = fmul (Fin (1 / 10)) (to_float (in_plan_dim_y sinp) (Fin 0)) \<and>
      (\<forall>r \<in> set srows.
         st_AccTorRatio_X r =
           (if g_Jp g \<noteq> Fin 0
            then fdiv (fmul (fmul (g_ey_acc g) (st_Ri_EW r)) (st_ybar r)) (g_Jp g) else NaN) \<and>
         st_AccTorRatio_Y r =
           (if g_Jp g \<noteq> Fin 0
            then fdiv (fmul (fmul (g_ex_acc g) (st_Ri_NS r)) (st_xbar r)) (g_Jp g) else NaN) \<and>
         st_AccTor_X r = fmul (to_float (in_Vx sinp) (Fin 0)) (st_AccTorRatio_X r) \<and>
         st_AccTor_Y r = fmul (to_float (in_Vy sinp) (Fin 0)) (st_AccTorRatio_Y r)))"
proof (intro conjI impI ballI)
  assume a: "compute_rigid_diaphragm_R1 inp walls = Inr (rows, s)"
  then obtain bases where s: "s = cor_summary NaN inp bases" and rows: "rows = shear_table s bases"
    by (rule compute_R1_Inr)
  show "sm_exbar s = fmul (Fin (1 / 10)) (inp_L inp)" "sm_eybar s = fmul (Fin (1 / 10)) (inp_B inp)"
    by (simp_all add: s cor_summary_sel)
  fix r assume "r \<in> set rows"
  then obtain b where r: "r = shear_columns (sm_Fx s) (sm_Fy s) (sm_exbar s) (sm_eybar s)
      (sm_ex s) (sm_ey s) (sm_sum_Rix s) (sm_sum_Riy s) (sm_Jp s) (rel_columns (sm_Xcr s) (sm_Ycr s) b)"
    unfolding rows by (rule shear_table_row)
  have f: "sm_Fx s = inp_Fx inp" "sm_Fy s = inp_Fy inp" by (simp_all add: s cor_summary_sel)
  show "AccTorRatio_x r = fdiv (fmul (fmul (sm_eybar s) (Rix r)) (ybar r)) (sm_Jp s)"
       "AccTorRatio_y r = fdiv (fmul (fmul (sm_exbar s) (Riy r)) (xbar r)) (sm_Jp s)"
       "Vx_Acc_Tor r = fmul (inp_Fy inp) (AccTorRatio_x r)"
       "Vy_Acc_Tor r = fmul (inp_Fx inp) (AccTorRatio_y r)"
    by (simp_all add: r shear_columns_sel f)
next
  assume a: "compute_rigid_diaphragm_v2 inp walls = Inr (rows2, s2)"
  then obtain rigs c where c: "c = cor_summary (Fin 0) inp (map cor_columns (sort_walls rigs))"
    and s2: "s2 = with_W c (inp_W inp)"
    and rows: "rows2 = shear_table c (map cor_columns (sort_walls rigs))"
    by (rule compute_v2_Inr)
  show "sm_exbar s2 = fmul (Fin (1 / 10)) (inp_L inp)" "sm_eybar s2 = fmul (Fin (1 / 10)) (inp_B inp)"
    by (simp_all add: s2 c cor_summary_sel)
  fix r assume "r \<in> set rows2"
  then obtain b where r: "r = shear_columns (sm_Fx c) (sm_Fy c) (sm_exbar c) (sm_eybar c)
      (sm_ex c) (sm_ey c) (sm_sum_Rix c) (sm_sum_Riy c) (sm_Jp c) (rel_columns (sm_Xcr c) (sm_Ycr c) b)"
    unfolding rows by (rule shear_table_row)
  have f: "sm_Fx c = inp_Fx inp" "sm_Fy c = inp_Fy inp" by (simp_all add: c cor_summary_sel)
  show "AccTorRatio_x r = fdiv (fmul (fmul (sm_eybar s2) (Rix r)) (ybar r)) (sm_Jp s2)"
       "AccTorRatio_y r = fdiv (fmul (fmul (sm_exbar s2) (Riy r)) (xbar r)) (sm_Jp s2)"
       "Vx_Acc_Tor r = fmul (inp_Fy inp) (AccTorRatio_x r)"
       "Vy_Acc_Tor r = fmul (inp_Fx inp) (AccTorRatio_y r)"
    by (simp_all add: r s2 shear_columns_sel f)
next
  assume a: "compute_rigid_diaph swalls sinp = (srows, g)"
  then have g: "g = snd (compute_rigid_diaph swalls sinp)" by simp
  show "g_ex_acc g = fmul (Fin (1 / 10)) (to_float (in_plan_dim_x sinp) (Fin 0))"
       "g_ey_acc g = fmul (Fin (1 / 10)) (to_float (in_plan_dim_y sinp) (Fin 0))"
    by (simp_all add: g compute_rigid_diaph_acc)
  fix r assume "r \<in> set srows"
  with a obtain b where r: "r = result_columns (to_float (in_Vx sinp) (Fin 0))
      (to_float (in_Vy sinp) (Fin 0)) (g_xr_local g) (g_yr_local g) (g_sum_Ri_EW g)
      (g_sum_Ri_NS g) (g_Jp g) (g_ex_real g) (g_ey_real g) (g_ex_acc g) (g_ey_acc g) b"
    by (rule compute_rigid_diaph_row)
  show "st_AccTorRatio_X r =
           (if g_Jp g \<noteq> Fin 0
            then fdiv (fmul (fmul (g_ey_acc g) (st_Ri_EW r)) (st_ybar r)) (g_Jp g) else NaN)"
       "st_AccTorRatio_Y r =
           (if g_Jp g \<noteq> Fin 0
            then fdiv (fmul (fmul (g_ex_acc g) (st_Ri_NS r)) (st_xbar r)) (g_Jp g) else NaN)"
       "st_AccTor_X r = fmul (to_float (in_Vx sinp) (Fin 0)) (st_AccTorRatio_X r)"
       "st_AccTor_Y r = fmul (to_float (in_Vy sinp) (Fin 0)) (st_AccTorRatio_Y r)"
    by (simp_all only: r result_columns_sel result_columns_shears)
qed


theorem acc_torsion_by_variant_witness:
  "(\<exists>rows s. compute_rigid_diaphragm_R1 demo_inputs demo_walls = Inr (rows, s) \<and> rows \<noteq> [] \<and>
      (\<forall>r \<in> set rows. Vx_Acc_Tor r = fmul (Fin 5) (AccTorRatio_x r) \<and>
                        Vy_Acc_Tor r = fmul (Fin 7) (AccTorRatio_y r))) \<and>
   (\<exists>rows s. compute_rigid_diaphragm_v2 demo_inputs demo_walls = Inr (rows, s) \<and> rows \<noteq> [] \<and>
      (\<forall>r \<in> set rows. Vx_Acc_Tor r = fmul (Fin 5) (AccTorRatio_x r) \<and>
                        Vy_Acc_Tor r = fmul (Fin 7) (AccTorRatio_y r))) \<and>
   (\<exists>rows g. compute_rigid_diaph demo_st_walls demo_st_inputs = (rows, g) \<and> rows \<noteq> [] \<and>
      (\<forall>r \<in> set rows. st_AccTor_X r = fmul (Fin 7) (st_AccTorRatio_X r) \<and>
                        st_AccTor_Y r = fmul (Fin 5) (st_AccTorRatio_Y r)))"
proof -
  obtain rows s where r1: "compute_rigid_diaphragm_R1 demo_inputs demo_walls = Inr (rows, s)"
    and n1: "length rows = 4"
    using demo_R1_runs by blast
  obtain rows2 s2 where r2: "compute_rigid_diaphragm_v2 demo_inputs demo_walls = Inr (rows2, s2)"
    and n2: "length rows2 = 4"
    using demo_v2_runs by blast
  have st: "compute_rigid_diaph demo_st_walls demo_st_inputs =
      (demo_st_rows, snd (compute_rigid_diaph demo_st_walls demo_st_inputs))"
    by (simp add: demo_st_rows_def)
  have f: "inp_Fx demo_inputs = Fin 7" "inp_Fy demo_inputs = Fin 5"
    "to_float (in_Vx demo_st_inputs) (Fin 0) = Fin 7"
    "to_float (in_Vy demo_st_inputs) (Fin 0) = Fin 5"
    by (simp_all add: demo_inputs_def demo_st_inputs_def to_float_def)
  have ne: "rows \<noteq> []" "rows2 \<noteq> []" "demo_st_rows \<noteq> []"
    using n1 n2 by (auto simp: demo_st_rows_value)
  from acc_torsion_by_variant [of demo_inputs demo_walls rows s rows2 s2
      demo_st_walls demo_st_inputs demo_st_rows "snd (compute_rigid_diaph demo_st_walls demo_st_inputs)"]
    r1 r2 st f ne
  show ?thesis by simp blast
qed

section \<open>Totals\<close>

text \<open>
  C2. The claim says that every solver variant adds the X accidental-torsion shear with its
  sign and only the Y one in magnitude. The spreadsheet-like application takes both in
  magnitude: in the sample run the first wall has the direct shear \<open>14/9\<close>, the real
  torsion shear \<open>-14/9\<close> and the accidental-torsion shear \<open>-7/9\<close>, and its total
  \<open>V_X\<close> is \<open>7/9\<close>, not \<open>-7/9\<close>.
\<close>

theorem totals_claim_fails_in_streamlit:
  "st_DirectShear_X (demo_st_rows ! 0) = Fin (14 / 9) \<and>
   st_RealTor_X (demo_st_rows ! 0) = Fin (- (14 / 9)) \<and>
   st_AccTor_X (demo_st_rows ! 0) = Fin (- (7 / 9)) \<and>
   st_V_X (demo_st_rows ! 0) = Fin (7 / 9) \<and>
   st_V_X (demo_st_rows ! 0) \<noteq>
     fadd (fadd (st_RealTor_X (demo_st_rows ! 0)) (st_DirectShear_X (demo_st_rows ! 0)))
          (st_AccTor_X (demo_st_rows ! 0))"
  by (simp add: demo_st_rows_value)

text \<open>
  C2, amended. In the console script and in the table application every row has
  \<open>Vx = Vx_Real_Tor + Direct_Shear_x + Vx_Acc_Tor\<close>, with the accidental-torsion term
  signed, and \<open>Vy = Vy_Real_Tor + Direct_Shear_y + |Vy_Acc_Tor|\<close>. In the
  spreadsheet-like application every row has \<open>V_X = DirectShear_X + RealTor_X + |AccTor_X|\<close>
  and \<open>V_Y = DirectShear_Y + RealTor_Y + |AccTor_Y|\<close>: both accidental-torsion terms are
  taken in magnitude.
\<close>

theorem totals_by_variant:
  "(compute_rigid_diaphragm_R1 inp walls = Inr (rows, s) \<longrightarrow>
      (\<forall>r \<in> set rows.
         Vx_kN r = fadd (fadd (Vx_Real_Tor r) (Direct_Shear_x r)) (Vx_Acc_Tor r) \<and>
         Vy_kN r = fadd (fadd (Vy_Real_Tor r) (Direct_Shear_y r)) (fabs (Vy_Acc_Tor r)))) \<and>
   (compute_rigid_diaphragm_v2 inp walls = Inr (rows2, s2) \<longrightarrow>
      (\<forall>r \<in> set rows2.
         Vx_kN r = fadd (fadd (Vx_Real_Tor r) (Direct_Shear_x r)) (Vx_Acc_Tor r) \<and>
         Vy_kN r = fadd (fadd (Vy_Real_Tor r) (Direct_Shear_y r)) (fabs (Vy_Acc_Tor r)))) \<and>
   (compute_rigid_diaph swalls sinp = (srows, g) \<longrightarrow>
      (\<forall>r \<in> set srows.
         st_V_X r = fadd (fadd (st_DirectShear_X r) (st_RealTor_X r)) (fabs (st_AccTor_X r)) \<and>
         st_V_Y r = fadd (fadd (st_DirectShear_Y r) (st_RealTor_Y r)) (fabs (st_AccTor_Y r))))"
proof (intro conjI impI ballI)
  fix r
  assume "compute_rigid_diaphragm_R1 inp walls = Inr (rows, s)" and "r \<in> set rows"
  then obtain bases where "r \<in> set (shear_table s bases)"
    by (auto elim: compute_R1_Inr)
  then obtain b where "r = shear_columns (sm_Fx s) (sm_Fy s) (sm_exbar s) (sm_eybar s)
      (sm_ex s) (sm_ey s) (sm_sum_Rix s) (sm_sum_Riy s) (sm_Jp s) (rel_columns (sm_Xcr s) (sm_Ycr s) b)"
    by (rule shear_table_row)
  then show "Vx_kN r = fadd (fadd (Vx_Real_Tor r) (Direct_Shear_x r)) (Vx_Acc_Tor r)"
    and "Vy_kN r = fadd (fadd (Vy_Real_Tor r) (Direct_Shear_y r)) (fabs (Vy_Acc_Tor r))"
    by (simp_all only: shear_columns_totals)
next
  fix r
  assume "compute_rigid_diaphragm_v2 inp walls = Inr (rows2, s2)" and "r \<in> set rows2"
  then obtain c bases where "r \<in> set (shear_table c bases)"
    by (auto elim: compute_v2_Inr)
  then obtain b where "r = shear_columns (sm_Fx c) (sm_Fy c) (sm_exbar c) (sm_eybar c)
      (sm_ex c) (sm_ey c) (sm_sum_Rix c) (sm_sum_Riy c) (sm_Jp c) (rel_columns (sm_Xcr c) (sm_Ycr c) b)"
    by (rule shear_table_row)
  then show "Vx_kN r = fadd (fadd (Vx_Real_Tor r) (Direct_Shear_x r)) (Vx_Acc_Tor r)"
    and "Vy_kN r = fadd (fadd (Vy_Real_Tor r) (Direct_Shear_y r)) (fabs (Vy_Acc_Tor r))"
    by (simp_all only: shear_columns_totals)
next
  fix r
  assume "compute_rigid_diaph swalls sinp = (srows, g)" and "r \<in> set srows"
  then obtain b where "r = result_columns (to_float (in_Vx sinp) (Fin 0))
      (to_float (in_Vy sinp) (Fin 0)) (g_xr_local g) (g_yr_local g) (g_sum_Ri_EW g)
      (g_sum_Ri_NS g) (g_Jp g) (g_ex_real g) (g_ey_real g) (g_ex_acc g) (g_ey_acc g) b"
    by (rule compute_rigid_diaph_row)
  then show "st_V_X r = fadd (fadd (st_DirectShear_X r) (st_RealTor_X r)) (fabs (st_AccTor_X r))"
    and "st_V_Y r = fadd (fadd (st_DirectShear_Y r) (st_RealTor_Y r)) (fabs (st_AccTor_Y r))"
    by (simp_all only: result_columns_shears)
qed

theorem totals_by_variant_witness:
  "(\<exists>rows s. compute_rigid_diaphragm_R1 demo_inputs demo_walls = Inr (rows, s) \<and> rows \<noteq> [] \<and>
      (\<forall>r \<in> set rows.
         Vx_kN r = fadd (fadd (Vx_Real_Tor r) (Direct_Shear_x r)) (Vx_Acc_Tor r) \<and>
         Vy_kN r = fadd (fadd (Vy_Real_Tor r) (Direct_Shear_y r)) (fabs (Vy_Acc_Tor r)))) \<and>
   (\<exists>rows s. compute_rigid_diaphragm_v2 demo_inputs demo_walls = Inr (rows, s) \<and> rows \<noteq> [] \<and>
      (\<forall>r \<in> set rows.
         Vx_kN r = fadd (fadd (Vx_Real_Tor r) (Direct_Shear_x r)) (Vx_Acc_Tor r) \<and>
         Vy_kN r = fadd (fadd (Vy_Real_Tor r) (Direct_Shear_y r)) (fabs (Vy_Acc_Tor r)))) \<and>
   (\<exists>rows g. compute_rigid_diaph demo_st_walls demo_st_inputs = (rows, g) \<and> rows \<noteq> [] \<and>
      (\<forall>r \<in> set rows.
         st_V_X r = fadd (fadd (st_DirectShear_X r) (st_RealTor_X r)) (fabs (st_AccTor_X r)) \<and>
         st_V_Y r = fadd (fadd (st_DirectShear_Y r) (st_RealTor_Y r)) (fabs (st_AccTor_Y r))))"
proof -
  obtain rows s where r1: "compute_rigid_diaphragm_R1 demo_inputs demo_walls = Inr (rows, s)"
    and n1: "length rows = 4"
    using demo_R1_runs by blast
  obtain rows2 s2 where r2: "compute_rigid_diaphragm_v2 demo_inputs demo_walls = Inr (rows2, s2)"
    and n2: "length rows2 = 4"
    using demo_v2_runs by blast
  have st: "compute_rigid_diaph demo_st_walls demo_st_inputs =
      (demo_st_rows, snd (compute_rigid_diaph demo_st_walls demo_st_inputs))"
    by (simp add: demo_st_rows_def)
  have ne: "rows \<noteq> []" "rows2 \<noteq> []" "demo_st_rows \<noteq> []"
    using n1 n2 by (auto simp: demo_st_rows_value)
  from totals_by_variant [of demo_inputs demo_walls rows s rows2 s2
      demo_st_walls demo_st_inputs demo_st_rows "snd (compute_rigid_diaph demo_st_walls demo_st_inputs)"]
    r1 r2 st ne
  show ?thesis by simp blast
qed

section \<open>A vanishing Jp\<close>

lemma flat_st_rows_value:
  "g_Jp (snd (compute_rigid_diaph flat_st_walls demo_st_inputs)) = Fin 0"
  "map st_marker flat_st_rows = [''EW1'', ''NS1'']"
  "map st_RealTorRatio_X flat_st_rows = [NaN, NaN]"
  "map st_RealTor_X flat_st_rows = [NaN, NaN]"
  "map st_AccTor_X flat_st_rows = [NaN, NaN]"
  "map st_V_X flat_st_rows = [NaN, NaN]"
  "map st_V_Y flat_st_rows = [NaN, NaN]"
  unfolding flat_st_rows_def
  by (simp_all add: st_eval demo_st_inputs_def flat_st_walls_def demo_names cong: let_weak_cong)

lemma flat_v2_value:
  "compute_rigid_diaphragm_v2 demo_inputs flat_walls =
     Inl (ZeroDivisionError ''Jp is zero (division by zero).'')"
  by (simp add: v2_eval demo_inputs_def flat_walls_def demo_names cong: let_weak_cong)

text \<open>
  The console script has no test of Jp: on the same two walls its elementwise division by
  the zero Jp gives a table whose torsion shears and totals are NaN.
\<close>

lemma flat_R1_value:
  "\<exists>rows s. compute_rigid_diaphragm_R1 demo_inputs flat_walls = Inr (rows, s) \<and>
     sm_Jp s = Fin 0 \<and> map Vx_Real_Tor rows = [NaN, NaN] \<and>
     map Vx_kN rows = [NaN, NaN] \<and> map Vy_kN rows = [NaN, NaN]"
  by (simp add: R1_eval demo_inputs_def flat_walls_def demo_names cong: let_weak_cong)

lemma fmul_NaN_right [simp]: "fmul x NaN = NaN"
  by (cases x) simp_all

lemma fadd_NaN_right [simp]: "fadd x NaN = NaN"
  by (cases x) simp_all

text \<open>
  C3. The claim says that every solver variant aborts when Jp is zero and never returns a
  table through which NaN has propagated. The spreadsheet-like application guards each
  torsion ratio with \<open>Jp != 0\<close> and puts NaN otherwise: on two walls that lie on the
  centre of rigidity it returns a table of two rows whose torsion shears and totals are
  NaN.
\<close>

theorem jp_zero_claim_fails_in_streamlit:
  "g_Jp (snd (compute_rigid_diaph flat_st_walls demo_st_inputs)) = Fin 0 \<and>
   map st_marker (fst (compute_rigid_diaph flat_st_walls demo_st_inputs)) = [''EW1'', ''NS1''] \<and>
   map st_RealTor_X (fst (compute_rigid_diaph flat_st_walls demo_st_inputs)) = [NaN, NaN] \<and>
   map st_V_X (fst (compute_rigid_diaph flat_st_walls demo_st_inputs)) = [NaN, NaN] \<and>
   map st_V_Y (fst (compute_rigid_diaph flat_st_walls demo_st_inputs)) = [NaN, NaN]"
  using flat_st_rows_value by (simp add: flat_st_rows_def)

text \<open>
  C3, amended. In the table application, an input whose walls are all classified and whose
  polar term Jp evaluates to zero aborts with ZeroDivisionError and gives no table, and a
  returned summary never has a zero Jp. In the spreadsheet-like application a zero Jp does
  not abort: the table is returned, and in every row the four torsion ratios, the four
  torsion shears and the two totals are NaN.
\<close>

theorem jp_zero_by_variant:
  "(walls \<noteq> [] \<and>
    orient_rows_v2 (map (geo_columns_v2 (inp_X_offset inp) (inp_Y_offset inp)) walls) = Inr rigs \<and>
    sm_Jp (cor_summary (Fin 0) inp (map cor_columns (sort_walls rigs))) = Fin 0 \<longrightarrow>
      compute_rigid_diaphragm_v2 inp walls =
        Inl (ZeroDivisionError ''Jp is zero (division by zero).'')) \<and>
   (compute_rigid_diaphragm_v2 inp walls = Inr (rows2, s2) \<longrightarrow>
      sm_Jp s2 \<noteq> Fin 0 \<and>
      (\<exists>rigs'. orient_rows_v2 (map (geo_columns_v2 (inp_X_offset inp) (inp_Y_offset inp)) walls)
                 = Inr rigs' \<and>
               sm_Jp s2 = sm_Jp (cor_summary (Fin 0) inp (map cor_columns (sort_walls rigs'))))) \<and>
   (compute_rigid_diaph swalls sinp = (srows, g) \<and> g_Jp g = Fin 0 \<longrightarrow>
      length srows = length (filter (\<lambda>r. \<not> empty_row r) (map coerce_wall swalls)) \<and>
      (\<forall>r \<in> set srows.
         st_RealTorRatio_X r = NaN \<and> st_RealTorRatio_Y r = NaN \<and>
         st_AccTorRatio_X r = NaN \<and> st_AccTorRatio_Y r = NaN \<and>
         st_RealTor_X r = NaN \<and> st_RealTor_Y r = NaN \<and>
         st_AccTor_X r = NaN \<and> st_AccTor_Y r = NaN \<and>
         st_V_X r = NaN \<and> st_V_Y r = NaN))"
proof (intro conjI impI)
  assume "walls \<noteq> [] \<and>
    orient_rows_v2 (map (geo_columns_v2 (inp_X_offset inp) (inp_Y_offset inp)) walls) = Inr rigs \<and>
    sm_Jp (cor_summary (Fin 0) inp (map cor_columns (sort_walls rigs))) = Fin 0"
  then show "compute_rigid_diaphragm_v2 inp walls =
      Inl (ZeroDivisionError ''Jp is zero (division by zero).'')"
    by (simp add: compute_v2_unfold)
next
  assume a: "compute_rigid_diaphragm_v2 inp walls = Inr (rows2, s2)"
  then obtain rigs' c where
    o: "orient_rows_v2 (map (geo_columns_v2 (inp_X_offset inp) (inp_Y_offset inp)) walls) = Inr rigs'"
    and c: "c = cor_summary (Fin 0) inp (map cor_columns (sort_walls rigs'))"
    and j: "sm_Jp c \<noteq> Fin 0" and s2: "s2 = with_W c (inp_W inp)"
    by (rule compute_v2_Inr)
  show "sm_Jp s2 \<noteq> Fin 0" using j s2 by simp
  show "\<exists>rigs'. orient_rows_v2 (map (geo_columns_v2 (inp_X_offset inp) (inp_Y_offset inp)) walls)
                 = Inr rigs' \<and>
               sm_Jp s2 = sm_Jp (cor_summary (Fin 0) inp (map cor_columns (sort_walls rigs')))"
    using o c s2 by auto
next
  assume a: "compute_rigid_diaph swalls sinp = (srows, g) \<and> g_Jp g = Fin 0"
  then have "srows = fst (compute_rigid_diaph swalls sinp)" by simp
  then show "length srows = length (filter (\<lambda>r. \<not> empty_row r) (map coerce_wall swalls))"
    by (simp add: compute_rigid_diaph_rows st_frame_rows_def)
  show "\<forall>r \<in> set srows.
         st_RealTorRatio_X r = NaN \<and> st_RealTorRatio_Y r = NaN \<and>
         st_AccTorRatio_X r = NaN \<and> st_AccTorRatio_Y r = NaN \<and>
         st_RealTor_X r = NaN \<and> st_RealTor_Y r = NaN \<and>
         st_AccTor_X r = NaN \<and> st_AccTor_Y r = NaN \<and>
         st_V_X r = NaN \<and> st_V_Y r = NaN"
  proof
    fix r assume "r \<in> set srows"
    with a obtain b where r: "r = result_columns (to_float (in_Vx sinp) (Fin 0))
        (to_float (in_Vy sinp) (Fin 0)) (g_xr_local g) (g_yr_local g) (g_sum_Ri_EW g)
        (g_sum_Ri_NS g) (g_Jp g) (g_ex_real g) (g_ey_real g) (g_ex_acc g) (g_ey_acc g) b"
      by (auto elim: compute_rigid_diaph_row)
    have j: "g_Jp g = Fin 0" using a by simp
    have ratios: "st_RealTorRatio_X r = NaN" "st_RealTorRatio_Y r = NaN"
      "st_AccTorRatio_X r = NaN" "st_AccTorRatio_Y r = NaN"
      by (simp_all add: r j result_columns_sel)
    have shears: "st_RealTor_X r = NaN" "st_RealTor_Y r = NaN"
      "st_AccTor_X r = NaN" "st_AccTor_Y r = NaN"
      using ratios by (simp_all add: r result_columns_shears)
    have "st_V_X r = NaN" "st_V_Y r = NaN"
      using shears by (simp_all add: r result_columns_shears)
    with ratios shears show "st_RealTorRatio_X r = NaN \<and> st_RealTorRatio_Y r = NaN \<and>
         st_AccTorRatio_X r = NaN \<and> st_AccTorRatio_Y r = NaN \<and>
         st_RealTor_X r = NaN \<and> st_RealTor_Y r = NaN \<and>
         st_AccTor_X r = NaN \<and> st_AccTor_Y r = NaN \<and>
         st_V_X r = NaN \<and> st_V_Y r = NaN"
      by simp
  qed
qed


lemma flat_v2_hyps:
  "\<exists>rigs. orient_rows_v2 (map (geo_columns_v2 (inp_X_offset demo_inputs)
                (inp_Y_offset demo_inputs)) flat_walls) = Inr rigs \<and>
     sm_Jp (cor_summary (Fin 0) demo_inputs (map cor_columns (sort_walls rigs))) = Fin 0"
  by (simp add: v2_eval cor_summary_def demo_inputs_def flat_walls_def demo_names
      cong: let_weak_cong)

theorem jp_zero_by_variant_witness:
  "flat_walls \<noteq> [] \<and>
   compute_rigid_diaphragm_v2 demo_inputs flat_walls =
     Inl (ZeroDivisionError ''Jp is zero (division by zero).'') \<and>
   (\<exists>rows s. compute_rigid_diaphragm_v2 demo_inputs demo_walls = Inr (rows, s) \<and>
      sm_Jp s \<noteq> Fin 0) \<and>
   (\<exists>rows g. compute_rigid_diaph flat_st_walls demo_st_inputs = (rows, g) \<and>
      g_Jp g = Fin 0 \<and> length rows = 2 \<and>
      (\<forall>r \<in> set rows. st_RealTor_X r = NaN \<and> st_AccTor_X r = NaN \<and>
                        st_V_X r = NaN \<and> st_V_Y r = NaN))"
proof -
  obtain rigs where h: "orient_rows_v2 (map (geo_columns_v2 (inp_X_offset demo_inputs)
                (inp_Y_offset demo_inputs)) flat_walls) = Inr rigs"
     "sm_Jp (cor_summary (Fin 0) demo_inputs (map cor_columns (sort_walls rigs))) = Fin 0"
    using flat_v2_hyps by blast
  have ne: "flat_walls \<noteq> []" by (simp add: flat_walls_def)
  obtain rows2 s2 where r2: "compute_rigid_diaphragm_v2 demo_inputs demo_walls = Inr (rows2, s2)"
    using demo_v2_runs by blast
  have st: "compute_rigid_diaph flat_st_walls demo_st_inputs =
      (flat_st_rows, snd (compute_rigid_diaph flat_st_walls demo_st_inputs))"
    by (simp add: flat_st_rows_def)
  have j: "g_Jp (snd (compute_rigid_diaph flat_st_walls demo_st_inputs)) = Fin 0"
    by (rule flat_st_rows_value(1))
  have len: "length flat_st_rows = 2"
    using flat_st_rows_value(2) by (metis length_map length_Cons list.size(3) numeral_2_eq_2)
  note t1 = jp_zero_by_variant [of flat_walls demo_inputs rigs rows2 s2
      flat_st_walls demo_st_inputs flat_st_rows
      "snd (compute_rigid_diaph flat_st_walls demo_st_inputs)"]
  note t2 = jp_zero_by_variant [of demo_walls demo_inputs rigs rows2 s2
      flat_st_walls demo_st_inputs flat_st_rows
      "snd (compute_rigid_diaph flat_st_walls demo_st_inputs)"]
  have a: "compute_rigid_diaphragm_v2 demo_inputs flat_walls =
     Inl (ZeroDivisionError ''Jp is zero (division by zero).'')"
    using t1 h ne by blast
  have b: "sm_Jp s2 \<noteq> Fin 0" using t2 r2 by blast
  have c: "\<forall>r \<in> set flat_st_rows. st_RealTor_X r = NaN \<and> st_AccTor_X r = NaN \<and>
                        st_V_X r = NaN \<and> st_V_Y r = NaN"
    using t1 st j by blast
  show ?thesis using ne a b c r2 st j len by blast
qed

section \<open>Names without a direction marker\<close>

lemma startswith_iff: "startswith s p \<longleftrightarrow> (\<exists>t. s = p @ t)"
  by (induction s p rule: startswith.induct) auto

lemma str_in_iff: "str_in p s \<longleftrightarrow> (\<exists>a b. s = a @ p @ b)"
proof (induction s)
  case Nil
  then show ?case by auto
next
  case (Cons c cs)
  show ?case
  proof
    assume "str_in p (c # cs)"
    then consider "startswith (c # cs) p" | "str_in p cs" by auto
    then show "\<exists>a b. c # cs = a @ p @ b"
    proof cases
      case 1
      then obtain t where "c # cs = p @ t" by (auto simp: startswith_iff)
      then have "c # cs = [] @ p @ t" by simp
      then show ?thesis by blast
    next
      case 2
      then obtain a b where "cs = a @ p @ b" using Cons.IH by blast
      then have "c # cs = (c # a) @ p @ b" by simp
      then show ?thesis by blast
    qed
  next
    assume "\<exists>a b. c # cs = a @ p @ b"
    then obtain a b where ab: "c # cs = a @ p @ b" by blast
    show "str_in p (c # cs)"
    proof (cases a)
      case Nil
      then have "startswith (c # cs) p" using ab by (auto simp: startswith_iff)
      then show ?thesis by simp
    next
      case (Cons a0 as)
      then have "cs = as @ p @ b" using ab by simp
      then have "str_in p cs" using Cons.IH by blast
      then show ?thesis by simp
    qed
  qed
qed

lemma startswith_str_in: "startswith s p \<Longrightarrow> str_in p s"
  unfolding startswith_iff str_in_iff by (metis append_Nil)

lemma strip_infix: "\<exists>a b. s = a @ strip s @ b"
proof -
  have 1: "s = takeWhile isspace s @ dropWhile isspace s" by simp
  have 2: "dropWhile isspace s =
      strip s @ rev (takeWhile isspace (rev (dropWhile isspace s)))"
    unfolding strip_def
    by (metis rev_append rev_rev_ident takeWhile_dropWhile_id)
  from 1 2 show ?thesis by metis
qed

lemma str_in_upper_strip:
  assumes "str_in p (upper (strip s))"
  shows "str_in p (upper s)"
proof -
  obtain a b where s: "s = a @ strip s @ b" using strip_infix by blast
  obtain c d where "upper (strip s) = c @ p @ d" using assms by (auto simp: str_in_iff)
  then have "upper s = (upper a @ c) @ p @ (d @ upper b)"
    by (subst s) (simp add: upper_def)
  then show ?thesis unfolding str_in_iff by blast
qed

lemma unmarked_strip: "unmarked s \<Longrightarrow> unmarked (strip s)"
  unfolding unmarked_def using str_in_upper_strip by blast

lemma wall_row_R1_marked:
  "wall_row_R1 ox oy w = Inr r \<Longrightarrow> \<not> unmarked (clean_wall_name (Wall_Name w))"
  by (auto simp: wall_row_R1_def wall_orientation_factors_R1_def unmarked_def Let_def
      split: sum.splits if_splits)

lemma build_rows_R1_marked:
  "build_rows_R1 ox oy ws = Inr rs \<Longrightarrow> \<forall>w \<in> set ws. \<not> unmarked (clean_wall_name (Wall_Name w))"
proof (induction ws arbitrary: rs)
  case Nil
  then show ?case by simp
next
  case (Cons w ws)
  then show ?case
    by (auto split: sum.splits dest: wall_row_R1_marked)
qed

lemma orient_rows_v2_marked:
  "orient_rows_v2 gs = Inr rs \<Longrightarrow> \<forall>g \<in> set gs. \<not> unmarked (Wall_Name g)"
proof (induction gs arbitrary: rs)
  case Nil
  then show ?case by simp
next
  case (Cons g gs)
  then show ?case
    by (auto simp: wall_orientation_factors_v2_def unmarked_def Let_def
        split: sum.splits if_splits prod.splits)
qed

lemma geo_columns_v2_name [simp]:
  "Wall_Name (geo_columns_v2 ox oy w) = strip (Wall_Name w)"
  by (simp add: geo_columns_v2_def Let_def)

lemma unmarked_wall_fails_R1:
  assumes "w \<in> set walls" and "unmarked (Wall_Name w)"
  shows "\<exists>e. compute_rigid_diaphragm_R1 inp walls = Inl e"
proof (cases "compute_rigid_diaphragm_R1 inp walls")
  case (Inl e)
  then show ?thesis by blast
next
  case (Inr p)
  then obtain rows s where "compute_rigid_diaphragm_R1 inp walls = Inr (rows, s)"
    by (cases p) auto
  then obtain bases where
    "build_rows_R1 (inp_X_offset inp) (inp_Y_offset inp) walls = Inr bases"
    by (rule compute_R1_Inr)
  then have "\<not> unmarked (clean_wall_name (Wall_Name w))"
    using assms(1) build_rows_R1_marked by blast
  then show ?thesis using assms(2) unmarked_strip by (simp add: clean_wall_name_def)
qed

lemma unmarked_wall_fails_v2:
  assumes "w \<in> set walls" and "unmarked (Wall_Name w)"
  shows "\<exists>e. compute_rigid_diaphragm_v2 inp walls = Inl e"
proof (cases "compute_rigid_diaphragm_v2 inp walls")
  case (Inl e)
  then show ?thesis by blast
next
  case (Inr p)
  then obtain rows s where "compute_rigid_diaphragm_v2 inp walls = Inr (rows, s)"
    by (cases p) auto
  then obtain rigs where
    "orient_rows_v2 (map (geo_columns_v2 (inp_X_offset inp) (inp_Y_offset inp)) walls) = Inr rigs"
    by (rule compute_v2_Inr)
  then have "\<not> unmarked (Wall_Name (geo_columns_v2 (inp_X_offset inp) (inp_Y_offset inp) w))"
    using assms(1) orient_rows_v2_marked by fastforce
  then show ?thesis using assms(2) unmarked_strip by simp
qed

lemma base_columns_sel:
  "st_marker (base_columns ox oy r) = st_marker r"
  "st_Ri_EW (base_columns ox oy r) =
     (if startswith (upper (st_marker r)) ''EW'' then fdiv (Fin 1) (st_delta (base_columns ox oy r))
      else Fin 0)"
  "st_Ri_NS (base_columns ox oy r) =
     (if startswith (upper (st_marker r)) ''NS'' then fdiv (Fin 1) (st_delta (base_columns ox oy r))
      else Fin 0)"
  by (simp_all add: base_columns_def Let_def)

lemma w1_st_rows_value:
  "map st_marker w1_st_rows = [''EW1'', ''EW2'', ''NS1'', ''NS2'', ''W1'']"
  "map st_Ri_EW w1_st_rows = [Fin (1 / 7), Fin (1 / 2), Fin 0, Fin 0, Fin 0]"
  "map st_Ri_NS w1_st_rows = [Fin 0, Fin 0, Fin (1 / 7), Fin (1 / 2), Fin 0]"
  "map st_V_X w1_st_rows = [Fin (7 / 9), Fin (70 / 9), Fin 0, Fin 0, Fin 0]"
  "map st_V_Y w1_st_rows = [Fin 0, Fin 0, Fin (5 / 18), Fin (95 / 18), Fin 0]"
proof -
  have n: "strip ''W1'' = ''W1''" "upper ''W1'' = ''W1''" by code_simp+
  show "map st_marker w1_st_rows = [''EW1'', ''EW2'', ''NS1'', ''NS2'', ''W1'']"
    "map st_Ri_EW w1_st_rows = [Fin (1 / 7), Fin (1 / 2), Fin 0, Fin 0, Fin 0]"
    "map st_Ri_NS w1_st_rows = [Fin 0, Fin 0, Fin (1 / 7), Fin (1 / 2), Fin 0]"
    "map st_V_X w1_st_rows = [Fin (7 / 9), Fin (70 / 9), Fin 0, Fin 0, Fin 0]"
    "map st_V_Y w1_st_rows = [Fin 0, Fin 0, Fin (5 / 18), Fin (95 / 18), Fin 0]"
    unfolding w1_st_rows_def
    by (simp_all add: st_eval demo_st_inputs_def w1_st_walls_def demo_st_walls_def demo_names n
        cong: let_weak_cong)
qed

lemma unmarked_W1: "unmarked ''W1''"
  by code_simp

text \<open>
  C4. The claim says that a wall whose name contains neither marker makes the classifier
  and the solver raise, and never appears in an output with zero rigidity. The
  spreadsheet-like application has no such error: it sets both rigidities of the wall to
  zero. With a wall named W1 after the four sample walls, it returns five rows, and the
  row of W1 has \<open>Ri_EW = Ri_NS = 0\<close> and zero totals.
\<close>

theorem unmarked_name_claim_fails_in_streamlit:
  "unmarked ''W1'' \<and>
   map w_marker w1_st_walls = [''EW1'', ''EW2'', ''NS1'', ''NS2'', ''W1''] \<and>
   map st_marker (fst (compute_rigid_diaph w1_st_walls demo_st_inputs)) =
     [''EW1'', ''EW2'', ''NS1'', ''NS2'', ''W1''] \<and>
   st_Ri_EW (fst (compute_rigid_diaph w1_st_walls demo_st_inputs) ! 4) = Fin 0 \<and>
   st_Ri_NS (fst (compute_rigid_diaph w1_st_walls demo_st_inputs) ! 4) = Fin 0 \<and>
   st_V_X (fst (compute_rigid_diaph w1_st_walls demo_st_inputs) ! 4) = Fin 0 \<and>
   st_V_Y (fst (compute_rigid_diaph w1_st_walls demo_st_inputs) ! 4) = Fin 0"
proof -
  have "map w_marker w1_st_walls = [''EW1'', ''EW2'', ''NS1'', ''NS2'', ''W1'']"
    by (simp add: w1_st_walls_def demo_st_walls_def mk_st_wall_def)
  moreover have "length w1_st_rows = 5"
    using w1_st_rows_value(1) by (metis length_map length_Cons list.size(3) eval_nat_numeral(3) numeral_2_eq_2 Suc_numeral semiring_norm(2,8))
  ultimately show ?thesis
    using w1_st_rows_value unmarked_W1
    by (simp add: w1_st_rows_def list_eq_iff_nth_eq)
qed


text \<open>
  C4, amended. In the console script and in the table application the classifier raises
  ValueError, with the name in its message, for every name that contains neither EW nor
  NS in any letter case, and a wall list that contains such a name makes the solve fail
  without a table (with that ValueError, or with the error of an earlier step of the
  loop). In the spreadsheet-like application nothing is raised: every wall that is not an
  empty row is kept in the table, and a wall whose marker does not start with EW or NS, in
  particular one that contains neither, has \<open>Ri_EW = Ri_NS = 0\<close>.
\<close>

theorem unmarked_name_by_variant:
  "(unmarked nm \<longrightarrow>
      wall_orientation_factors_R1 nm D = Inl (ValueError (name_error_R1 nm)) \<and>
      wall_orientation_factors_v2 nm D = Inl (ValueError (name_error_v2 nm))) \<and>
   ((\<exists>w \<in> set walls. unmarked (Wall_Name w)) \<longrightarrow>
      (\<exists>e. compute_rigid_diaphragm_R1 inp walls = Inl e) \<and>
      (\<exists>e. compute_rigid_diaphragm_v2 inp walls = Inl e)) \<and>
   (compute_rigid_diaph swalls sinp = (srows, g) \<longrightarrow>
      map st_marker srows =
        map st_marker (filter (\<lambda>r. \<not> empty_row r) (map coerce_wall swalls)) \<and>
      (\<forall>r \<in> set srows.
         \<not> startswith (upper (st_marker r)) ''EW'' \<and> \<not> startswith (upper (st_marker r)) ''NS''
         \<longrightarrow> st_Ri_EW r = Fin 0 \<and> st_Ri_NS r = Fin 0) \<and>
      (\<forall>r \<in> set srows. unmarked (st_marker r) \<longrightarrow> st_Ri_EW r = Fin 0 \<and> st_Ri_NS r = Fin 0))"
proof (intro conjI impI)
  assume "unmarked nm"
  then show "wall_orientation_factors_R1 nm D = Inl (ValueError (name_error_R1 nm))"
    and "wall_orientation_factors_v2 nm D = Inl (ValueError (name_error_v2 nm))"
    by (simp_all add: unmarked_def wall_orientation_factors_R1_def
        wall_orientation_factors_v2_def)
next
  assume "\<exists>w \<in> set walls. unmarked (Wall_Name w)"
  then show "\<exists>e. compute_rigid_diaphragm_R1 inp walls = Inl e"
    and "\<exists>e. compute_rigid_diaphragm_v2 inp walls = Inl e"
    using unmarked_wall_fails_R1 unmarked_wall_fails_v2 by blast+
next
  assume a: "compute_rigid_diaph swalls sinp = (srows, g)"
  then have rows: "srows = fst (compute_rigid_diaph swalls sinp)" by simp
  show "map st_marker srows =
      map st_marker (filter (\<lambda>r. \<not> empty_row r) (map coerce_wall swalls))"
    by (simp add: rows compute_rigid_diaph_rows st_frame_rows_def result_columns_sel
        base_columns_sel comp_def)
  have zero: "st_Ri_EW r = Fin 0 \<and> st_Ri_NS r = Fin 0"
    if "r \<in> set srows"
      and "\<not> startswith (upper (st_marker r)) ''EW''"
      and "\<not> startswith (upper (st_marker r)) ''NS''" for r
  proof -
    from a that(1) obtain b where b: "b \<in> set (st_frame_rows swalls sinp)"
      and r: "r = result_columns (to_float (in_Vx sinp) (Fin 0))
        (to_float (in_Vy sinp) (Fin 0)) (g_xr_local g) (g_yr_local g) (g_sum_Ri_EW g)
        (g_sum_Ri_NS g) (g_Jp g) (g_ex_real g) (g_ey_real g) (g_ex_acc g) (g_ey_acc g) b"
      by (rule compute_rigid_diaph_row)
    from b obtain f where f: "b = base_columns (to_float (in_origin_x sinp) NaN)
        (to_float (in_origin_y sinp) NaN) f"
      by (auto simp: st_frame_rows_def)
    have "st_marker r = st_marker f" by (simp add: r f result_columns_sel base_columns_sel)
    with that(2,3) show ?thesis by (simp add: r f result_columns_sel base_columns_sel)
  qed
  then show "\<forall>r \<in> set srows.
         \<not> startswith (upper (st_marker r)) ''EW'' \<and> \<not> startswith (upper (st_marker r)) ''NS''
         \<longrightarrow> st_Ri_EW r = Fin 0 \<and> st_Ri_NS r = Fin 0"
    by blast
  show "\<forall>r \<in> set srows. unmarked (st_marker r) \<longrightarrow> st_Ri_EW r = Fin 0 \<and> st_Ri_NS r = Fin 0"
    using zero startswith_str_in unfolding unmarked_def by blast
qed

lemma w1_walls_value:
  "compute_rigid_diaphragm_R1 demo_inputs w1_walls = Inl (ValueError (name_error_R1 ''W1''))"
  "compute_rigid_diaphragm_v2 demo_inputs w1_walls = Inl (ValueError (name_error_v2 ''W1''))"
proof -
  have n: "strip ''W1'' = ''W1''" "upper ''W1'' = ''W1''" by code_simp+
  show "compute_rigid_diaphragm_R1 demo_inputs w1_walls = Inl (ValueError (name_error_R1 ''W1''))"
    by (simp add: R1_eval demo_inputs_def w1_walls_def demo_walls_def demo_names n
        cong: let_weak_cong)
  show "compute_rigid_diaphragm_v2 demo_inputs w1_walls = Inl (ValueError (name_error_v2 ''W1''))"
    by (simp add: v2_eval demo_inputs_def w1_walls_def demo_walls_def demo_names n
        cong: let_weak_cong)
qed

theorem unmarked_name_by_variant_witness:
  "unmarked ''W1'' \<and>
   wall_orientation_factors_R1 ''W1'' (Fin 7) = Inl (ValueError (name_error_R1 ''W1'')) \<and>
   wall_orientation_factors_v2 ''W1'' (Fin 7) = Inl (ValueError (name_error_v2 ''W1'')) \<and>
   (\<exists>w \<in> set w1_walls. unmarked (Wall_Name w)) \<and>
   (\<exists>e. compute_rigid_diaphragm_R1 demo_inputs w1_walls = Inl e) \<and>
   (\<exists>e. compute_rigid_diaphragm_v2 demo_inputs w1_walls = Inl e) \<and>
   (\<exists>rows g. compute_rigid_diaph w1_st_walls demo_st_inputs = (rows, g) \<and>
      map st_marker rows = [''EW1'', ''EW2'', ''NS1'', ''NS2'', ''W1''] \<and>
      (\<forall>r \<in> set rows. unmarked (st_marker r) \<longrightarrow> st_Ri_EW r = Fin 0 \<and> st_Ri_NS r = Fin 0))"
proof -
  have u: "unmarked ''W1''" by (rule unmarked_W1)
  have w: "\<exists>w \<in> set w1_walls. unmarked (Wall_Name w)"
    using u by (simp add: w1_walls_def mk_wall_def)
  have st: "compute_rigid_diaph w1_st_walls demo_st_inputs =
      (w1_st_rows, snd (compute_rigid_diaph w1_st_walls demo_st_inputs))"
    by (simp add: w1_st_rows_def)
  note t = unmarked_name_by_variant [of "''W1''" "Fin 7" w1_walls demo_inputs
      w1_st_walls demo_st_inputs w1_st_rows "snd (compute_rigid_diaph w1_st_walls demo_st_inputs)"]
  have a: "wall_orientation_factors_R1 ''W1'' (Fin 7) = Inl (ValueError (name_error_R1 ''W1''))"
    "wall_orientation_factors_v2 ''W1'' (Fin 7) = Inl (ValueError (name_error_v2 ''W1''))"
    using t u by blast+
  have b: "\<exists>e. compute_rigid_diaphragm_R1 demo_inputs w1_walls = Inl e"
    "\<exists>e. compute_rigid_diaphragm_v2 demo_inputs w1_walls = Inl e"
    using t w by blast+
  have c: "\<forall>r \<in> set w1_st_rows. unmarked (st_marker r) \<longrightarrow> st_Ri_EW r = Fin 0 \<and> st_Ri_NS r = Fin 0"
    using t st by blast
  have d: "\<exists>rows g. compute_rigid_diaph w1_st_walls demo_st_inputs = (rows, g) \<and>
      map st_marker rows = [''EW1'', ''EW2'', ''NS1'', ''NS2'', ''W1''] \<and>
      (\<forall>r \<in> set rows. unmarked (st_marker r) \<longrightarrow> st_Ri_EW r = Fin 0 \<and> st_Ri_NS r = Fin 0)"
  proof (intro exI conjI)
    show "compute_rigid_diaph w1_st_walls demo_st_inputs =
      (w1_st_rows, snd (compute_rigid_diaph w1_st_walls demo_st_inputs))"
      by (rule st)
    show "map st_marker w1_st_rows = [''EW1'', ''EW2'', ''NS1'', ''NS2'', ''W1'']"
      by (rule w1_st_rows_value(1))
    show "\<forall>r \<in> set w1_st_rows. unmarked (st_marker r) \<longrightarrow> st_Ri_EW r = Fin 0 \<and> st_Ri_NS r = Fin 0"
      by (rule c)
  qed
  from u a b w d show ?thesis by - (intro conjI; assumption)
qed

section \<open>Centre of rigidity of an axis without rigidity\<close>

lemma shear_table_cols:
  "map Wall_Name (shear_table s bases) = map Wall_Name bases"
  "map w_k_kN (shear_table s bases) = map w_k_kN bases"
  "map xk_m (shear_table s bases) = map xk_m bases"
  "map yk_m (shear_table s bases) = map yk_m bases"
  "map Rix (shear_table s bases) = map Rix bases"
  "map Riy (shear_table s bases) = map Riy bases"
  "map Riy_xk (shear_table s bases) = map Riy_xk bases"
  "map Rix_yk (shear_table s bases) = map Rix_yk bases"
  by (simp_all add: shear_table_def shear_columns_sel comp_def)

lemma compute_rigid_diaph_sums:
  "g_sum_Ri_EW (snd (compute_rigid_diaph walls inp)) =
     pdsum (map st_Ri_EW (st_frame_rows walls inp))"
  "g_sum_Ri_NS (snd (compute_rigid_diaph walls inp)) =
     pdsum (map st_Ri_NS (st_frame_rows walls inp))"
  "g_xr_local (snd (compute_rigid_diaph walls inp)) =
     (if pdsum (map st_Ri_NS (st_frame_rows walls inp)) \<noteq> Fin 0
      then fdiv (pdsum (map (\<lambda>b. fmul (st_Ri_NS b) (st_xk b)) (st_frame_rows walls inp)))
             (pdsum (map st_Ri_NS (st_frame_rows walls inp)))
      else NaN)"
  "g_yr_local (snd (compute_rigid_diaph walls inp)) =
     (if pdsum (map st_Ri_EW (st_frame_rows walls inp)) \<noteq> Fin 0
      then fdiv (pdsum (map (\<lambda>b. fmul (st_Ri_EW b) (st_yk b)) (st_frame_rows walls inp)))
             (pdsum (map st_Ri_EW (st_frame_rows walls inp)))
      else NaN)"
  by (simp_all add: compute_rigid_diaph_def st_frame_rows_def Let_def)

lemma result_columns_base:
  "st_xk (result_columns Vx Vy xr yr sE sN J exr eyr exa eya b) = st_xk b"
  "st_yk (result_columns Vx Vy xr yr sE sN J exr eyr exa eya b) = st_yk b"
  "st_L (result_columns Vx Vy xr yr sE sN J exr eyr exa eya b) = st_L b"
  "st_H (result_columns Vx Vy xr yr sE sN J exr eyr exa eya b) = st_H b"
  by (simp_all add: result_columns_def Let_def)

lemma compute_rigid_diaph_cols:
  "map st_Ri_EW (fst (compute_rigid_diaph walls inp)) = map st_Ri_EW (st_frame_rows walls inp)"
  "map st_Ri_NS (fst (compute_rigid_diaph walls inp)) = map st_Ri_NS (st_frame_rows walls inp)"
  "map (\<lambda>b. fmul (st_Ri_NS b) (st_xk b)) (fst (compute_rigid_diaph walls inp)) =
     map (\<lambda>b. fmul (st_Ri_NS b) (st_xk b)) (st_frame_rows walls inp)"
  "map (\<lambda>b. fmul (st_Ri_EW b) (st_yk b)) (fst (compute_rigid_diaph walls inp)) =
     map (\<lambda>b. fmul (st_Ri_EW b) (st_yk b)) (st_frame_rows walls inp)"
  by (simp_all add: compute_rigid_diaph_rows result_columns_sel result_columns_base comp_def)

lemma ew_v2_value:
  "\<not> isl (compute_rigid_diaphragm_v2 demo_inputs ew_walls)"
  "sm_sum_Riy (snd (projr (compute_rigid_diaphragm_v2 demo_inputs ew_walls))) = Fin 0"
  "sm_Xcr (snd (projr (compute_rigid_diaphragm_v2 demo_inputs ew_walls))) = Fin 0"
  "sm_Ycr (snd (projr (compute_rigid_diaphragm_v2 demo_inputs ew_walls))) = Fin 7"
  by (simp_all add: v2_eval demo_inputs_def ew_walls_def demo_names cong: let_weak_cong)

text \<open>
  C7. The claim says that every solver variant reports the centre of rigidity of an axis
  without rigidity as NaN and not as zero. The table application reports it as \<open>0.0\<close>:
  for two east-west walls and no north-south wall the sum of \<open>Riy\<close> is zero and the
  returned \<open>Xcr\<close> is \<open>0\<close>.
\<close>

theorem undefined_centre_claim_fails_in_v2:
  "\<not> isl (compute_rigid_diaphragm_v2 demo_inputs ew_walls) \<and>
   sm_sum_Riy (snd (projr (compute_rigid_diaphragm_v2 demo_inputs ew_walls))) = Fin 0 \<and>
   sm_Xcr (snd (projr (compute_rigid_diaphragm_v2 demo_inputs ew_walls))) = Fin 0 \<and>
   sm_Xcr (snd (projr (compute_rigid_diaphragm_v2 demo_inputs ew_walls))) \<noteq> NaN"
  using ew_v2_value by simp

text \<open>
  C7, amended. In the console script and in the spreadsheet-like application, a zero
  rigidity sum makes the centre-of-rigidity coordinate of that axis NaN, and the other
  coordinate is still the quotient of its sums; in the console script nothing is raised for
  it: once the loop over the walls has built its rows, the solve returns. In the table
  application the coordinate of an axis with a zero rigidity sum is \<open>0.0\<close>.
\<close>

theorem undefined_centre_by_variant:
  "(compute_rigid_diaphragm_R1 inp walls = Inr (rows, s) \<longrightarrow>
      sm_sum_Rix s = pdsum (map Rix rows) \<and> sm_sum_Riy s = pdsum (map Riy rows) \<and>
      sm_Xcr s = (if sm_sum_Riy s = Fin 0 then NaN
                  else fdiv (pdsum (map Riy_xk rows)) (sm_sum_Riy s)) \<and>
      sm_Ycr s = (if sm_sum_Rix s = Fin 0 then NaN
                  else fdiv (pdsum (map Rix_yk rows)) (sm_sum_Rix s))) \<and>
   (build_rows_R1 (inp_X_offset inp) (inp_Y_offset inp) walls = Inr bases \<and> bases \<noteq> [] \<longrightarrow>
      (\<exists>rows s. compute_rigid_diaphragm_R1 inp walls = Inr (rows, s))) \<and>
   (compute_rigid_diaphragm_v2 inp walls = Inr (rows2, s2) \<longrightarrow>
      sm_sum_Rix s2 = pdsum (map Rix rows2) \<and> sm_sum_Riy s2 = pdsum (map Riy rows2) \<and>
      sm_Xcr s2 = (if sm_sum_Riy s2 = Fin 0 then Fin 0
                   else fdiv (pdsum (map Riy_xk rows2)) (sm_sum_Riy s2)) \<and>
      sm_Ycr s2 = (if sm_sum_Rix s2 = Fin 0 then Fin 0
                   else fdiv (pdsum (map Rix_yk rows2)) (sm_sum_Rix s2))) \<and>
   (compute_rigid_diaph swalls sinp = (srows, g) \<longrightarrow>
      g_sum_Ri_EW g = pdsum (map st_Ri_EW srows) \<and>
      g_sum_Ri_NS g = pdsum (map st_Ri_NS srows) \<and>
      g_xr_local g =
        (if g_sum_Ri_NS g = Fin 0 then NaN
         else fdiv (pdsum (map (\<lambda>r. fmul (st_Ri_NS r) (st_xk r)) srows)) (g_sum_Ri_NS g)) \<and>
      g_yr_local g =
        (if g_sum_Ri_EW g = Fin 0 then NaN
         else fdiv (pdsum (map (\<lambda>r. fmul (st_Ri_EW r) (st_yk r)) srows)) (g_sum_Ri_EW g)))"
proof (intro conjI impI)
  assume "compute_rigid_diaphragm_R1 inp walls = Inr (rows, s)"
  then obtain bases where s: "s = cor_summary NaN inp bases" and rows: "rows = shear_table s bases"
    by (rule compute_R1_Inr)
  show "sm_sum_Rix s = pdsum (map Rix rows)" "sm_sum_Riy s = pdsum (map Riy rows)"
    by (simp_all add: rows shear_table_cols) (simp_all add: s cor_summary_sel)
  then show "sm_Xcr s = (if sm_sum_Riy s = Fin 0 then NaN
                  else fdiv (pdsum (map Riy_xk rows)) (sm_sum_Riy s))"
    "sm_Ycr s = (if sm_sum_Rix s = Fin 0 then NaN
                  else fdiv (pdsum (map Rix_yk rows)) (sm_sum_Rix s))"
    by (simp_all add: rows shear_table_cols) (simp_all add: s cor_summary_sel)
next
  assume "build_rows_R1 (inp_X_offset inp) (inp_Y_offset inp) walls = Inr bases \<and> bases \<noteq> []"
  then show "\<exists>rows s. compute_rigid_diaphragm_R1 inp walls = Inr (rows, s)"
    by (simp add: compute_R1_unfold)
next
  assume "compute_rigid_diaphragm_v2 inp walls = Inr (rows2, s2)"
  then obtain rigs c where c: "c = cor_summary (Fin 0) inp (map cor_columns (sort_walls rigs))"
    and s2: "s2 = with_W c (inp_W inp)"
    and rows: "rows2 = shear_table c (map cor_columns (sort_walls rigs))"
    by (rule compute_v2_Inr)
  show "sm_sum_Rix s2 = pdsum (map Rix rows2)" "sm_sum_Riy s2 = pdsum (map Riy rows2)"
    by (simp_all add: rows s2 shear_table_cols) (simp_all add: c cor_summary_sel)
  then show "sm_Xcr s2 = (if sm_sum_Riy s2 = Fin 0 then Fin 0
                   else fdiv (pdsum (map Riy_xk rows2)) (sm_sum_Riy s2))"
    "sm_Ycr s2 = (if sm_sum_Rix s2 = Fin 0 then Fin 0
                   else fdiv (pdsum (map Rix_yk rows2)) (sm_sum_Rix s2))"
    by (simp_all add: rows s2 shear_table_cols) (simp_all add: c cor_summary_sel)
next
  assume "compute_rigid_diaph swalls sinp = (srows, g)"
  then have r: "srows = fst (compute_rigid_diaph swalls sinp)"
    and g: "g = snd (compute_rigid_diaph swalls sinp)" by simp_all
  show "g_sum_Ri_EW g = pdsum (map st_Ri_EW srows)" "g_sum_Ri_NS g = pdsum (map st_Ri_NS srows)"
    by (simp_all only: r g compute_rigid_diaph_cols compute_rigid_diaph_sums)
  then show "g_xr_local g =
        (if g_sum_Ri_NS g = Fin 0 then NaN
         else fdiv (pdsum (map (\<lambda>r. fmul (st_Ri_NS r) (st_xk r)) srows)) (g_sum_Ri_NS g))"
    "g_yr_local g =
        (if g_sum_Ri_EW g = Fin 0 then NaN
         else fdiv (pdsum (map (\<lambda>r. fmul (st_Ri_EW r) (st_yk r)) srows)) (g_sum_Ri_EW g))"
    by (simp_all only: r g compute_rigid_diaph_cols compute_rigid_diaph_sums if_not_P
        split: if_splits) simp_all
qed


lemma not_isl_pair: "\<not> isl x \<Longrightarrow> \<exists>rows s. x = Inr (rows, s)"
  by (cases x) auto

lemma ew_R1_value:
  "\<not> isl (compute_rigid_diaphragm_R1 demo_inputs ew_walls)"
  "sm_sum_Riy (snd (projr (compute_rigid_diaphragm_R1 demo_inputs ew_walls))) = Fin 0"
  "sm_Xcr (snd (projr (compute_rigid_diaphragm_R1 demo_inputs ew_walls))) = NaN"
  "sm_Ycr (snd (projr (compute_rigid_diaphragm_R1 demo_inputs ew_walls))) = Fin 7"
  "map Wall_Name (fst (projr (compute_rigid_diaphragm_R1 demo_inputs ew_walls))) = [''EW1'', ''EW2'']"
  "map Direct_Shear_y (fst (projr (compute_rigid_diaphragm_R1 demo_inputs ew_walls))) = [Fin 0, Fin 0]"
  "map Vy_Real_Tor (fst (projr (compute_rigid_diaphragm_R1 demo_inputs ew_walls))) = [NaN, NaN]"
  "map Vy_Acc_Tor (fst (projr (compute_rigid_diaphragm_R1 demo_inputs ew_walls))) = [NaN, NaN]"
  "map Vy_kN (fst (projr (compute_rigid_diaphragm_R1 demo_inputs ew_walls))) = [NaN, NaN]"
  by (simp_all add: R1_eval demo_inputs_def ew_walls_def demo_names cong: let_weak_cong)

lemma ew_st_value:
  "g_sum_Ri_NS (snd (compute_rigid_diaph ew_st_walls demo_st_inputs)) = Fin 0"
  "g_xr_local (snd (compute_rigid_diaph ew_st_walls demo_st_inputs)) = NaN"
  "g_yr_local (snd (compute_rigid_diaph ew_st_walls demo_st_inputs)) = Fin 7"
  by (simp_all add: st_eval demo_st_inputs_def ew_st_walls_def demo_names cong: let_weak_cong)

lemma ew_bases:
  "\<exists>bases. build_rows_R1 (inp_X_offset demo_inputs) (inp_Y_offset demo_inputs) ew_walls = Inr bases \<and>
     bases \<noteq> []"
  by (simp add: R1_eval demo_inputs_def ew_walls_def demo_names cong: let_weak_cong)

theorem undefined_centre_by_variant_witness:
  "(\<exists>rows s. compute_rigid_diaphragm_R1 demo_inputs ew_walls = Inr (rows, s) \<and>
      sm_sum_Riy s = Fin 0 \<and> sm_Xcr s = NaN) \<and>
   (\<exists>bases. build_rows_R1 (inp_X_offset demo_inputs) (inp_Y_offset demo_inputs) ew_walls
              = Inr bases \<and> bases \<noteq> []) \<and>
   (\<exists>rows s. compute_rigid_diaphragm_v2 demo_inputs ew_walls = Inr (rows, s) \<and>
      sm_sum_Riy s = Fin 0 \<and> sm_Xcr s = Fin 0) \<and>
   (\<exists>rows g. compute_rigid_diaph ew_st_walls demo_st_inputs = (rows, g) \<and>
      g_sum_Ri_NS g = Fin 0 \<and> g_xr_local g = NaN)"
proof -
  obtain rows s where r1: "compute_rigid_diaphragm_R1 demo_inputs ew_walls = Inr (rows, s)"
    using not_isl_pair [OF ew_R1_value(1)] by blast
  obtain rows2 s2 where r2: "compute_rigid_diaphragm_v2 demo_inputs ew_walls = Inr (rows2, s2)"
    using not_isl_pair [OF ew_v2_value(1)] by blast
  obtain bases where b: "build_rows_R1 (inp_X_offset demo_inputs) (inp_Y_offset demo_inputs)
      ew_walls = Inr bases" "bases \<noteq> []"
    using ew_bases by blast
  obtain srows g where st: "compute_rigid_diaph ew_st_walls demo_st_inputs = (srows, g)"
    by (cases "compute_rigid_diaph ew_st_walls demo_st_inputs") auto
  have z1: "sm_sum_Riy s = Fin 0" using ew_R1_value(2) r1 by simp
  have z2: "sm_sum_Riy s2 = Fin 0" using ew_v2_value(2) r2 by simp
  have z3: "g_sum_Ri_NS g = Fin 0" using ew_st_value(1) st by simp
  note t = undefined_centre_by_variant [of demo_inputs ew_walls rows s bases rows2 s2
      ew_st_walls demo_st_inputs srows g]
  have c1: "sm_Xcr s = NaN" using t r1 z1 by simp
  have c2: "sm_Xcr s2 = Fin 0" using t r2 z2 by simp
  have c3: "g_xr_local g = NaN" using t st z3 by simp
  show ?thesis using r1 r2 b st z1 z2 z3 c1 c2 c3 by blast
qed

section \<open>Walls of one direction only\<close>

lemma fsub_NaN_right [simp]: "fsub x NaN = NaN"
  by (simp add: fsub_def)

lemma fdiv_NaN_left [simp]: "fdiv NaN y = NaN"
  by simp

lemma pdsum_zeros: "\<forall>x \<in> set xs. x = Fin 0 \<Longrightarrow> pdsum xs = Fin 0"
proof -
  have "\<forall>x \<in> set xs. x = Fin 0 \<Longrightarrow> foldl fadd (Fin 0) xs = Fin 0"
    by (induction xs) simp_all
  moreover have "\<forall>x \<in> set xs. x = Fin 0 \<Longrightarrow> filter (\<lambda>x. x \<noteq> NaN) xs = xs"
    by (induction xs) simp_all
  ultimately show "\<forall>x \<in> set xs. x = Fin 0 \<Longrightarrow> pdsum xs = Fin 0"
    by (simp add: pdsum_def)
qed

lemma wall_row_R1_EW:
  "wall_row_R1 ox oy w = Inr b \<Longrightarrow> str_in ''EW'' (upper (clean_wall_name (Wall_Name w)))
     \<Longrightarrow> Riy b = Fin 0"
  by (auto simp: wall_row_R1_def wall_orientation_factors_R1_def Let_def
      split: sum.splits if_splits)

lemma build_rows_R1_EW:
  "build_rows_R1 ox oy ws = Inr bs \<Longrightarrow>
   \<forall>w \<in> set ws. str_in ''EW'' (upper (clean_wall_name (Wall_Name w))) \<Longrightarrow>
   \<forall>b \<in> set bs. Riy b = Fin 0"
proof (induction ws arbitrary: bs)
  case Nil
  then show ?case by simp
next
  case (Cons w ws)
  then show ?case
    by (auto split: sum.splits dest: wall_row_R1_EW)
qed

text \<open>
  C8. The claim says that with east-west walls only the solver reports \<open>Ycr\<close> as NaN and
  every Y shear component as zero. In the console script, for two east-west walls, it is
  \<open>Xcr\<close> that is NaN while \<open>Ycr\<close> is \<open>7\<close>, and the Y torsion shears and the Y
  totals are NaN, not zero; only the direct Y shear is zero.
\<close>

theorem one_direction_claim_fails:
  "\<not> isl (compute_rigid_diaphragm_R1 demo_inputs ew_walls) \<and>
   map Wall_Name (fst (projr (compute_rigid_diaphragm_R1 demo_inputs ew_walls))) = [''EW1'', ''EW2''] \<and>
   sm_Ycr (snd (projr (compute_rigid_diaphragm_R1 demo_inputs ew_walls))) = Fin 7 \<and>
   sm_Xcr (snd (projr (compute_rigid_diaphragm_R1 demo_inputs ew_walls))) = NaN \<and>
   map Vy_Real_Tor (fst (projr (compute_rigid_diaphragm_R1 demo_inputs ew_walls))) = [NaN, NaN] \<and>
   map Vy_Acc_Tor (fst (projr (compute_rigid_diaphragm_R1 demo_inputs ew_walls))) = [NaN, NaN] \<and>
   map Vy_kN (fst (projr (compute_rigid_diaphragm_R1 demo_inputs ew_walls))) = [NaN, NaN]"
  using ew_R1_value by simp

text \<open>
  C8, amended. In the console script, when every wall is classified east-west and the
  solve returns, the sum of \<open>Riy\<close> is zero, \<open>Xcr\<close> is NaN, \<open>Ycr\<close> is the quotient of
  its sums (NaN only if the sum of \<open>Rix\<close> is zero too), and in every row \<open>Riy\<close> and the
  direct Y shear ratio are zero, the direct Y shear is \<open>Fy * 0\<close> (zero for a finite
  \<open>Fy\<close>), and the Y real-torsion ratio and shear, the Y accidental-torsion ratio and
  shear and the Y total are NaN.
\<close>

theorem one_direction_console:
  "(\<forall>w \<in> set walls. str_in ''EW'' (upper (clean_wall_name (Wall_Name w)))) \<and>
   compute_rigid_diaphragm_R1 inp walls = Inr (rows, s) \<longrightarrow>
     sm_sum_Riy s = Fin 0 \<and> sm_Xcr s = NaN \<and>
     sm_Ycr s = (if sm_sum_Rix s = Fin 0 then NaN
                 else fdiv (pdsum (map Rix_yk rows)) (sm_sum_Rix s)) \<and>
     (\<forall>r \<in> set rows.
        Riy r = Fin 0 \<and> Direct_Shear_Ratio_y r = Fin 0 \<and>
        Direct_Shear_y r = fmul (inp_Fy inp) (Fin 0) \<and>
        (is_finite (inp_Fy inp) \<longrightarrow> Direct_Shear_y r = Fin 0) \<and>
        Real_Tor_Ratio_y r = NaN \<and> Vy_Real_Tor r = NaN \<and>
        AccTorRatio_y r = NaN \<and> Vy_Acc_Tor r = NaN \<and> Vy_kN r = NaN)"
proof (intro impI, elim conjE)
  assume ew: "\<forall>w \<in> set walls. str_in ''EW'' (upper (clean_wall_name (Wall_Name w)))"
    and c: "compute_rigid_diaphragm_R1 inp walls = Inr (rows, s)"
  from c obtain bases where
    b: "build_rows_R1 (inp_X_offset inp) (inp_Y_offset inp) walls = Inr bases"
    and s: "s = cor_summary NaN inp bases" and rows: "rows = shear_table s bases"
    by (rule compute_R1_Inr)
  have riy: "\<forall>b \<in> set bases. Riy b = Fin 0" using build_rows_R1_EW [OF b ew] .
  have sy: "sm_sum_Riy s = Fin 0"
    using riy by (simp add: s cor_summary_sel pdsum_zeros)
  have xcr: "sm_Xcr s = NaN" using sy by (simp add: s cor_summary_sel)
  have ycr: "sm_Ycr s = (if sm_sum_Rix s = Fin 0 then NaN
                 else fdiv (pdsum (map Rix_yk rows)) (sm_sum_Rix s))"
    by (simp add: rows shear_table_cols) (simp add: s cor_summary_sel)
  have fy: "sm_Fy s = inp_Fy inp" by (simp add: s cor_summary_sel)
  have each: "Riy r = Fin 0 \<and> Direct_Shear_Ratio_y r = Fin 0 \<and>
        Direct_Shear_y r = fmul (inp_Fy inp) (Fin 0) \<and>
        (is_finite (inp_Fy inp) \<longrightarrow> Direct_Shear_y r = Fin 0) \<and>
        Real_Tor_Ratio_y r = NaN \<and> Vy_Real_Tor r = NaN \<and>
        AccTorRatio_y r = NaN \<and> Vy_Acc_Tor r = NaN \<and> Vy_kN r = NaN" if "r \<in> set rows" for r
  proof -
    from that obtain b where bb: "b \<in> set bases"
      and r: "r = shear_columns (sm_Fx s) (sm_Fy s) (sm_exbar s) (sm_eybar s) (sm_ex s) (sm_ey s)
           (sm_sum_Rix s) (sm_sum_Riy s) (sm_Jp s) (rel_columns (sm_Xcr s) (sm_Ycr s) b)"
      unfolding rows by (rule shear_table_row)
    have z: "Riy b = Fin 0" using riy bb by blast
    have fin: "is_finite (inp_Fy inp) \<Longrightarrow> fmul (inp_Fy inp) (Fin 0) = Fin 0"
      by (cases "inp_Fy inp") simp_all
    have tor: "Real_Tor_Ratio_y r = NaN" "Vy_Real_Tor r = NaN"
      "AccTorRatio_y r = NaN" "Vy_Acc_Tor r = NaN"
      by (simp_all add: r shear_columns_sel xcr)
    have tot: "Vy_kN r = NaN"
      using tor by (simp add: r shear_columns_totals)
    have dir: "Riy r = Fin 0" "Direct_Shear_Ratio_y r = Fin 0"
      "Direct_Shear_y r = fmul (inp_Fy inp) (Fin 0)"
      by (simp_all add: r shear_columns_sel z sy fy)
    show ?thesis using tor tot dir fin by simp
  qed
  show "sm_sum_Riy s = Fin 0 \<and> sm_Xcr s = NaN \<and>
     sm_Ycr s = (if sm_sum_Rix s = Fin 0 then NaN
                 else fdiv (pdsum (map Rix_yk rows)) (sm_sum_Rix s)) \<and>
     (\<forall>r \<in> set rows.
        Riy r = Fin 0 \<and> Direct_Shear_Ratio_y r = Fin 0 \<and>
        Direct_Shear_y r = fmul (inp_Fy inp) (Fin 0) \<and>
        (is_finite (inp_Fy inp) \<longrightarrow> Direct_Shear_y r = Fin 0) \<and>
        Real_Tor_Ratio_y r = NaN \<and> Vy_Real_Tor r = NaN \<and>
        AccTorRatio_y r = NaN \<and> Vy_Acc_Tor r = NaN \<and> Vy_kN r = NaN)"
    using sy xcr ycr each by blast
qed

lemma ew_walls_marked:
  "\<forall>w \<in> set ew_walls. str_in ''EW'' (upper (clean_wall_name (Wall_Name w)))"
  by (simp add: ew_walls_def mk_wall_def clean_wall_name_def demo_names)

theorem one_direction_console_witness:
  "ew_walls \<noteq> [] \<and>
   list_all (\<lambda>w. str_in ''EW'' (upper (clean_wall_name (Wall_Name w)))) ew_walls \<and>
   is_finite (inp_Fy demo_inputs) \<and>
   (\<exists>rows s. compute_rigid_diaphragm_R1 demo_inputs ew_walls = Inr (rows, s) \<and> rows \<noteq> [] \<and>
      sm_sum_Riy s = Fin 0 \<and> sm_Xcr s = NaN \<and>
      (\<forall>r \<in> set rows. Direct_Shear_y r = Fin 0 \<and> Vy_Real_Tor r = NaN \<and>
                        Vy_Acc_Tor r = NaN \<and> Vy_kN r = NaN))"
proof -
  obtain rows s where r1: "compute_rigid_diaphragm_R1 demo_inputs ew_walls = Inr (rows, s)"
    using not_isl_pair [OF ew_R1_value(1)] by blast
  have ne: "rows \<noteq> []" using ew_R1_value(5) r1 by auto
  have fin: "is_finite (inp_Fy demo_inputs)" by (simp add: demo_inputs_def)
  have ex: "ew_walls \<noteq> []" by (simp add: ew_walls_def)
  have la: "list_all (\<lambda>w. str_in ''EW'' (upper (clean_wall_name (Wall_Name w)))) ew_walls"
    using ew_walls_marked by (simp add: list_all_iff)
  from one_direction_console [of ew_walls demo_inputs rows s] ew_walls_marked r1 fin
  have "sm_sum_Riy s = Fin 0 \<and> sm_Xcr s = NaN \<and>
      (\<forall>r \<in> set rows. Direct_Shear_y r = Fin 0 \<and> Vy_Real_Tor r = NaN \<and>
                        Vy_Acc_Tor r = NaN \<and> Vy_kN r = NaN)"
    by blast
  with r1 ne fin ex la show ?thesis by blast
qed

section \<open>Walls without a positive length or height\<close>

lemma wall_row_R1_zero_length:
  "Length_m w = Fin 0 \<Longrightarrow>
     wall_row_R1 ox oy w = Inl (ZeroDivisionError ''float division by zero'')"
  by (simp add: wall_row_R1_def pydiv_def Let_def)

lemma wall_row_R1_zero_height:
  assumes "Height_m w = Fin 0" and "Length_m w \<noteq> NaN"
  shows "\<exists>e. wall_row_R1 ox oy w = Inl e"
proof (cases "Length_m w = Fin 0")
  case True
  then show ?thesis by (simp add: wall_row_R1_zero_length)
next
  case False
  have hl: "fdiv (Fin 0) (Length_m w) = Fin 0"
    using assms(2) False by (cases "Length_m w") simp_all
  show ?thesis
    using False
    by (simp add: wall_row_R1_def wall_orientation_factors_R1_def pydiv_def Let_def
        assms(1) hl fpow_3)
qed

lemma build_rows_R1_all_rows:
  "build_rows_R1 ox oy ws = Inr bs \<Longrightarrow> \<forall>w \<in> set ws. \<exists>b. wall_row_R1 ox oy w = Inr b"
proof (induction ws arbitrary: bs)
  case Nil
  then show ?case by simp
next
  case (Cons w ws)
  then show ?case by (auto split: sum.splits)
qed

lemma build_rows_R1_fails:
  assumes "w \<in> set ws" and "wall_row_R1 ox oy w = Inl e"
  shows "\<exists>e'. build_rows_R1 ox oy ws = Inl e'"
proof (cases "build_rows_R1 ox oy ws")
  case (Inl e')
  then show ?thesis by blast
next
  case (Inr bs)
  then show ?thesis using build_rows_R1_all_rows assms by fastforce
qed

lemma neg_R1_value:
  "\<not> isl (compute_rigid_diaphragm_R1 demo_inputs neg_walls)"
  "map Length_m (fst (projr (compute_rigid_diaphragm_R1 demo_inputs neg_walls))) =
     [Fin (- 1), Fin 2, Fin 1, Fin 2]"
  "map Rix (fst (projr (compute_rigid_diaphragm_R1 demo_inputs neg_walls))) =
     [Fin (- (1 / 7)), Fin (1 / 2), Fin 0, Fin 0]"
  "map Vx_kN (fst (projr (compute_rigid_diaphragm_R1 demo_inputs neg_walls))) =
     [Fin (- (221 / 10)), Fin (291 / 10), Fin 0, Fin 0]"
  "map Vy_kN (fst (projr (compute_rigid_diaphragm_R1 demo_inputs neg_walls))) =
     [Fin 0, Fin 0, Fin (175 / 36), Fin (25 / 12)]"
  by (simp_all add: R1_eval demo_inputs_def neg_walls_def demo_names cong: let_weak_cong)

lemma zero_st_value:
  "map st_L (fst (compute_rigid_diaph zero_st_walls demo_st_inputs)) =
     [Fin 0, Fin 2, Fin 1, Fin 2]"
  "map st_Ri_EW (fst (compute_rigid_diaph zero_st_walls demo_st_inputs)) =
     [Fin 0, Fin (1 / 2), Fin 0, Fin 0]"
  "map st_V_X (fst (compute_rigid_diaph zero_st_walls demo_st_inputs)) =
     [Fin 0, Fin 7, Fin 0, Fin 0]"
  by (simp_all add: st_eval demo_st_inputs_def zero_st_walls_def demo_names cong: let_weak_cong)

text \<open>
  C9. The claim says that a wall with a non-positive length or height makes the solve fail
  with a geometry error and that no table is returned. No variant checks the geometry. The
  console script solves four walls of which the first has the length \<open>-1\<close> and returns a
  table that contains it, with the rigidity \<open>-1/7\<close>; the spreadsheet-like application
  returns a table for a first wall of length zero.
\<close>

theorem geometry_claim_fails:
  "map Length_m neg_walls = [Fin (- 1), Fin 2, Fin 1, Fin 2] \<and>
   \<not> isl (compute_rigid_diaphragm_R1 demo_inputs neg_walls) \<and>
   map Length_m (fst (projr (compute_rigid_diaphragm_R1 demo_inputs neg_walls))) =
     [Fin (- 1), Fin 2, Fin 1, Fin 2] \<and>
   map Rix (fst (projr (compute_rigid_diaphragm_R1 demo_inputs neg_walls))) =
     [Fin (- (1 / 7)), Fin (1 / 2), Fin 0, Fin 0] \<and>
   map Vx_kN (fst (projr (compute_rigid_diaphragm_R1 demo_inputs neg_walls))) =
     [Fin (- (221 / 10)), Fin (291 / 10), Fin 0, Fin 0] \<and>
   map st_L (fst (compute_rigid_diaph zero_st_walls demo_st_inputs)) =
     [Fin 0, Fin 2, Fin 1, Fin 2] \<and>
   map st_V_X (fst (compute_rigid_diaph zero_st_walls demo_st_inputs)) =
     [Fin 0, Fin 7, Fin 0, Fin 0]"
  using neg_R1_value zero_st_value by (simp add: neg_walls_def mk_wall_def)

text \<open>
  C9, amended. In the console script, a wall with a zero length raises ZeroDivisionError in
  the loop over the walls (from \<open>height / length\<close>), and so does, or raises the
  ValueError of the name check, a wall with a zero height whose length is not NaN (from
  \<open>1 / Di\<close>); a wall list that contains such a wall makes the loop fail, before any sum is
  formed, and the solve returns that error and no table.
\<close>

theorem zero_geometry_console:
  "(Length_m w = Fin 0 \<longrightarrow>
      wall_row_R1 ox oy w = Inl (ZeroDivisionError ''float division by zero'')) \<and>
   (Height_m w = Fin 0 \<and> Length_m w \<noteq> NaN \<longrightarrow>
      wall_row_R1 ox oy w = Inl (ZeroDivisionError ''float division by zero'') \<or>
      wall_row_R1 ox oy w = Inl (ValueError (name_error_R1 (clean_wall_name (Wall_Name w))))) \<and>
   ((\<exists>v \<in> set walls. Length_m v = Fin 0 \<or> (Height_m v = Fin 0 \<and> Length_m v \<noteq> NaN)) \<longrightarrow>
      (\<exists>e. build_rows_R1 (inp_X_offset inp) (inp_Y_offset inp) walls = Inl e \<and>
           compute_rigid_diaphragm_R1 inp walls = Inl e))"
proof (intro conjI impI)
  assume "Length_m w = Fin 0"
  then show "wall_row_R1 ox oy w = Inl (ZeroDivisionError ''float division by zero'')"
    by (rule wall_row_R1_zero_length)
next
  assume a: "Height_m w = Fin 0 \<and> Length_m w \<noteq> NaN"
  show "wall_row_R1 ox oy w = Inl (ZeroDivisionError ''float division by zero'') \<or>
      wall_row_R1 ox oy w = Inl (ValueError (name_error_R1 (clean_wall_name (Wall_Name w))))"
  proof (cases "Length_m w = Fin 0")
    case True
    then show ?thesis by (simp add: wall_row_R1_zero_length)
  next
    case False
    have hl: "fdiv (Fin 0) (Length_m w) = Fin 0"
      using a False by (cases "Length_m w") simp_all
    show ?thesis
      using False a
      by (simp add: wall_row_R1_def wall_orientation_factors_R1_def pydiv_def Let_def
          hl fpow_3)
  qed
next
  assume "\<exists>v \<in> set walls. Length_m v = Fin 0 \<or> (Height_m v = Fin 0 \<and> Length_m v \<noteq> NaN)"
  then obtain v where v: "v \<in> set walls"
    and z: "Length_m v = Fin 0 \<or> (Height_m v = Fin 0 \<and> Length_m v \<noteq> NaN)"
    by blast
  from z obtain e where "wall_row_R1 (inp_X_offset inp) (inp_Y_offset inp) v = Inl e"
    using wall_row_R1_zero_length wall_row_R1_zero_height by blast
  with v obtain e' where e': "build_rows_R1 (inp_X_offset inp) (inp_Y_offset inp) walls = Inl e'"
    using build_rows_R1_fails by blast
  then have "compute_rigid_diaphragm_R1 inp walls = Inl e'"
    by (simp add: compute_R1_unfold)
  with e' show "\<exists>e. build_rows_R1 (inp_X_offset inp) (inp_Y_offset inp) walls = Inl e \<and>
           compute_rigid_diaphragm_R1 inp walls = Inl e"
    by blast
qed

theorem zero_geometry_console_witness:
  "Length_m (mk_wall ''EW1'' 0 1 1 2) = Fin 0 \<and>
   wall_row_R1 (Fin 1) (Fin 2) (mk_wall ''EW1'' 0 1 1 2) =
     Inl (ZeroDivisionError ''float division by zero'') \<and>
   Height_m (mk_wall ''EW1'' 1 0 1 2) = Fin 0 \<and> Length_m (mk_wall ''EW1'' 1 0 1 2) \<noteq> NaN \<and>
   wall_row_R1 (Fin 1) (Fin 2) (mk_wall ''EW1'' 1 0 1 2) =
     Inl (ZeroDivisionError ''float division by zero'') \<and>
   (\<exists>v \<in> set zero_walls. Length_m v = Fin 0) \<and>
   compute_rigid_diaphragm_R1 demo_inputs zero_walls =
     Inl (ZeroDivisionError ''float division by zero'')"
proof -
  have l: "Length_m (mk_wall ''EW1'' 0 1 1 2) = Fin 0"
    and h: "Height_m (mk_wall ''EW1'' 1 0 1 2) = Fin 0 \<and> Length_m (mk_wall ''EW1'' 1 0 1 2) \<noteq> NaN"
    by (simp_all add: mk_wall_def)
  have m: "\<not> unmarked (clean_wall_name (Wall_Name (mk_wall ''EW1'' 1 0 1 2)))"
    by (simp add: mk_wall_def clean_wall_name_def unmarked_def demo_names)
  have v: "\<exists>v \<in> set zero_walls. Length_m v = Fin 0"
    by (simp add: zero_walls_def mk_wall_def)
  note t1 = zero_geometry_console [of "mk_wall ''EW1'' 0 1 1 2" "Fin 1" "Fin 2" zero_walls demo_inputs]
  note t2 = zero_geometry_console [of "mk_wall ''EW1'' 1 0 1 2" "Fin 1" "Fin 2" zero_walls demo_inputs]
  have a: "wall_row_R1 (Fin 1) (Fin 2) (mk_wall ''EW1'' 0 1 1 2) =
     Inl (ZeroDivisionError ''float division by zero'')"
    using t1 l by blast
  have "wall_row_R1 (Fin 1) (Fin 2) (mk_wall ''EW1'' 1 0 1 2) =
      Inl (ZeroDivisionError ''float division by zero'') \<or>
     wall_row_R1 (Fin 1) (Fin 2) (mk_wall ''EW1'' 1 0 1 2) =
      Inl (ValueError (name_error_R1 (clean_wall_name (Wall_Name (mk_wall ''EW1'' 1 0 1 2)))))"
    using t2 h by blast
  moreover have "wall_row_R1 (Fin 1) (Fin 2) (mk_wall ''EW1'' 1 0 1 2) \<noteq>
      Inl (ValueError (name_error_R1 (clean_wall_name (Wall_Name (mk_wall ''EW1'' 1 0 1 2)))))"
    by (simp add: R1_eval demo_names)
  ultimately have b: "wall_row_R1 (Fin 1) (Fin 2) (mk_wall ''EW1'' 1 0 1 2) =
      Inl (ZeroDivisionError ''float division by zero'')"
    by blast
  obtain e where e: "build_rows_R1 (inp_X_offset demo_inputs) (inp_Y_offset demo_inputs) zero_walls = Inl e"
    "compute_rigid_diaphragm_R1 demo_inputs zero_walls = Inl e"
    using t1 v by blast
  have "build_rows_R1 (inp_X_offset demo_inputs) (inp_Y_offset demo_inputs) zero_walls =
      Inl (ZeroDivisionError ''float division by zero'')"
    by (simp add: R1_eval demo_inputs_def zero_walls_def demo_names)
  with e have c: "compute_rigid_diaphragm_R1 demo_inputs zero_walls =
     Inl (ZeroDivisionError ''float division by zero'')"
    by simp
  from l a h b v c show ?thesis by - (intro conjI; (assumption | erule conjunct1 | erule conjunct2))
qed

section \<open>Weights\<close>

lemma forget_wk_idem [simp]: "forget_wk (forget_wk r) = forget_wk r"
  by (simp add: forget_wk_def)

lemma forget_wk_map_idem [simp]: "map forget_wk (map forget_wk rs) = map forget_wk rs"
  by (induction rs) simp_all

lemma forget_wk_sel [simp]:
  "Wall_Name (forget_wk r) = Wall_Name r" "Length_m (forget_wk r) = Length_m r"
  "Height_m (forget_wk r) = Height_m r" "w_k_kN (forget_wk r) = None"
  "x_coord_m (forget_wk r) = x_coord_m r" "y_coord_m (forget_wk r) = y_coord_m r"
  by (simp_all add: forget_wk_def)

lemma forget_wk_geo [simp]:
  "xk_m (forget_wk g) = xk_m g" "yk_m (forget_wk g) = yk_m g" "Di (forget_wk g) = Di g"
  by (simp_all add: forget_wk_def)

lemma forget_wk_rig [simp]: "Rix (forget_wk r) = Rix r" "Riy (forget_wk r) = Riy r"
  by (simp_all add: forget_wk_def)

lemma forget_wk_base [simp]:
  "Riy_xk (forget_wk b) = Riy_xk b" "Rix_yk (forget_wk b) = Rix_yk b"
  by (simp_all add: forget_wk_def)

lemma forget_wk_mid [simp]:
  "xbar (forget_wk m) = xbar m" "ybar (forget_wk m) = ybar m"
  "Riy_xbar2 (forget_wk m) = Riy_xbar2 m" "Rix_ybar2 (forget_wk m) = Rix_ybar2 m"
  by (simp_all add: forget_wk_def)

lemma forget_W_sel [simp]:
  "inp_L (forget_W i) = inp_L i" "inp_B (forget_W i) = inp_B i"
  "inp_Xcm_manual (forget_W i) = inp_Xcm_manual i"
  "inp_Ycm_manual (forget_W i) = inp_Ycm_manual i"
  "inp_X_offset (forget_W i) = inp_X_offset i" "inp_Y_offset (forget_W i) = inp_Y_offset i"
  "inp_Fx (forget_W i) = inp_Fx i" "inp_Fy (forget_W i) = inp_Fy i"
  "inp_W (forget_W i) = Fin 0"
  by (simp_all add: forget_W_def)

lemma wall_row_R1_forget:
  "wall_row_R1 ox oy (forget_wk w) = map_sum id forget_wk (wall_row_R1 ox oy w)"
  by (simp add: wall_row_R1_def Let_def forget_wk_def split: sum.splits prod.splits)

lemma build_rows_R1_forget:
  "build_rows_R1 ox oy (map forget_wk ws) = map_sum id (map forget_wk) (build_rows_R1 ox oy ws)"
  by (induction ws) (simp_all add: wall_row_R1_forget split: sum.splits)

lemma rel_columns_forget:
  "rel_columns cx cy (forget_wk b) = forget_wk (rel_columns cx cy b)"
  by (simp add: rel_columns_def Let_def forget_wk_def)

lemma shear_columns_forget:
  "shear_columns Fx Fy exb eyb ex ey sx sy J (forget_wk m) =
     forget_wk (shear_columns Fx Fy exb eyb ex ey sx sy J m)"
  by (simp add: shear_columns_def Let_def forget_wk_def)

lemma shear_table_forget:
  "shear_table s (map forget_wk bs) = map forget_wk (shear_table s bs)"
  by (simp add: shear_table_def rel_columns_forget shear_columns_forget comp_def)

lemma cor_summary_forget:
  "cor_summary d (forget_W inp) (map forget_wk bs) = cor_summary d inp bs"
  by (simp add: cor_summary_def Let_def comp_def rel_columns_forget)

lemma compute_R1_forget:
  "forget_R1 (compute_rigid_diaphragm_R1 (forget_W inp) (map forget_wk walls)) =
   forget_R1 (compute_rigid_diaphragm_R1 inp walls)"
  by (simp add: compute_R1_unfold build_rows_R1_forget forget_R1_def cor_summary_forget
      shear_table_forget split: sum.splits)

lemma geo_columns_v2_forget:
  "geo_columns_v2 ox oy (forget_wk w) = forget_wk (geo_columns_v2 ox oy w)"
  by (simp add: geo_columns_v2_def Let_def forget_wk_def)

lemma orient_rows_v2_forget:
  "orient_rows_v2 (map forget_wk gs) = map_sum id (map forget_wk) (orient_rows_v2 gs)"
  by (induction gs) (simp_all add: forget_wk_def split: sum.splits prod.splits)

lemma insort_key_map:
  "insort_key f (g x) (map g xs) = map g (insort_key (\<lambda>y. f (g y)) x xs)"
  by (induction xs) simp_all

lemma sort_key_map:
  "sort_key f (map g xs) = map g (sort_key (\<lambda>y. f (g y)) xs)"
  by (induction xs) (simp_all add: insort_key_map)

lemma sort_walls_forget: "sort_walls (map forget_wk rs) = map forget_wk (sort_walls rs)"
  by (simp add: sort_walls_def sort_key_map)

lemma cor_columns_forget: "cor_columns (forget_wk r) = forget_wk (cor_columns r)"
  by (simp add: cor_columns_def forget_wk_def)

lemma with_W_forget: "(with_W c W)\<lparr>sm_W := Fin 0\<rparr> = with_W c (Fin 0)"
  by (simp add: with_W_def)

lemma compute_v2_forget:
  "forget_v2 (compute_rigid_diaphragm_v2 (forget_W inp) (map forget_wk walls)) =
   forget_v2 (compute_rigid_diaphragm_v2 inp walls)"
proof -
  have 1: "map (geo_columns_v2 ox oy) (map forget_wk walls) =
      map forget_wk (map (geo_columns_v2 ox oy) walls)" for ox oy
    by (simp add: geo_columns_v2_forget comp_def)
  have 2: "map cor_columns (sort_walls (map forget_wk rs)) =
      map forget_wk (map cor_columns (sort_walls rs))" for rs
    by (simp add: sort_walls_forget cor_columns_forget comp_def)
  show ?thesis
    unfolding compute_v2_unfold forget_v2_def
    by (simp add: 1 2 orient_rows_v2_forget cor_summary_forget shear_table_forget
        with_W_forget del: map_map split: sum.splits)
qed

lemma build_rows_R1_wk:
  "build_rows_R1 ox oy ws = Inr bs \<Longrightarrow> map w_k_kN bs = map w_k_kN ws"
proof (induction ws arbitrary: bs)
  case Nil
  then show ?case by simp
next
  case (Cons w ws)
  then show ?case
    by (auto simp: wall_row_R1_def Let_def split: sum.splits prod.splits)
qed

lemma orient_rows_v2_wk:
  "orient_rows_v2 gs = Inr rs \<Longrightarrow>
     map (\<lambda>r. (Wall_Name r, w_k_kN r)) rs = map (\<lambda>g. (Wall_Name g, w_k_kN g)) gs"
proof (induction gs arbitrary: rs)
  case Nil
  then show ?case by simp
next
  case (Cons g gs)
  then show ?case by (auto split: sum.splits prod.splits)
qed


lemma cor_columns_names:
  "map (\<lambda>r. (Wall_Name r, w_k_kN r)) (map cor_columns rs) = map (\<lambda>r. (Wall_Name r, w_k_kN r)) rs"
  by (simp add: cor_columns_def comp_def)

lemma shear_table_names:
  "map (\<lambda>r. (Wall_Name r, w_k_kN r)) (shear_table s bs) = map (\<lambda>r. (Wall_Name r, w_k_kN r)) bs"
  by (simp add: shear_table_def shear_columns_sel comp_def)

lemma geo_columns_v2_names:
  "map (\<lambda>g. (Wall_Name g, w_k_kN g)) (map (geo_columns_v2 ox oy) ws) =
     map (\<lambda>w. (strip (Wall_Name w), w_k_kN w)) ws"
  by (simp add: geo_columns_v2_def Let_def comp_def)

lemma heavy_low_equal:
  "map forget_wk heavy_walls = map forget_wk demo_walls"
  "forget_W heavy_inputs = forget_W demo_inputs"
  "length heavy_walls = 4"
  "map w_k_kN heavy_walls = [Some (Fin 12), None, Some (Fin 30), Some (Fin (- 4))]"
  "map w_k_kN demo_walls = [Some (Fin 0), Some (Fin 0), Some (Fin 0), Some (Fin 0)]"
  "inp_W heavy_inputs = Fin 2456" "inp_W demo_inputs = Fin 0"
  by (simp_all add: heavy_walls_def heavy_inputs_def demo_walls_def demo_inputs_def
      mk_wall_def forget_wk_def forget_W_def)

text \<open>
  C10. In the console script and in the table application, two runs whose inputs agree on
  everything but the wall weights \<open>w_k\<close> and the diaphragm weight \<open>W\<close> give the same
  outcome up to those weights: the same error, or tables that agree in every column but
  \<open>w_k\<close> and summaries that agree in every entry (in every entry but \<open>W\<close> in the table
  application). The weights are only echoed: the \<open>w_k\<close> column of the console script is the
  list of the input weights, and in the table application each returned row carries the
  weight given with its name and the summary carries \<open>W\<close>.
\<close>

theorem weights_do_not_interfere:
  "(map forget_wk walls' = map forget_wk walls \<and> forget_W inp' = forget_W inp \<longrightarrow>
      forget_R1 (compute_rigid_diaphragm_R1 inp' walls') =
        forget_R1 (compute_rigid_diaphragm_R1 inp walls) \<and>
      forget_v2 (compute_rigid_diaphragm_v2 inp' walls') =
        forget_v2 (compute_rigid_diaphragm_v2 inp walls)) \<and>
   (compute_rigid_diaphragm_R1 inp walls = Inr (rows, s) \<longrightarrow>
      map w_k_kN rows = map w_k_kN walls) \<and>
   (compute_rigid_diaphragm_v2 inp walls = Inr (rows2, s2) \<longrightarrow>
      sm_W s2 = inp_W inp \<and>
      set (map (\<lambda>r. (Wall_Name r, w_k_kN r)) rows2) =
        set (map (\<lambda>w. (strip (Wall_Name w), w_k_kN w)) walls))"
proof (intro conjI impI)
  assume a: "map forget_wk walls' = map forget_wk walls \<and> forget_W inp' = forget_W inp"
  have "forget_R1 (compute_rigid_diaphragm_R1 inp' walls') =
      forget_R1 (compute_rigid_diaphragm_R1 (forget_W inp') (map forget_wk walls'))"
    by (rule compute_R1_forget [symmetric])
  also have "\<dots> = forget_R1 (compute_rigid_diaphragm_R1 (forget_W inp) (map forget_wk walls))"
    using a by simp
  also have "\<dots> = forget_R1 (compute_rigid_diaphragm_R1 inp walls)"
    by (rule compute_R1_forget)
  finally show "forget_R1 (compute_rigid_diaphragm_R1 inp' walls') =
      forget_R1 (compute_rigid_diaphragm_R1 inp walls)" .
  have "forget_v2 (compute_rigid_diaphragm_v2 inp' walls') =
      forget_v2 (compute_rigid_diaphragm_v2 (forget_W inp') (map forget_wk walls'))"
    by (rule compute_v2_forget [symmetric])
  also have "\<dots> = forget_v2 (compute_rigid_diaphragm_v2 (forget_W inp) (map forget_wk walls))"
    using a by simp
  also have "\<dots> = forget_v2 (compute_rigid_diaphragm_v2 inp walls)"
    by (rule compute_v2_forget)
  finally show "forget_v2 (compute_rigid_diaphragm_v2 inp' walls') =
      forget_v2 (compute_rigid_diaphragm_v2 inp walls)" .
next
  assume "compute_rigid_diaphragm_R1 inp walls = Inr (rows, s)"
  then obtain bases where
    "build_rows_R1 (inp_X_offset inp) (inp_Y_offset inp) walls = Inr bases"
    and "rows = shear_table s bases"
    by (rule compute_R1_Inr)
  then show "map w_k_kN rows = map w_k_kN walls"
    by (simp add: shear_table_cols build_rows_R1_wk)
next
  assume "compute_rigid_diaphragm_v2 inp walls = Inr (rows2, s2)"
  then obtain rigs c where
    o: "orient_rows_v2 (map (geo_columns_v2 (inp_X_offset inp) (inp_Y_offset inp)) walls) = Inr rigs"
    and s2: "s2 = with_W c (inp_W inp)"
    and rows: "rows2 = shear_table c (map cor_columns (sort_walls rigs))"
    by (rule compute_v2_Inr)
  show "sm_W s2 = inp_W inp" by (simp add: s2)
  have "set (map (\<lambda>r. (Wall_Name r, w_k_kN r)) rows2) =
      set (map (\<lambda>r. (Wall_Name r, w_k_kN r)) (sort_walls rigs))"
    unfolding rows shear_table_names cor_columns_names ..
  also have "\<dots> = set (map (\<lambda>r. (Wall_Name r, w_k_kN r)) rigs)"
    by (simp add: sort_walls_def)
  also have "\<dots> = set (map (\<lambda>w. (strip (Wall_Name w), w_k_kN w)) walls)"
    unfolding orient_rows_v2_wk [OF o] geo_columns_v2_names ..
  finally show "set (map (\<lambda>r. (Wall_Name r, w_k_kN r)) rows2) =
        set (map (\<lambda>w. (strip (Wall_Name w), w_k_kN w)) walls)" .
qed

theorem weights_do_not_interfere_witness:
  "map forget_wk heavy_walls = map forget_wk demo_walls \<and>
   forget_W heavy_inputs = forget_W demo_inputs \<and>
   map w_k_kN heavy_walls \<noteq> map w_k_kN demo_walls \<and>
   inp_W heavy_inputs \<noteq> inp_W demo_inputs \<and>
   forget_R1 (compute_rigid_diaphragm_R1 heavy_inputs heavy_walls) =
     forget_R1 (compute_rigid_diaphragm_R1 demo_inputs demo_walls) \<and>
   forget_v2 (compute_rigid_diaphragm_v2 heavy_inputs heavy_walls) =
     forget_v2 (compute_rigid_diaphragm_v2 demo_inputs demo_walls) \<and>
   (\<exists>rows s. compute_rigid_diaphragm_R1 heavy_inputs heavy_walls = Inr (rows, s) \<and>
      map w_k_kN rows = [Some (Fin 12), None, Some (Fin 30), Some (Fin (- 4))]) \<and>
   (\<exists>rows s. compute_rigid_diaphragm_v2 heavy_inputs heavy_walls = Inr (rows, s) \<and>
      sm_W s = Fin 2456)"
proof -
  note t = weights_do_not_interfere [of heavy_walls demo_walls heavy_inputs demo_inputs]
  have eq: "forget_R1 (compute_rigid_diaphragm_R1 heavy_inputs heavy_walls) =
     forget_R1 (compute_rigid_diaphragm_R1 demo_inputs demo_walls)"
    "forget_v2 (compute_rigid_diaphragm_v2 heavy_inputs heavy_walls) =
     forget_v2 (compute_rigid_diaphragm_v2 demo_inputs demo_walls)"
    using t heavy_low_equal(1,2) by blast+
  obtain rows0 s0 where d1: "compute_rigid_diaphragm_R1 demo_inputs demo_walls = Inr (rows0, s0)"
    using demo_R1_runs by blast
  obtain rows s where r1: "compute_rigid_diaphragm_R1 heavy_inputs heavy_walls = Inr (rows, s)"
    using eq(1) d1 by (cases "compute_rigid_diaphragm_R1 heavy_inputs heavy_walls")
      (auto simp: forget_R1_def)
  obtain rows0' s0' where d2: "compute_rigid_diaphragm_v2 demo_inputs demo_walls = Inr (rows0', s0')"
    using demo_v2_runs by blast
  obtain rows2 s2 where r2: "compute_rigid_diaphragm_v2 heavy_inputs heavy_walls = Inr (rows2, s2)"
    using eq(2) d2 by (cases "compute_rigid_diaphragm_v2 heavy_inputs heavy_walls")
      (auto simp: forget_v2_def)
  have e1: "map w_k_kN rows = [Some (Fin 12), None, Some (Fin 30), Some (Fin (- 4))]"
    using weights_do_not_interfere [of heavy_walls heavy_walls heavy_inputs heavy_inputs rows s rows2 s2] r1
      heavy_low_equal(4) by simp
  have e2: "sm_W s2 = Fin 2456"
    using weights_do_not_interfere [of heavy_walls heavy_walls heavy_inputs heavy_inputs rows s rows2 s2] r2
      heavy_low_equal(6) by simp
  have ne: "map w_k_kN heavy_walls \<noteq> map w_k_kN demo_walls"
    "inp_W heavy_inputs \<noteq> inp_W demo_inputs"
    by (simp_all add: heavy_low_equal)
  have x1: "\<exists>rows s. compute_rigid_diaphragm_R1 heavy_inputs heavy_walls = Inr (rows, s) \<and>
      map w_k_kN rows = [Some (Fin 12), None, Some (Fin 30), Some (Fin (- 4))]"
    using r1 e1 by (intro exI conjI)
  have x2: "\<exists>rows s. compute_rigid_diaphragm_v2 heavy_inputs heavy_walls = Inr (rows, s) \<and>
      sm_W s = Fin 2456"
    using r2 e2 by (intro exI conjI)
  from heavy_low_equal(1,2) ne eq x1 x2 show ?thesis
    by - (intro conjI; assumption)
qed

section \<open>Translation of the plan\<close>

lemma fsub_shift:
  "is_finite x \<Longrightarrow> is_finite c \<Longrightarrow> fsub (fadd x (Fin a)) (fadd c (Fin a)) = fsub x c"
  by (cases x; cases c) (simp_all add: fsub_def)

lemma shift_wall_sel [simp]:
  "Wall_Name (shift_wall a b r) = Wall_Name r" "Length_m (shift_wall a b r) = Length_m r"
  "Height_m (shift_wall a b r) = Height_m r" "w_k_kN (shift_wall a b r) = w_k_kN r"
  "x_coord_m (shift_wall a b r) = fadd (x_coord_m r) (Fin a)"
  "y_coord_m (shift_wall a b r) = fadd (y_coord_m r) (Fin b)"
  by (simp_all add: shift_wall_def)

lemma shift_wall_geo [simp]:
  "xk_m (shift_wall a b g) = xk_m g" "yk_m (shift_wall a b g) = yk_m g"
  "Di (shift_wall a b g) = Di g"
  by (simp_all add: shift_wall_def)

lemma shift_wall_rig [simp]: "Rix (shift_wall a b r) = Rix r" "Riy (shift_wall a b r) = Riy r"
  by (simp_all add: shift_wall_def)

lemma shift_wall_base [simp]:
  "Riy_xk (shift_wall a b r) = Riy_xk r" "Rix_yk (shift_wall a b r) = Rix_yk r"
  by (simp_all add: shift_wall_def)

lemma shift_wall_mid [simp]:
  "xbar (shift_wall a b m) = xbar m" "ybar (shift_wall a b m) = ybar m"
  "Riy_xbar2 (shift_wall a b m) = Riy_xbar2 m" "Rix_ybar2 (shift_wall a b m) = Rix_ybar2 m"
  by (simp_all add: shift_wall_def)

lemma shift_wall_row [simp]:
  "Vx_kN (shift_wall a b r) = Vx_kN r" "Vy_kN (shift_wall a b r) = Vy_kN r"
  by (simp_all add: shift_wall_def)

lemma shift_inputs_sel [simp]:
  "inp_L (shift_inputs a b i) = inp_L i" "inp_B (shift_inputs a b i) = inp_B i"
  "inp_W (shift_inputs a b i) = inp_W i"
  "inp_Fx (shift_inputs a b i) = inp_Fx i" "inp_Fy (shift_inputs a b i) = inp_Fy i"
  "inp_X_offset (shift_inputs a b i) = fadd (inp_X_offset i) (Fin a)"
  "inp_Y_offset (shift_inputs a b i) = fadd (inp_Y_offset i) (Fin b)"
  "inp_Xcm_manual (shift_inputs a b i) = fadd (inp_Xcm_manual i) (Fin a)"
  "inp_Ycm_manual (shift_inputs a b i) = fadd (inp_Ycm_manual i) (Fin b)"
  by (simp_all add: shift_inputs_def)

lemma wall_row_R1_shift:
  assumes "is_finite ox" "is_finite oy" "is_finite (x_coord_m w)" "is_finite (y_coord_m w)"
  shows "wall_row_R1 (fadd ox (Fin a)) (fadd oy (Fin b)) (shift_wall a b w) =
         map_sum id (shift_wall a b) (wall_row_R1 ox oy w)"
  using assms
  by (simp add: wall_row_R1_def Let_def fsub_shift shift_wall_def split: sum.splits prod.splits)

lemma build_rows_R1_shift:
  assumes "is_finite ox" "is_finite oy"
    and "list_all (\<lambda>w. is_finite (x_coord_m w) \<and> is_finite (y_coord_m w)) ws"
  shows "build_rows_R1 (fadd ox (Fin a)) (fadd oy (Fin b)) (map (shift_wall a b) ws) =
         map_sum id (map (shift_wall a b)) (build_rows_R1 ox oy ws)"
  using assms(3)
proof (induction ws)
  case Nil
  then show ?case by simp
next
  case (Cons w ws)
  then show ?case
    by (simp add: wall_row_R1_shift [OF assms(1,2)] split: sum.splits)
qed

lemma rel_columns_shift:
  "rel_columns cx cy (shift_wall a b r) = shift_wall a b (rel_columns cx cy r)"
  by (simp add: rel_columns_def Let_def shift_wall_def)

lemma shear_columns_shift:
  "shear_columns Fx Fy exb eyb ex ey sx sy J (shift_wall a b m) =
     shift_wall a b (shear_columns Fx Fy exb eyb ex ey sx sy J m)"
  by (simp add: shear_columns_def Let_def shift_wall_def)

lemma shear_table_shift:
  "shear_table s (map (shift_wall a b) bs) = map (shift_wall a b) (shear_table s bs)"
  by (simp add: shear_table_def rel_columns_shift shear_columns_shift comp_def)

lemma shear_table_offsets:
  "shear_table (s\<lparr>sm_X_offset := u, sm_Y_offset := v\<rparr>) bs = shear_table s bs"
  by (simp add: shear_table_def)

lemma cor_summary_shift:
  assumes "is_finite (inp_X_offset inp)" "is_finite (inp_Y_offset inp)"
    "is_finite (inp_Xcm_manual inp)" "is_finite (inp_Ycm_manual inp)"
  shows "cor_summary d (shift_inputs a b inp) (map (shift_wall a b) bs) =
         (cor_summary d inp bs)\<lparr>sm_X_offset := fadd (inp_X_offset inp) (Fin a),
                                 sm_Y_offset := fadd (inp_Y_offset inp) (Fin b)\<rparr>"
  using assms
  by (simp add: cor_summary_def Let_def comp_def rel_columns_shift fsub_shift)

lemma compute_R1_shift:
  assumes "finite_plan inp walls"
  shows "compute_rigid_diaphragm_R1 (shift_inputs a b inp) (map (shift_wall a b) walls) =
         map_sum id (\<lambda>(rows, s). (map (shift_wall a b) rows,
                       s\<lparr>sm_X_offset := fadd (inp_X_offset inp) (Fin a),
                         sm_Y_offset := fadd (inp_Y_offset inp) (Fin b)\<rparr>))
           (compute_rigid_diaphragm_R1 inp walls)"
proof -
  have f: "is_finite (inp_X_offset inp)" "is_finite (inp_Y_offset inp)"
    "is_finite (inp_Xcm_manual inp)" "is_finite (inp_Ycm_manual inp)"
    "list_all (\<lambda>w. is_finite (x_coord_m w) \<and> is_finite (y_coord_m w)) walls"
    using assms by (simp_all add: finite_plan_def)
  show ?thesis
    unfolding compute_R1_unfold
    by (simp add: build_rows_R1_shift [OF f(1,2,5)] cor_summary_shift [OF f(1-4)]
        shear_table_shift shear_table_offsets split: sum.splits)
qed


lemma demo_R1_value:
  "\<not> isl (compute_rigid_diaphragm_R1 demo_inputs demo_walls)"
  "sm_Xcr (snd (projr (compute_rigid_diaphragm_R1 demo_inputs demo_walls))) = Fin 7"
  "sm_Ycr (snd (projr (compute_rigid_diaphragm_R1 demo_inputs demo_walls))) = Fin 7"
  "map xk_m (fst (projr (compute_rigid_diaphragm_R1 demo_inputs demo_walls))) =
     [Fin 0, Fin 0, Fin 0, Fin 9]"
  "map yk_m (fst (projr (compute_rigid_diaphragm_R1 demo_inputs demo_walls))) =
     [Fin 0, Fin 9, Fin 0, Fin 0]"
  "map Vx_kN (fst (projr (compute_rigid_diaphragm_R1 demo_inputs demo_walls))) =
     [Fin (- (5 / 9)), Fin (68 / 9), Fin 0, Fin 0]"
  "map Vy_kN (fst (projr (compute_rigid_diaphragm_R1 demo_inputs demo_walls))) =
     [Fin 0, Fin 0, Fin (7 / 18), Fin (97 / 18)]"
  by (simp_all add: R1_eval demo_inputs_def demo_walls_def demo_names cong: let_weak_cong)

lemma shifted_R1_value:
  "\<not> isl (compute_rigid_diaphragm_R1 (shift_inputs 3 4 demo_inputs)
            (map (shift_wall 3 4) demo_walls))"
  "sm_Xcr (snd (projr (compute_rigid_diaphragm_R1 (shift_inputs 3 4 demo_inputs)
            (map (shift_wall 3 4) demo_walls)))) = Fin 7"
  "sm_Ycr (snd (projr (compute_rigid_diaphragm_R1 (shift_inputs 3 4 demo_inputs)
            (map (shift_wall 3 4) demo_walls)))) = Fin 7"
  "map xk_m (fst (projr (compute_rigid_diaphragm_R1 (shift_inputs 3 4 demo_inputs)
            (map (shift_wall 3 4) demo_walls)))) = [Fin 0, Fin 0, Fin 0, Fin 9]"
  "map yk_m (fst (projr (compute_rigid_diaphragm_R1 (shift_inputs 3 4 demo_inputs)
            (map (shift_wall 3 4) demo_walls)))) = [Fin 0, Fin 9, Fin 0, Fin 0]"
  by (simp_all add: R1_eval shift_inputs_def shift_wall_def demo_inputs_def demo_walls_def
      demo_names cong: let_weak_cong)

lemma shifted_inputs_value:
  "inp_X_offset demo_inputs = Fin 1" "inp_Y_offset demo_inputs = Fin 2"
  "inp_X_offset (shift_inputs 3 4 demo_inputs) = Fin 4"
  "inp_Y_offset (shift_inputs 3 4 demo_inputs) = Fin 6"
  "inp_Xcm_manual (shift_inputs 3 4 demo_inputs) = Fin 7"
  "inp_Ycm_manual (shift_inputs 3 4 demo_inputs) = Fin 9"
  "map x_coord_m demo_walls = [Fin 1, Fin 1, Fin 1, Fin 10]"
  "map y_coord_m demo_walls = [Fin 2, Fin 11, Fin 2, Fin 2]"
  "map x_coord_m (map (shift_wall 3 4) demo_walls) = [Fin 4, Fin 4, Fin 4, Fin 13]"
  "map y_coord_m (map (shift_wall 3 4) demo_walls) = [Fin 6, Fin 15, Fin 6, Fin 6]"
  by (simp_all add: shift_inputs_def shift_wall_def demo_inputs_def demo_walls_def mk_wall_def)

text \<open>
  C5. The claim says that, when the origin offset and all external coordinates are
  translated by \<open>(a, b)\<close>, the totals stay the same while \<open>Xcr\<close>, \<open>Ycr\<close> and the
  working coordinates differ by exactly \<open>(a, b)\<close>. They do not differ: the translation
  cancels in \<open>xk = x - X_offset\<close>. For the sample run and \<open>(a, b) = (3, 4)\<close> both runs
  report \<open>Xcr = Ycr = 7\<close> and the same working coordinates.
\<close>

theorem translation_claim_fails:
  "inp_X_offset demo_inputs = Fin 1 \<and>
   inp_X_offset (shift_inputs 3 4 demo_inputs) = Fin 4 \<and>
   map x_coord_m demo_walls = [Fin 1, Fin 1, Fin 1, Fin 10] \<and>
   map x_coord_m (map (shift_wall 3 4) demo_walls) = [Fin 4, Fin 4, Fin 4, Fin 13] \<and>
   \<not> isl (compute_rigid_diaphragm_R1 demo_inputs demo_walls) \<and>
   \<not> isl (compute_rigid_diaphragm_R1 (shift_inputs 3 4 demo_inputs)
            (map (shift_wall 3 4) demo_walls)) \<and>
   sm_Xcr (snd (projr (compute_rigid_diaphragm_R1 demo_inputs demo_walls))) = Fin 7 \<and>
   sm_Xcr (snd (projr (compute_rigid_diaphragm_R1 (shift_inputs 3 4 demo_inputs)
            (map (shift_wall 3 4) demo_walls)))) = Fin 7 \<and>
   sm_Ycr (snd (projr (compute_rigid_diaphragm_R1 demo_inputs demo_walls))) = Fin 7 \<and>
   sm_Ycr (snd (projr (compute_rigid_diaphragm_R1 (shift_inputs 3 4 demo_inputs)
            (map (shift_wall 3 4) demo_walls)))) = Fin 7 \<and>
   map xk_m (fst (projr (compute_rigid_diaphragm_R1 demo_inputs demo_walls))) =
     [Fin 0, Fin 0, Fin 0, Fin 9] \<and>
   map xk_m (fst (projr (compute_rigid_diaphragm_R1 (shift_inputs 3 4 demo_inputs)
            (map (shift_wall 3 4) demo_walls)))) = [Fin 0, Fin 0, Fin 0, Fin 9]"
  using demo_R1_value shifted_R1_value shifted_inputs_value
  by - (intro conjI; assumption)

text \<open>
  C5, amended. In the console script, for inputs with a finite origin offset, mass centre
  and wall coordinates, translating the origin offset, the mass centre and every wall by
  \<open>(a, b)\<close> changes nothing but the echoed external coordinates and offsets: the solve
  fails with the same error or returns a table with the same totals \<open>Vx\<close> and \<open>Vy\<close>
  and the same working coordinates for every wall, and the same \<open>Xcr\<close> and \<open>Ycr\<close>.
\<close>

theorem translation_invariance:
  "finite_plan inp walls \<longrightarrow>
     compute_rigid_diaphragm_R1 (shift_inputs a b inp) (map (shift_wall a b) walls) =
       map_sum id (\<lambda>(rows, s). (map (shift_wall a b) rows,
                     s\<lparr>sm_X_offset := fadd (inp_X_offset inp) (Fin a),
                       sm_Y_offset := fadd (inp_Y_offset inp) (Fin b)\<rparr>))
         (compute_rigid_diaphragm_R1 inp walls) \<and>
     (compute_rigid_diaphragm_R1 inp walls = Inr (rows, s) \<longrightarrow>
        (\<exists>rows' s'.
           compute_rigid_diaphragm_R1 (shift_inputs a b inp) (map (shift_wall a b) walls) =
             Inr (rows', s') \<and>
           map Wall_Name rows' = map Wall_Name rows \<and>
           map Vx_kN rows' = map Vx_kN rows \<and> map Vy_kN rows' = map Vy_kN rows \<and>
           map xk_m rows' = map xk_m rows \<and> map yk_m rows' = map yk_m rows \<and>
           sm_Xcr s' = sm_Xcr s \<and> sm_Ycr s' = sm_Ycr s \<and>
           sm_Xcm s' = sm_Xcm s \<and> sm_Ycm s' = sm_Ycm s))"
proof (intro impI conjI)
  assume f: "finite_plan inp walls"
  then show eq: "compute_rigid_diaphragm_R1 (shift_inputs a b inp) (map (shift_wall a b) walls) =
       map_sum id (\<lambda>(rows, s). (map (shift_wall a b) rows,
                     s\<lparr>sm_X_offset := fadd (inp_X_offset inp) (Fin a),
                       sm_Y_offset := fadd (inp_Y_offset inp) (Fin b)\<rparr>))
         (compute_rigid_diaphragm_R1 inp walls)"
    by (rule compute_R1_shift)
  assume r: "compute_rigid_diaphragm_R1 inp walls = Inr (rows, s)"
  show "\<exists>rows' s'.
           compute_rigid_diaphragm_R1 (shift_inputs a b inp) (map (shift_wall a b) walls) =
             Inr (rows', s') \<and>
           map Wall_Name rows' = map Wall_Name rows \<and>
           map Vx_kN rows' = map Vx_kN rows \<and> map Vy_kN rows' = map Vy_kN rows \<and>
           map xk_m rows' = map xk_m rows \<and> map yk_m rows' = map yk_m rows \<and>
           sm_Xcr s' = sm_Xcr s \<and> sm_Ycr s' = sm_Ycr s \<and>
           sm_Xcm s' = sm_Xcm s \<and> sm_Ycm s' = sm_Ycm s"
    unfolding eq r by (simp add: comp_def)
qed

lemma demo_finite_plan: "finite_plan demo_inputs demo_walls"
  by (simp add: finite_plan_def demo_inputs_def demo_walls_def mk_wall_def)

theorem translation_invariance_witness:
  "finite_plan demo_inputs demo_walls \<and>
   (\<exists>rows s rows' s'.
      compute_rigid_diaphragm_R1 demo_inputs demo_walls = Inr (rows, s) \<and>
      compute_rigid_diaphragm_R1 (shift_inputs 3 4 demo_inputs) (map (shift_wall 3 4) demo_walls) =
        Inr (rows', s') \<and>
      length rows = 4 \<and>
      map Vx_kN rows' = map Vx_kN rows \<and> map Vy_kN rows' = map Vy_kN rows \<and>
      map xk_m rows' = map xk_m rows \<and> map yk_m rows' = map yk_m rows \<and>
      sm_Xcr s' = sm_Xcr s \<and> sm_Ycr s' = sm_Ycr s)"
proof -
  obtain rows s where r: "compute_rigid_diaphragm_R1 demo_inputs demo_walls = Inr (rows, s)"
    and n: "length rows = 4"
    using demo_R1_runs by blast
  from translation_invariance [of demo_inputs demo_walls 3 4 rows s] demo_finite_plan r
  obtain rows' s' where
    "compute_rigid_diaphragm_R1 (shift_inputs 3 4 demo_inputs) (map (shift_wall 3 4) demo_walls) =
        Inr (rows', s')"
    "map Vx_kN rows' = map Vx_kN rows" "map Vy_kN rows' = map Vy_kN rows"
    "map xk_m rows' = map xk_m rows" "map yk_m rows' = map yk_m rows"
    "sm_Xcr s' = sm_Xcr s" "sm_Ycr s' = sm_Ycr s"
    by blast
  with r n demo_finite_plan show ?thesis by blast
qed

section \<open>Conservation of the direct shear\<close>

lemma is_finite_fval: "is_finite x \<Longrightarrow> x = Fin (fval x)"
  by (cases x) simp_all

lemma foldl_fadd_Fin: "foldl fadd (Fin a) (map Fin xs) = Fin (a + sum_list xs)"
  by (induction xs arbitrary: a) (simp_all add: add.assoc)

lemma fsum_Fin: "fsum (map Fin xs) = Fin (sum_list xs)"
  by (simp add: fsum_def foldl_fadd_Fin)

lemma pdsum_Fin: "pdsum (map Fin xs) = Fin (sum_list xs)"
proof -
  have "filter (\<lambda>x. x \<noteq> NaN) (map Fin xs) = map Fin xs"
    by (induction xs) simp_all
  then show ?thesis by (simp add: pdsum_def foldl_fadd_Fin)
qed

lemma finite_list: "list_all is_finite rs \<Longrightarrow> rs = map Fin (map fval rs)"
  by (induction rs) (simp_all add: is_finite_fval [symmetric])

lemma sum_list_scaled:
  "sum_list (map (\<lambda>x. f * (x / S)) xs) = f * (sum_list xs / S)" for f S :: real
  by (induction xs) (simp_all add: algebra_simps add_divide_distrib)

lemma direct_shear_sum:
  assumes "list_all is_finite rs" and "pdsum rs \<noteq> Fin 0" and "is_finite F"
  shows "fsum (map (\<lambda>r. fmul F (fdiv r (pdsum rs))) rs) = F"
proof -
  obtain xs where rs: "rs = map Fin xs" using finite_list [OF assms(1)] by blast
  obtain f where F: "F = Fin f" using is_finite_fval [OF assms(3)] by blast
  have S: "pdsum rs = Fin (sum_list xs)" by (simp add: rs pdsum_Fin)
  with assms(2) have nz: "sum_list xs \<noteq> 0" by simp
  have "map (\<lambda>r. fmul F (fdiv r (pdsum rs))) rs =
      map Fin (map (\<lambda>x. f * (x / sum_list xs)) xs)"
    unfolding S by (simp add: rs F nz)
  then have "fsum (map (\<lambda>r. fmul F (fdiv r (pdsum rs))) rs) =
      Fin (sum_list (map (\<lambda>x. f * (x / sum_list xs)) xs))"
    by (simp only: fsum_Fin)
  also have "\<dots> = Fin f" using nz by (simp only: sum_list_scaled) simp
  finally show ?thesis by (simp add: F)
qed

lemma Di_proper:
  assumes "proper_dims l h"
  shows "\<exists>d. d \<noteq> 0 \<and>
     fadd (fmul (Fin 4) (fpow (fdiv h l) 3)) (fmul (Fin 3) (fdiv h l)) = Fin d"
proof -
  obtain a b where l: "l = Fin a" and h: "h = Fin b" and a: "a \<noteq> 0" and b: "b \<noteq> 0"
    using assms by (cases l; cases h) (simp_all add: proper_dims_def)
  define r where "r = b / a"
  have r: "r \<noteq> 0" using a b by (simp add: r_def)
  have "4 * r\<^sup>2 + 3 > 0" by (rule add_nonneg_pos) simp_all
  then have "r * (4 * r\<^sup>2 + 3) \<noteq> 0" using r by simp
  then have nz: "4 * (r * (r * r)) + 3 * r \<noteq> 0"
    by (simp add: algebra_simps power2_eq_square)
  have "fadd (fmul (Fin 4) (fpow (fdiv h l) 3)) (fmul (Fin 3) (fdiv h l)) =
      Fin (4 * (r * (r * r)) + 3 * r)"
    by (simp add: l h a fpow_3 r_def)
  with nz show ?thesis by blast
qed

lemma wall_row_R1_finite:
  assumes "wall_row_R1 ox oy w = Inr b" and "proper_dims (Length_m w) (Height_m w)"
  shows "is_finite (Rix b) \<and> is_finite (Riy b)"
proof -
  have l: "Length_m w \<noteq> Fin 0" using assms(2) by (simp add: proper_dims_def)
  obtain d where d: "d \<noteq> 0"
    "fadd (fmul (Fin 4) (fpow (fdiv (Height_m w) (Length_m w)) 3))
          (fmul (Fin 3) (fdiv (Height_m w) (Length_m w))) = Fin d"
    using Di_proper [OF assms(2)] by blast
  show ?thesis
    using assms(1) l d
    by (auto simp: wall_row_R1_def wall_orientation_factors_R1_def pydiv_def Let_def
        split: if_splits)
qed

lemma build_rows_R1_finite:
  "build_rows_R1 ox oy ws = Inr bs \<Longrightarrow>
   list_all (\<lambda>w. proper_dims (Length_m w) (Height_m w)) ws \<Longrightarrow>
   list_all (\<lambda>b. is_finite (Rix b) \<and> is_finite (Riy b)) bs"
proof (induction ws arbitrary: bs)
  case Nil
  then show ?case by simp
next
  case (Cons w ws)
  then show ?case
    by (auto split: sum.splits dest: wall_row_R1_finite)
qed

lemma orient_rows_v2_finite:
  "orient_rows_v2 gs = Inr rs \<Longrightarrow>
   list_all (\<lambda>g. \<exists>d. d \<noteq> 0 \<and> Di g = Fin d) gs \<Longrightarrow>
   list_all (\<lambda>r. is_finite (Rix r) \<and> is_finite (Riy r)) rs"
proof (induction gs arbitrary: rs)
  case Nil
  then show ?case by simp
next
  case (Cons g gs)
  then show ?case
    by (auto simp: wall_orientation_factors_v2_def pydiv_def Let_def
        split: sum.splits if_splits prod.splits)
qed

lemma geo_columns_v2_proper:
  "list_all (\<lambda>w. proper_dims (Length_m w) (Height_m w)) ws \<Longrightarrow>
   list_all (\<lambda>g. \<exists>d. d \<noteq> 0 \<and> Di g = Fin d) (map (geo_columns_v2 ox oy) ws)"
proof (induction ws)
  case Nil
  then show ?case by simp
next
  case (Cons w ws)
  then show ?case
    using Di_proper [of "Length_m w" "Height_m w"]
    by (auto simp: geo_columns_v2_def Let_def)
qed

lemma sorted_rigs_finite:
  assumes "list_all (\<lambda>r. is_finite (Rix r) \<and> is_finite (Riy r)) rs"
  shows "list_all (\<lambda>b. is_finite (Rix b) \<and> is_finite (Riy b)) (map cor_columns (sort_walls rs))"
  using assms by (simp add: list_all_iff sort_walls_def cor_columns_def)

lemma shear_table_direct:
  "map Direct_Shear_x (shear_table s bs) =
     map (\<lambda>r. fmul (sm_Fx s) (if sm_sum_Rix s \<noteq> Fin 0 then fdiv r (sm_sum_Rix s) else Fin 0))
       (map Rix bs)"
  "map Direct_Shear_y (shear_table s bs) =
     map (\<lambda>r. fmul (sm_Fy s) (if sm_sum_Riy s \<noteq> Fin 0 then fdiv r (sm_sum_Riy s) else Fin 0))
       (map Riy bs)"
  by (simp_all add: shear_table_def shear_columns_sel comp_def)

lemma shear_table_conserves:
  assumes "list_all (\<lambda>b. is_finite (Rix b) \<and> is_finite (Riy b)) bs"
    and s: "sm_sum_Rix s = pdsum (map Rix bs)" "sm_sum_Riy s = pdsum (map Riy bs)"
  shows "sm_sum_Rix s \<noteq> Fin 0 \<Longrightarrow> is_finite (sm_Fx s) \<Longrightarrow>
           fsum (map Direct_Shear_x (shear_table s bs)) = sm_Fx s"
    and "sm_sum_Riy s \<noteq> Fin 0 \<Longrightarrow> is_finite (sm_Fy s) \<Longrightarrow>
           fsum (map Direct_Shear_y (shear_table s bs)) = sm_Fy s"
proof -
  have fx: "list_all is_finite (map Rix bs)" and fy: "list_all is_finite (map Riy bs)"
    using assms(1) by (simp_all add: list_all_iff)
  show "sm_sum_Rix s \<noteq> Fin 0 \<Longrightarrow> is_finite (sm_Fx s) \<Longrightarrow>
           fsum (map Direct_Shear_x (shear_table s bs)) = sm_Fx s"
    using direct_shear_sum [OF fx, of "sm_Fx s"]
    by (simp add: shear_table_direct s)
  show "sm_sum_Riy s \<noteq> Fin 0 \<Longrightarrow> is_finite (sm_Fy s) \<Longrightarrow>
           fsum (map Direct_Shear_y (shear_table s bs)) = sm_Fy s"
    using direct_shear_sum [OF fy, of "sm_Fy s"]
    by (simp add: shear_table_direct s)
qed


lemma base_columns_finite:
  assumes "proper_dims (st_L r) (st_H r)"
  shows "is_finite (st_Ri_EW (base_columns ox oy r)) \<and> is_finite (st_Ri_NS (base_columns ox oy r))"
proof -
  obtain d where "d \<noteq> 0"
    "fadd (fmul (Fin 4) (fpow (fdiv (st_H r) (st_L r)) 3)) (fmul (Fin 3) (fdiv (st_H r) (st_L r)))
       = Fin d"
    using Di_proper [OF assms] by blast
  then show ?thesis by (simp add: base_columns_def Let_def)
qed

lemma st_frame_rows_finite:
  assumes "list_all (\<lambda>w. proper_dims (to_float (w_L w) NaN) (to_float (w_H w) NaN)) walls"
  shows "list_all (\<lambda>b. is_finite (st_Ri_EW b) \<and> is_finite (st_Ri_NS b)) (st_frame_rows walls inp)"
proof -
  have "\<forall>r \<in> set (map coerce_wall walls). proper_dims (st_L r) (st_H r)"
    using assms by (auto simp: list_all_iff coerce_wall_def)
  then show ?thesis
    by (auto simp: list_all_iff st_frame_rows_def base_columns_finite)
qed

lemma compute_rigid_diaph_direct:
  "map st_DirectShear_X (fst (compute_rigid_diaph walls inp)) =
     map (\<lambda>r. fmul (to_float (in_Vx inp) (Fin 0))
                (if g_sum_Ri_EW (snd (compute_rigid_diaph walls inp)) \<noteq> Fin 0
                 then fdiv r (g_sum_Ri_EW (snd (compute_rigid_diaph walls inp))) else NaN))
       (map st_Ri_EW (st_frame_rows walls inp))"
  "map st_DirectShear_Y (fst (compute_rigid_diaph walls inp)) =
     map (\<lambda>r. fmul (to_float (in_Vy inp) (Fin 0))
                (if g_sum_Ri_NS (snd (compute_rigid_diaph walls inp)) \<noteq> Fin 0
                 then fdiv r (g_sum_Ri_NS (snd (compute_rigid_diaph walls inp))) else NaN))
       (map st_Ri_NS (st_frame_rows walls inp))"
  by (simp_all add: compute_rigid_diaph_rows result_columns_sel comp_def)

lemma compute_rigid_diaph_conserves:
  assumes "list_all (\<lambda>w. proper_dims (to_float (w_L w) NaN) (to_float (w_H w) NaN)) walls"
  shows "g_sum_Ri_EW (snd (compute_rigid_diaph walls inp)) \<noteq> Fin 0 \<Longrightarrow>
         is_finite (to_float (in_Vx inp) (Fin 0)) \<Longrightarrow>
           fsum (map st_DirectShear_X (fst (compute_rigid_diaph walls inp))) =
             to_float (in_Vx inp) (Fin 0)"
    and "g_sum_Ri_NS (snd (compute_rigid_diaph walls inp)) \<noteq> Fin 0 \<Longrightarrow>
         is_finite (to_float (in_Vy inp) (Fin 0)) \<Longrightarrow>
           fsum (map st_DirectShear_Y (fst (compute_rigid_diaph walls inp))) =
             to_float (in_Vy inp) (Fin 0)"
proof -
  have fx: "list_all is_finite (map st_Ri_EW (st_frame_rows walls inp))"
    and fy: "list_all is_finite (map st_Ri_NS (st_frame_rows walls inp))"
    using st_frame_rows_finite [OF assms, of inp] by (simp_all add: list_all_iff)
  show "g_sum_Ri_EW (snd (compute_rigid_diaph walls inp)) \<noteq> Fin 0 \<Longrightarrow>
         is_finite (to_float (in_Vx inp) (Fin 0)) \<Longrightarrow>
           fsum (map st_DirectShear_X (fst (compute_rigid_diaph walls inp))) =
             to_float (in_Vx inp) (Fin 0)"
    using direct_shear_sum [OF fx, of "to_float (in_Vx inp) (Fin 0)"]
    by (simp add: compute_rigid_diaph_direct compute_rigid_diaph_sums)
  show "g_sum_Ri_NS (snd (compute_rigid_diaph walls inp)) \<noteq> Fin 0 \<Longrightarrow>
         is_finite (to_float (in_Vy inp) (Fin 0)) \<Longrightarrow>
           fsum (map st_DirectShear_Y (fst (compute_rigid_diaph walls inp))) =
             to_float (in_Vy inp) (Fin 0)"
    using direct_shear_sum [OF fy, of "to_float (in_Vy inp) (Fin 0)"]
    by (simp add: compute_rigid_diaph_direct compute_rigid_diaph_sums)
qed

text \<open>
  C6. For walls with a finite, nonzero length and height and finite forces, whenever the
  solve returns and the rigidity sum of an axis is not zero, the direct shears of that axis
  add up to the force applied along it: the sum of \<open>Direct Shear_x\<close> over the rows is
  \<open>Fx\<close> when the sum of \<open>Rix\<close> is not zero, and the sum of \<open>Direct Shear_y\<close> is \<open>Fy\<close>
  when the sum of \<open>Riy\<close> is not zero. This holds in the console script, in the table
  application and in the spreadsheet-like application. The sums are exact in this model of
  the floats.
\<close>

theorem direct_shear_conservation:
  "(list_all (\<lambda>w. proper_dims (Length_m w) (Height_m w)) walls \<longrightarrow>
      (compute_rigid_diaphragm_R1 inp walls = Inr (rows, s) \<longrightarrow>
         (sm_sum_Rix s \<noteq> Fin 0 \<and> is_finite (inp_Fx inp) \<longrightarrow>
            fsum (map Direct_Shear_x rows) = inp_Fx inp) \<and>
         (sm_sum_Riy s \<noteq> Fin 0 \<and> is_finite (inp_Fy inp) \<longrightarrow>
            fsum (map Direct_Shear_y rows) = inp_Fy inp)) \<and>
      (compute_rigid_diaphragm_v2 inp walls = Inr (rows2, s2) \<longrightarrow>
         (sm_sum_Rix s2 \<noteq> Fin 0 \<and> is_finite (inp_Fx inp) \<longrightarrow>
            fsum (map Direct_Shear_x rows2) = inp_Fx inp) \<and>
         (sm_sum_Riy s2 \<noteq> Fin 0 \<and> is_finite (inp_Fy inp) \<longrightarrow>
            fsum (map Direct_Shear_y rows2) = inp_Fy inp))) \<and>
   (list_all (\<lambda>w. proper_dims (to_float (w_L w) NaN) (to_float (w_H w) NaN)) swalls \<and>
    compute_rigid_diaph swalls sinp = (srows, g) \<longrightarrow>
      (g_sum_Ri_EW g \<noteq> Fin 0 \<and> is_finite (to_float (in_Vx sinp) (Fin 0)) \<longrightarrow>
         fsum (map st_DirectShear_X srows) = to_float (in_Vx sinp) (Fin 0)) \<and>
      (g_sum_Ri_NS g \<noteq> Fin 0 \<and> is_finite (to_float (in_Vy sinp) (Fin 0)) \<longrightarrow>
         fsum (map st_DirectShear_Y srows) = to_float (in_Vy sinp) (Fin 0)))"
proof (intro conjI impI)
  assume p: "list_all (\<lambda>w. proper_dims (Length_m w) (Height_m w)) walls"
    and c: "compute_rigid_diaphragm_R1 inp walls = Inr (rows, s)"
  from c obtain bases where
    b: "build_rows_R1 (inp_X_offset inp) (inp_Y_offset inp) walls = Inr bases"
    and s: "s = cor_summary NaN inp bases" and rows: "rows = shear_table s bases"
    by (rule compute_R1_Inr)
  have fin: "list_all (\<lambda>b. is_finite (Rix b) \<and> is_finite (Riy b)) bases"
    using build_rows_R1_finite [OF b p] .
  have sums: "sm_sum_Rix s = pdsum (map Rix bases)" "sm_sum_Riy s = pdsum (map Riy bases)"
    and f: "sm_Fx s = inp_Fx inp" "sm_Fy s = inp_Fy inp"
    by (simp_all add: s cor_summary_sel)
  note k = shear_table_conserves [OF fin sums]
  { assume "sm_sum_Rix s \<noteq> Fin 0 \<and> is_finite (inp_Fx inp)"
    then show "fsum (map Direct_Shear_x rows) = inp_Fx inp"
      using k(1) by (simp add: rows f) }
  { assume "sm_sum_Riy s \<noteq> Fin 0 \<and> is_finite (inp_Fy inp)"
    then show "fsum (map Direct_Shear_y rows) = inp_Fy inp"
      using k(2) by (simp add: rows f) }
next
  assume p: "list_all (\<lambda>w. proper_dims (Length_m w) (Height_m w)) walls"
    and c: "compute_rigid_diaphragm_v2 inp walls = Inr (rows2, s2)"
  from c obtain rigs c' where
    o: "orient_rows_v2 (map (geo_columns_v2 (inp_X_offset inp) (inp_Y_offset inp)) walls) = Inr rigs"
    and c': "c' = cor_summary (Fin 0) inp (map cor_columns (sort_walls rigs))"
    and s2: "s2 = with_W c' (inp_W inp)"
    and rows: "rows2 = shear_table c' (map cor_columns (sort_walls rigs))"
    by (rule compute_v2_Inr)
  have fin: "list_all (\<lambda>b. is_finite (Rix b) \<and> is_finite (Riy b))
      (map cor_columns (sort_walls rigs))"
    using sorted_rigs_finite [OF orient_rows_v2_finite [OF o geo_columns_v2_proper [OF p]]] .
  have sums: "sm_sum_Rix c' = pdsum (map Rix (map cor_columns (sort_walls rigs)))"
    "sm_sum_Riy c' = pdsum (map Riy (map cor_columns (sort_walls rigs)))"
    and f: "sm_Fx c' = inp_Fx inp" "sm_Fy c' = inp_Fy inp"
    by (simp_all only: c' cor_summary_sel)
  note k = shear_table_conserves [OF fin sums]
  { assume "sm_sum_Rix s2 \<noteq> Fin 0 \<and> is_finite (inp_Fx inp)"
    then show "fsum (map Direct_Shear_x rows2) = inp_Fx inp"
      using k(1) by (simp add: rows f s2) }
  { assume "sm_sum_Riy s2 \<noteq> Fin 0 \<and> is_finite (inp_Fy inp)"
    then show "fsum (map Direct_Shear_y rows2) = inp_Fy inp"
      using k(2) by (simp add: rows f s2) }
next
  assume a: "list_all (\<lambda>w. proper_dims (to_float (w_L w) NaN) (to_float (w_H w) NaN)) swalls \<and>
    compute_rigid_diaph swalls sinp = (srows, g)"
  then have p: "list_all (\<lambda>w. proper_dims (to_float (w_L w) NaN) (to_float (w_H w) NaN)) swalls"
    and r: "fst (compute_rigid_diaph swalls sinp) = srows"
    and g: "snd (compute_rigid_diaph swalls sinp) = g" by simp_all
  note k = compute_rigid_diaph_conserves [OF p, of sinp, unfolded r g]
  { assume "g_sum_Ri_EW g \<noteq> Fin 0 \<and> is_finite (to_float (in_Vx sinp) (Fin 0))"
    then show "fsum (map st_DirectShear_X srows) = to_float (in_Vx sinp) (Fin 0)"
      using k(1) by blast }
  { assume "g_sum_Ri_NS g \<noteq> Fin 0 \<and> is_finite (to_float (in_Vy sinp) (Fin 0))"
    then show "fsum (map st_DirectShear_Y srows) = to_float (in_Vy sinp) (Fin 0)"
      using k(2) by blast }
qed

lemma demo_sums:
  "sm_sum_Rix (snd (projr (compute_rigid_diaphragm_R1 demo_inputs demo_walls))) = Fin (9 / 14)"
  "sm_sum_Riy (snd (projr (compute_rigid_diaphragm_R1 demo_inputs demo_walls))) = Fin (9 / 14)"
  "\<not> isl (compute_rigid_diaphragm_v2 demo_inputs demo_walls)"
  "sm_sum_Rix (snd (projr (compute_rigid_diaphragm_v2 demo_inputs demo_walls))) = Fin (9 / 14)"
  "sm_sum_Riy (snd (projr (compute_rigid_diaphragm_v2 demo_inputs demo_walls))) = Fin (9 / 14)"
  "g_sum_Ri_EW (snd (compute_rigid_diaph demo_st_walls demo_st_inputs)) = Fin (9 / 14)"
  "g_sum_Ri_NS (snd (compute_rigid_diaph demo_st_walls demo_st_inputs)) = Fin (9 / 14)"
  by (simp_all add: R1_eval v2_eval st_eval demo_inputs_def demo_walls_def demo_st_inputs_def
      demo_st_walls_def demo_names cong: let_weak_cong)

lemma demo_proper:
  "list_all (\<lambda>w. proper_dims (Length_m w) (Height_m w)) demo_walls"
  "list_all (\<lambda>w. proper_dims (to_float (w_L w) NaN) (to_float (w_H w) NaN)) demo_st_walls"
  "inp_Fx demo_inputs = Fin 7" "inp_Fy demo_inputs = Fin 5"
  "to_float (in_Vx demo_st_inputs) (Fin 0) = Fin 7"
  "to_float (in_Vy demo_st_inputs) (Fin 0) = Fin 5"
  by (simp_all add: demo_walls_def demo_st_walls_def mk_wall_def mk_st_wall_def proper_dims_def
      to_float_def demo_inputs_def demo_st_inputs_def)

theorem direct_shear_conservation_witness:
  "list_all (\<lambda>w. proper_dims (Length_m w) (Height_m w)) demo_walls \<and>
   list_all (\<lambda>w. proper_dims (to_float (w_L w) NaN) (to_float (w_H w) NaN)) demo_st_walls \<and>
   (\<exists>rows s. compute_rigid_diaphragm_R1 demo_inputs demo_walls = Inr (rows, s) \<and>
      sm_sum_Rix s \<noteq> Fin 0 \<and> sm_sum_Riy s \<noteq> Fin 0 \<and>
      fsum (map Direct_Shear_x rows) = Fin 7 \<and> fsum (map Direct_Shear_y rows) = Fin 5) \<and>
   (\<exists>rows s. compute_rigid_diaphragm_v2 demo_inputs demo_walls = Inr (rows, s) \<and>
      sm_sum_Rix s \<noteq> Fin 0 \<and> sm_sum_Riy s \<noteq> Fin 0 \<and>
      fsum (map Direct_Shear_x rows) = Fin 7 \<and> fsum (map Direct_Shear_y rows) = Fin 5) \<and>
   (\<exists>rows g. compute_rigid_diaph demo_st_walls demo_st_inputs = (rows, g) \<and>
      g_sum_Ri_EW g \<noteq> Fin 0 \<and> g_sum_Ri_NS g \<noteq> Fin 0 \<and>
      fsum (map st_DirectShear_X rows) = Fin 7 \<and> fsum (map st_DirectShear_Y rows) = Fin 5)"
proof -
  obtain rows s where r1: "compute_rigid_diaphragm_R1 demo_inputs demo_walls = Inr (rows, s)"
    using demo_R1_runs by blast
  obtain rows2 s2 where r2: "compute_rigid_diaphragm_v2 demo_inputs demo_walls = Inr (rows2, s2)"
    using demo_v2_runs by blast
  obtain srows g where st: "compute_rigid_diaph demo_st_walls demo_st_inputs = (srows, g)"
    by (cases "compute_rigid_diaph demo_st_walls demo_st_inputs") auto
  have n1: "sm_sum_Rix s \<noteq> Fin 0" "sm_sum_Riy s \<noteq> Fin 0"
    using demo_sums(1,2) r1 by simp_all
  have n2: "sm_sum_Rix s2 \<noteq> Fin 0" "sm_sum_Riy s2 \<noteq> Fin 0"
    using demo_sums(4,5) r2 by simp_all
  have n3: "g_sum_Ri_EW g \<noteq> Fin 0" "g_sum_Ri_NS g \<noteq> Fin 0"
    using demo_sums(6,7) st by simp_all
  note t = direct_shear_conservation [of demo_walls demo_inputs rows s rows2 s2
      demo_st_walls demo_st_inputs srows g]
  have c1: "fsum (map Direct_Shear_x rows) = Fin 7" "fsum (map Direct_Shear_y rows) = Fin 5"
    using t r1 n1 demo_proper by simp_all
  have c2: "fsum (map Direct_Shear_x rows2) = Fin 7" "fsum (map Direct_Shear_y rows2) = Fin 5"
    using t r2 n2 demo_proper by simp_all
  have c3: "fsum (map st_DirectShear_X srows) = Fin 7" "fsum (map st_DirectShear_Y srows) = Fin 5"
    using t st n3 demo_proper by simp_all
  have x1: "\<exists>rows s. compute_rigid_diaphragm_R1 demo_inputs demo_walls = Inr (rows, s) \<and>
      sm_sum_Rix s \<noteq> Fin 0 \<and> sm_sum_Riy s \<noteq> Fin 0 \<and>
      fsum (map Direct_Shear_x rows) = Fin 7 \<and> fsum (map Direct_Shear_y rows) = Fin 5"
    using r1 n1 c1 by (intro exI conjI)
  have x2: "\<exists>rows s. compute_rigid_diaphragm_v2 demo_inputs demo_walls = Inr (rows, s) \<and>
      sm_sum_Rix s \<noteq> Fin 0 \<and> sm_sum_Riy s \<noteq> Fin 0 \<and>
      fsum (map Direct_Shear_x rows) = Fin 7 \<and> fsum (map Direct_Shear_y rows) = Fin 5"
    using r2 n2 c2 by (intro exI conjI)
  have x3: "\<exists>rows g. compute_rigid_diaph demo_st_walls demo_st_inputs = (rows, g) \<and>
      g_sum_Ri_EW g \<noteq> Fin 0 \<and> g_sum_Ri_NS g \<noteq> Fin 0 \<and>
      fsum (map st_DirectShear_X rows) = Fin 7 \<and> fsum (map st_DirectShear_Y rows) = Fin 5"
    using st n3 c3 by (intro exI conjI)
  from demo_proper(1,2) x1 x2 x3 show ?thesis by - (intro conjI; assumption)
qed

end
